theory Spec2Isabelle
  imports Main "HOL-Library.Char_ord" "HOL-Library.List_Lexorder"
begin

section \<open>JavaScript values\<close>

text \<open>
  The service of \<^verbatim>\<open>src/daml/daml.service.ts\<close> talks to three HTTP services (the OAuth
  token endpoint, the ledger's JSON API and the validator's wallet API) and inspects their
  untyped JSON answers. A JSON value is modelled by the datatype below; \<open>JUndefined\<close> is
  JavaScript's \<^verbatim>\<open>undefined\<close> (the value of a missing property). The type \<open>'n\<close> is the
  type of JavaScript numbers: the model never fixes it, every operation on numbers is a
  field of the runtime record further down, so that a theorem holds for IEEE doubles as
  for any other reading of the arithmetic.
\<close>

datatype 'n json =
    JUndefined
  | JNull
  | JBool bool
  | JNum 'n
  | JStr string
  | JArr "'n json list"
  | JObj "(string \<times> 'n json) list"

datatype error =
    Error string
  | TypeError string
  | SyntaxError string
  | RangeError string

text \<open>\<^verbatim>\<open>`${err}`\<close> of an error object: its name, a colon and its message.\<close>

fun error_toString :: "error \<Rightarrow> string" where
  "error_toString (Error m) = ''Error: '' @ m"
| "error_toString (TypeError m) = ''TypeError: '' @ m"
| "error_toString (SyntaxError m) = ''SyntaxError: '' @ m"
| "error_toString (RangeError m) = ''RangeError: '' @ m"

text \<open>
  A property read \<^verbatim>\<open>o.k\<close>. In an object the last binding of a key wins (as in
  \<^verbatim>\<open>JSON.parse\<close>, and as in an object literal that spreads and then overrides);
  reading a property of \<^verbatim>\<open>undefined\<close> or \<^verbatim>\<open>null\<close> raises a TypeError; any other
  value has no own property of interest here and reads as \<^verbatim>\<open>undefined\<close>.
\<close>

fun member :: "'n json \<Rightarrow> string \<Rightarrow> 'n json" where
  "member (JObj kvs) k = (case map_of (rev kvs) k of Some v \<Rightarrow> v | None \<Rightarrow> JUndefined)"
| "member _ k = JUndefined"

fun nullish :: "'n json \<Rightarrow> bool" where
  "nullish JUndefined = True"
| "nullish JNull = True"
| "nullish _ = False"

definition cannotRead :: "string \<Rightarrow> string \<Rightarrow> error" where
  "cannotRead what k =
     TypeError (''Cannot read properties of '' @ what @ '' (reading '' @ [CHR 0x27] @ k @ [CHR 0x27] @ '')'')"

definition get :: "'n json \<Rightarrow> string \<Rightarrow> error + 'n json" where
  "get v k = (case v of
                JUndefined \<Rightarrow> Inl (cannotRead ''undefined'' k)
              | JNull \<Rightarrow> Inl (cannotRead ''null'' k)
              | _ \<Rightarrow> Inr (member v k))"

text \<open>Optional chaining \<^verbatim>\<open>o?.k\<close>: \<^verbatim>\<open>undefined\<close> when \<open>o\<close> is nullish.\<close>

definition opt :: "'n json \<Rightarrow> string \<Rightarrow> 'n json" where
  "opt v k = (if nullish v then JUndefined else member v k)"

section \<open>The runtime: JavaScript built-ins and the outside world\<close>

record 'n request =
  url :: string
  http_method :: string
  headers :: "(string \<times> string) list"
  body :: "'n json option"

record 'n response =
  ok :: bool
  status :: 'n
  body_text :: string

text \<open>
  The built-ins on numbers, dates and JSON text, the network, and the random source.
  \<open>fetch\<close> answers a request given the requests sent before it (so the same request may be
  answered differently over time); \<open>Inl\<close> is a rejected promise (socket error, malformed
  URL). \<open>settled_at\<close> is the time at which the answer arrives. \<open>toISOString\<close> is \<open>None\<close>
  where JavaScript raises a RangeError (an invalid date).
\<close>

record 'n runtime =
  parseFloat :: "string \<Rightarrow> 'n"
  parseInt :: "string \<Rightarrow> 'n"
  number_literal :: "string \<Rightarrow> 'n"
  Number_string :: "string \<Rightarrow> 'n"
  plus_n :: "'n \<Rightarrow> 'n \<Rightarrow> 'n"
  minus_n :: "'n \<Rightarrow> 'n \<Rightarrow> 'n"
  times_n :: "'n \<Rightarrow> 'n \<Rightarrow> 'n"
  abs_n :: "'n \<Rightarrow> 'n"
  less_n :: "'n \<Rightarrow> 'n \<Rightarrow> bool"
  less_eq_n :: "'n \<Rightarrow> 'n \<Rightarrow> bool"
  strict_eq_n :: "'n \<Rightarrow> 'n \<Rightarrow> bool"
  truthy_n :: "'n \<Rightarrow> bool"
  toString_n :: "'n \<Rightarrow> string"
  toFixed_n :: "'n \<Rightarrow> nat \<Rightarrow> string"
  toISOString :: "'n \<Rightarrow> string option"
  Date_parse :: "string \<Rightarrow> 'n"
  JSON_parse :: "string \<Rightarrow> 'n json option"
  fetch :: "'n request list \<Rightarrow> 'n request \<Rightarrow> error + 'n response"
  settled_at :: "'n request list \<Rightarrow> 'n request \<Rightarrow> 'n"
  random36 :: "nat \<Rightarrow> string"

text \<open>Truthiness, and \<^verbatim>\<open>String(v)\<close> (what a template literal inserts).\<close>

fun truthy :: "'n runtime \<Rightarrow> 'n json \<Rightarrow> bool" where
  "truthy rt JUndefined = False"
| "truthy rt JNull = False"
| "truthy rt (JBool b) = b"
| "truthy rt (JNum n) = truthy_n rt n"
| "truthy rt (JStr s) = (s \<noteq> [])"
| "truthy rt (JArr xs) = True"
| "truthy rt (JObj kvs) = True"

text \<open>\<^verbatim>\<open>a || b\<close> on values.\<close>

definition or_else :: "'n runtime \<Rightarrow> 'n json \<Rightarrow> 'n json \<Rightarrow> 'n json" where
  "or_else rt a b = (if truthy rt a then a else b)"

fun join :: "string \<Rightarrow> string list \<Rightarrow> string" where
  "join sep [] = []"
| "join sep [x] = x"
| "join sep (x # y # ys) = x @ sep @ join sep (y # ys)"

fun js_String :: "'n runtime \<Rightarrow> 'n json \<Rightarrow> string" where
  "js_String rt JUndefined = ''undefined''"
| "js_String rt JNull = ''null''"
| "js_String rt (JBool b) = (if b then ''true'' else ''false'')"
| "js_String rt (JNum n) = toString_n rt n"
| "js_String rt (JStr s) = s"
| "js_String rt (JArr xs) = join '','' (map (\<lambda>x. if nullish x then [] else js_String rt x) xs)"
| "js_String rt (JObj kvs) = ''[object Object]''"

section \<open>State and promises\<close>

text \<open>
  The state a call can read and change: the token cache of the service (a \<^verbatim>\<open>Map\<close> from
  audience to token and expiry), the clock \<^verbatim>\<open>Date.now()\<close>, the requests sent so far, the
  number of \<^verbatim>\<open>Math.random()\<close> draws, and the lines written with \<^verbatim>\<open>console.error\<close> and
  \<^verbatim>\<open>console.warn\<close> (\<^verbatim>\<open>console.log\<close> lines are not recorded).
\<close>

record 'n state =
  tokenCache :: "string \<rightharpoonup> ('n json \<times> 'n)"
  clock :: 'n
  sent :: "'n request list"
  draws :: nat
  console_error :: "string list"

type_synonym ('n, 'a) promise = "'n state \<Rightarrow> (error + 'a) \<times> 'n state"

definition resolve :: "'a \<Rightarrow> ('n, 'a) promise" where
  "resolve x s = (Inr x, s)"

definition reject :: "error \<Rightarrow> ('n, 'a) promise" where
  "reject e s = (Inl e, s)"

text \<open>\<open>andThen m f\<close> is \<^verbatim>\<open>const x = await m; f(x)\<close>: a rejection of \<open>m\<close> ends the call.\<close>

definition andThen :: "('n, 'a) promise \<Rightarrow> ('a \<Rightarrow> ('n, 'b) promise) \<Rightarrow> ('n, 'b) promise" where
  "andThen m f s = (case m s of (Inl e, s') \<Rightarrow> (Inl e, s') | (Inr x, s') \<Rightarrow> f x s')"

text \<open>\<^verbatim>\<open>try { m } catch (e) { h(e) }\<close>.\<close>

definition tryCatch :: "('n, 'a) promise \<Rightarrow> (error \<Rightarrow> ('n, 'a) promise) \<Rightarrow> ('n, 'a) promise" where
  "tryCatch m h s = (case m s of (Inl e, s') \<Rightarrow> h e s' | (Inr x, s') \<Rightarrow> (Inr x, s'))"

text \<open>A synchronous computation that may raise, inside an asynchronous function.\<close>

definition lift :: "error + 'a \<Rightarrow> ('n, 'a) promise" where
  "lift r s = (r, s)"

definition consoleError :: "string \<Rightarrow> ('n, unit) promise" where
  "consoleError line s = (Inr (), s\<lparr>console_error := console_error s @ [line]\<rparr>)"

definition Date_now :: "('n, 'n) promise" where
  "Date_now s = (Inr (clock s), s)"

definition Math_random36 :: "'n runtime \<Rightarrow> ('n, string) promise" where
  "Math_random36 rt s = (Inr (random36 rt (draws s)), s\<lparr>draws := Suc (draws s)\<rparr>)"

section \<open>Configuration and core helpers\<close>

record 'n config =
  jsonApiUrl :: string
  packageId :: string
  adminPartyId :: string
  damlUserId :: string
  ccPrice :: 'n
  defaultLtv :: 'n
  amuletPackageId :: string
  dsoPartyId :: string
  validatorWalletUrl :: string
  validatorAuthAudience :: string
  auth0TokenUrl :: string
  auth0ClientId :: string
  auth0ClientSecret :: string
  ledgerApiAuthAudience :: string

definition templateId :: "'n config \<Rightarrow> string \<Rightarrow> string" where
  "templateId cfg moduleName = packageId cfg @ '':'' @ moduleName"

definition amuletTemplateId :: "'n config \<Rightarrow> string \<Rightarrow> string" where
  "amuletTemplateId cfg templateName = amuletPackageId cfg @ '':Splice.Amulet:'' @ templateName"

text \<open>
  \<^verbatim>\<open>customFetch\<close> wraps Node's http client: the model sends the request to the outside
  world, records it, and moves the clock to the time of the answer. The request carries
  the value given to \<^verbatim>\<open>JSON.stringify\<close> as its body.
\<close>

definition customFetch :: "'n runtime \<Rightarrow> 'n request \<Rightarrow> ('n, 'n response) promise" where
  "customFetch rt req s =
     (fetch rt (sent s) req, s\<lparr>sent := sent s @ [req], clock := settled_at rt (sent s) req\<rparr>)"

text \<open>\<^verbatim>\<open>response.json()\<close> and \<^verbatim>\<open>response.text()\<close>.\<close>

definition response_json :: "'n runtime \<Rightarrow> 'n response \<Rightarrow> error + 'n json" where
  "response_json rt r =
     (case JSON_parse rt (body_text r) of
        None \<Rightarrow> Inl (SyntaxError ''Unexpected token in JSON'')
      | Some v \<Rightarrow> Inr v)"

definition tokenRequest :: "'n config \<Rightarrow> string \<Rightarrow> 'n request" where
  "tokenRequest cfg audience =
     \<lparr>url = auth0TokenUrl cfg, http_method = ''POST'',
      headers = [(''Content-Type'', ''application/json'')],
      body = Some (JObj [(''client_id'', JStr (auth0ClientId cfg)),
                         (''client_secret'', JStr (auth0ClientSecret cfg)),
                         (''audience'', JStr audience),
                         (''grant_type'', JStr ''client_credentials'')])\<rparr>"

text \<open>
  \<^verbatim>\<open>data.expires_in - 60\<close> coerces its left operand to a number (ToNumber): a number is
  itself, \<^verbatim>\<open>null\<close> and \<^verbatim>\<open>false\<close> are 0, \<^verbatim>\<open>true\<close> is 1, a string is what \<^verbatim>\<open>Number\<close>
  makes of it, \<^verbatim>\<open>undefined\<close> is \<^verbatim>\<open>NaN\<close> (as is the string \<^verbatim>\<open>'undefined'\<close>), and an
  array or object is coerced through its string form.
\<close>

definition toNumber :: "'n runtime \<Rightarrow> 'n json \<Rightarrow> 'n" where
  "toNumber rt v =
     (case v of
        JNum n \<Rightarrow> n
      | JNull \<Rightarrow> number_literal rt ''0''
      | JBool b \<Rightarrow> number_literal rt (if b then ''1'' else ''0'')
      | JStr s \<Rightarrow> Number_string rt s
      | _ \<Rightarrow> Number_string rt (js_String rt v))"

definition cacheGet :: "string \<Rightarrow> ('n, ('n json \<times> 'n) option) promise" where
  "cacheGet audience s = (Inr (tokenCache s audience), s)"

definition cacheSet :: "string \<Rightarrow> 'n json \<times> 'n \<Rightarrow> ('n, unit) promise" where
  "cacheSet audience entry s = (Inr (), s\<lparr>tokenCache := (tokenCache s)(audience \<mapsto> entry)\<rparr>)"

text \<open>
  \<^verbatim>\<open>getAuth0Token\<close>, the part after the look-up in the cache: the client-credentials
  exchange, whose answer is cached with a margin of 60 seconds. The token is whatever
  \<^verbatim>\<open>data.access_token\<close> is, \<^verbatim>\<open>undefined\<close> included.
\<close>

definition exchangeToken :: "'n runtime \<Rightarrow> 'n config \<Rightarrow> string \<Rightarrow> ('n, 'n json) promise" where
  "exchangeToken rt cfg audience =
     andThen (customFetch rt (tokenRequest cfg audience)) (\<lambda>response.
     if \<not> ok response
     then reject (Error (''Auth0 token request failed ('' @ toString_n rt (status response)
                         @ ''): '' @ body_text response))
     else
       andThen (lift (response_json rt response)) (\<lambda>data.
       andThen (lift (get data ''access_token'')) (\<lambda>token.
       andThen (lift (get data ''expires_in'')) (\<lambda>expires_in.
       andThen Date_now (\<lambda>now.
       let expiresAt = plus_n rt now
             (times_n rt (minus_n rt (toNumber rt expires_in) (number_literal rt ''60''))
                         (number_literal rt ''1000''))
       in andThen (cacheSet audience (token, expiresAt)) (\<lambda>_. resolve token))))))"

text \<open>
  \<^verbatim>\<open>getAuth0Token\<close>: the cached token while \<^verbatim>\<open>cached.expiresAt > Date.now()\<close>, the
  exchange otherwise.
\<close>

definition getAuth0Token :: "'n runtime \<Rightarrow> 'n config \<Rightarrow> string \<Rightarrow> ('n, 'n json) promise" where
  "getAuth0Token rt cfg audience =
     andThen (cacheGet audience) (\<lambda>cached.
     andThen Date_now (\<lambda>now.
     case cached of
       Some (token, expiresAt) \<Rightarrow>
         if less_n rt now expiresAt then resolve token else exchangeToken rt cfg audience
     | None \<Rightarrow> exchangeToken rt cfg audience))"

definition getValidatorToken :: "'n runtime \<Rightarrow> 'n config \<Rightarrow> ('n, 'n json) promise" where
  "getValidatorToken rt cfg = getAuth0Token rt cfg (validatorAuthAudience cfg)"

definition getLedgerApiToken :: "'n runtime \<Rightarrow> 'n config \<Rightarrow> ('n, 'n json) promise" where
  "getLedgerApiToken rt cfg = getAuth0Token rt cfg (ledgerApiAuthAudience cfg)"

section \<open>The wallet API and the ledger API\<close>

definition is_space :: "char \<Rightarrow> bool" where
  "is_space c = (c \<in> {CHR '' '', CHR 0x09, CHR 0x0A, CHR 0x0B, CHR 0x0C, CHR 0x0D})"

text \<open>\<^verbatim>\<open>s.trim()\<close>, on the ASCII white space.\<close>

definition trim :: "string \<Rightarrow> string" where
  "trim s = rev (dropWhile is_space (rev (dropWhile is_space s)))"

text \<open>An optional string parameter is truthy when it is given and not empty.\<close>

definition given :: "string option \<Rightarrow> bool" where
  "given x = (case x of None \<Rightarrow> False | Some v \<Rightarrow> v \<noteq> [])"

definition bearer :: "'n runtime \<Rightarrow> 'n json \<Rightarrow> string \<times> string" where
  "bearer rt token = (''Authorization'', ''Bearer '' @ js_String rt token)"

definition walletRequest ::
  "'n runtime \<Rightarrow> 'n config \<Rightarrow> string \<Rightarrow> string \<Rightarrow> 'n json \<Rightarrow> 'n json \<Rightarrow> 'n request" where
  "walletRequest rt cfg endpoint meth body' token =
     \<lparr>url = validatorWalletUrl cfg @ ''/api/validator/v0/wallet/'' @ endpoint,
      http_method = meth,
      headers = [bearer rt token, (''Content-Type'', ''application/json'')],
      body = (if truthy rt body' then Some body' else None)\<rparr>"

definition walletApiFetch ::
  "'n runtime \<Rightarrow> 'n config \<Rightarrow> string \<Rightarrow> string \<Rightarrow> 'n json \<Rightarrow> string option \<Rightarrow> ('n, 'n json) promise" where
  "walletApiFetch rt cfg endpoint meth body' userToken =
     andThen (if given userToken then resolve (JStr (the userToken)) else getValidatorToken rt cfg) (\<lambda>token.
     andThen (customFetch rt (walletRequest rt cfg endpoint meth body' token)) (\<lambda>response.
     if \<not> ok response
     then reject (Error (''Wallet API error ('' @ toString_n rt (status response) @ ''): ''
                         @ body_text response))
     else if body_text response = [] \<or> trim (body_text response) = [] then resolve (JObj [])
     else (case JSON_parse rt (body_text response) of
             None \<Rightarrow> reject (SyntaxError ''Unexpected token in JSON'')
           | Some v \<Rightarrow> resolve v)))"

definition ledgerEndRequest :: "'n runtime \<Rightarrow> 'n config \<Rightarrow> 'n json \<Rightarrow> 'n request" where
  "ledgerEndRequest rt cfg token =
     \<lparr>url = jsonApiUrl cfg @ ''/v2/state/ledger-end'', http_method = ''GET'',
      headers = [bearer rt token], body = None\<rparr>"

definition getLatestOffset :: "'n runtime \<Rightarrow> 'n config \<Rightarrow> ('n, 'n json) promise" where
  "getLatestOffset rt cfg =
     andThen (getLedgerApiToken rt cfg) (\<lambda>token.
     andThen (customFetch rt (ledgerEndRequest rt cfg token)) (\<lambda>response.
     if \<not> ok response
     then andThen (consoleError ''[DAML] Could not fetch ledger-end, using fallback offset'') (\<lambda>_.
          resolve (JNum (number_literal rt ''999999999'')))
     else
       andThen (lift (response_json rt response)) (\<lambda>data.
       andThen (lift (get data ''offset'')) (\<lambda>offset.
       resolve (or_else rt offset (JNum (number_literal rt ''999999999'')))))))"

text \<open>
  A contract as \<^verbatim>\<open>queryContracts\<close> returns it. The payload type is a parameter: the
  untyped query carries a JSON value, the typed helpers below carry the payload that the
  interfaces of \<^verbatim>\<open>src/daml/interfaces/index.ts\<close> declare.
\<close>

record ('n, 'p) contract =
  contractId :: "'n json"
  contract_templateId :: "'n json"
  payload :: 'p

text \<open>\<^verbatim>\<open>for (const x of v)\<close>: arrays and strings are iterable, nothing else in JSON is.\<close>

definition iterate :: "'n json \<Rightarrow> error + 'n json list" where
  "iterate v = (case v of
       JArr xs \<Rightarrow> Inr xs
     | JStr cs \<Rightarrow> Inr (map (\<lambda>c. JStr [c]) cs)
     | _ \<Rightarrow> Inl (TypeError ''value is not iterable''))"

definition templateFilter :: "string \<Rightarrow> 'n json" where
  "templateFilter tid =
     JObj [(''identifierFilter'',
              JObj [(''TemplateFilter'',
                JObj [(''value'', JObj [(''templateId'', JStr tid),
                                        (''includeCreatedEventBlob'', JBool False)])])]),
           (''templateFilters'', JArr [])]"

text \<open>The body of the loop of \<^verbatim>\<open>queryContracts\<close> over the entries of the answer.\<close>

fun collectContracts :: "'n runtime \<Rightarrow> 'n json list \<Rightarrow> error + ('n, 'n json) contract list" where
  "collectContracts rt [] = Inr []"
| "collectContracts rt (entry # entries) =
     (case get entry ''contractEntry'' of
        Inl e \<Rightarrow> Inl e
      | Inr contractEntry \<Rightarrow>
          let event =
                or_else rt (opt (opt contractEntry ''JsActiveContract'') ''createdEvent'')
               (or_else rt (opt (opt contractEntry ''activeContract'') ''createdEvent'')
               (or_else rt (member entry ''createdEvent'') entry))
          in (case collectContracts rt entries of
                Inl e \<Rightarrow> Inl e
              | Inr contracts \<Rightarrow>
                  if truthy rt (opt event ''contractId'')
                  then Inr (\<lparr>contractId = member event ''contractId'',
                             contract_templateId = member event ''templateId'',
                             payload = or_else rt (member event ''createArgument'')
                                      (or_else rt (member event ''createArguments'')
                                                  (member event ''payload''))\<rparr> # contracts)
                  else Inr contracts))"

definition activeContractsRequest ::
  "'n runtime \<Rightarrow> 'n config \<Rightarrow> string list \<Rightarrow> string list \<Rightarrow> 'n json \<Rightarrow> 'n json \<Rightarrow> 'n request" where
  "activeContractsRequest rt cfg templateIds actAs offset token =
     (let cumulativeFilters = JArr (map templateFilter templateIds);
          filtersByParty = JObj (map (\<lambda>party. (party, JObj [(''cumulative'', cumulativeFilters)])) actAs)
      in \<lparr>url = jsonApiUrl cfg @ ''/v2/state/active-contracts'', http_method = ''POST'',
          headers = [(''Content-Type'', ''application/json''), bearer rt token],
          body = Some (JObj [(''userId'', JStr (damlUserId cfg)),
                             (''filter'', JObj [(''filtersByParty'', filtersByParty)]),
                             (''activeAtOffset'', offset)])\<rparr>)"

definition queryContracts ::
  "'n runtime \<Rightarrow> 'n config \<Rightarrow> string list \<Rightarrow> string list \<Rightarrow> ('n, ('n, 'n json) contract list) promise" where
  "queryContracts rt cfg templateIds actAs =
     andThen (getLatestOffset rt cfg) (\<lambda>offset.
     andThen (getLedgerApiToken rt cfg) (\<lambda>token.
     andThen (customFetch rt (activeContractsRequest rt cfg templateIds actAs offset token)) (\<lambda>response.
     if \<not> ok response
     then andThen (consoleError (''[DAML Query Error] '' @ toString_n rt (status response) @ '': ''
                                 @ body_text response)) (\<lambda>_.
          reject (Error (''DAML Query Error ('' @ toString_n rt (status response) @ ''): ''
                         @ body_text response)))
     else
       andThen (lift (response_json rt response)) (\<lambda>data.
       andThen (lift (iterate data)) (\<lambda>entries.
       lift (collectContracts rt entries))))))"

definition submitUrl :: "'n config \<Rightarrow> string" where
  "submitUrl cfg = jsonApiUrl cfg @ ''/v2/commands/submit-and-wait-for-transaction''"

definition submitRequest ::
  "'n runtime \<Rightarrow> 'n config \<Rightarrow> string \<Rightarrow> 'n json list \<Rightarrow> string list \<Rightarrow> 'n json \<Rightarrow> 'n request" where
  "submitRequest rt cfg commandId commands actAs token =
     \<lparr>url = submitUrl cfg, http_method = ''POST'',
      headers = [(''Content-Type'', ''application/json''), bearer rt token],
      body = Some (JObj [(''commands'',
               JObj [(''userId'', JStr (damlUserId cfg)),
                     (''commandId'', JStr commandId),
                     (''commands'', JArr commands),
                     (''actAs'', JArr (map JStr actAs)),
                     (''readAs'', JArr [])])])\<rparr>"

definition submitCommand ::
  "'n runtime \<Rightarrow> 'n config \<Rightarrow> 'n json list \<Rightarrow> string list \<Rightarrow> ('n, 'n json) promise" where
  "submitCommand rt cfg commands actAs =
     andThen Date_now (\<lambda>now.
     andThen (Math_random36 rt) (\<lambda>suffix.
     let commandId = ''rhein-'' @ toString_n rt now @ ''-'' @ suffix in
     andThen (getLedgerApiToken rt cfg) (\<lambda>token.
     andThen (customFetch rt (submitRequest rt cfg commandId commands actAs token)) (\<lambda>response.
     if \<not> ok response
     then andThen (consoleError (''[DAML Command Error] '' @ toString_n rt (status response) @ '': ''
                                 @ body_text response)) (\<lambda>_.
          reject (Error (''DAML Command Error ('' @ toString_n rt (status response) @ ''): ''
                         @ body_text response)))
     else lift (response_json rt response)))))"

definition createCmd :: "string \<Rightarrow> 'n json \<Rightarrow> 'n json" where
  "createCmd tid createArguments =
     JObj [(''CreateCommand'', JObj [(''templateId'', JStr tid), (''createArguments'', createArguments)])]"

definition exerciseCmd :: "string \<Rightarrow> 'n json \<Rightarrow> string \<Rightarrow> 'n json \<Rightarrow> 'n json" where
  "exerciseCmd tid cid choice choiceArgument =
     JObj [(''ExerciseCommand'',
            JObj [(''templateId'', JStr tid), (''contractId'', cid),
                  (''choice'', JStr choice), (''choiceArgument'', choiceArgument)])]"

text \<open>\<^verbatim>\<open>result.transaction?.events || []\<close>, then an iteration or a \<^verbatim>\<open>map\<close> over it.\<close>

definition transactionEvents :: "'n runtime \<Rightarrow> 'n json \<Rightarrow> error + 'n json" where
  "transactionEvents rt result =
     (case get result ''transaction'' of
        Inl e \<Rightarrow> Inl e
      | Inr tx \<Rightarrow> Inr (or_else rt (opt tx ''events'') (JArr [])))"

fun firstExerciseResult :: "'n json list \<Rightarrow> error + 'n json" where
  "firstExerciseResult [] = Inr JUndefined"
| "firstExerciseResult (event # events) =
     (case get event ''ExercisedEvent'' of
        Inl e \<Rightarrow> Inl e
      | Inr wrapped \<Rightarrow>
          if opt wrapped ''exerciseResult'' \<noteq> JUndefined then Inr (opt wrapped ''exerciseResult'')
          else if opt (member event ''exercised'') ''exerciseResult'' \<noteq> JUndefined
          then Inr (opt (member event ''exercised'') ''exerciseResult'')
          else firstExerciseResult events)"

definition getExerciseResult :: "'n runtime \<Rightarrow> 'n json \<Rightarrow> error + 'n json" where
  "getExerciseResult rt result =
     (case transactionEvents rt result of
        Inl e \<Rightarrow> Inl e
      | Inr events \<Rightarrow>
          (case iterate events of Inl e \<Rightarrow> Inl e | Inr es \<Rightarrow> firstExerciseResult es))"

fun firstCreatedContractId :: "'n runtime \<Rightarrow> 'n json list \<Rightarrow> error + 'n json" where
  "firstCreatedContractId rt [] = Inr JUndefined"
| "firstCreatedContractId rt (event # events) =
     (case get event ''CreatedEvent'' of
        Inl e \<Rightarrow> Inl e
      | Inr wrapped \<Rightarrow>
          if truthy rt (opt wrapped ''contractId'') then Inr (opt wrapped ''contractId'')
          else if truthy rt (opt (member event ''created'') ''contractId'')
          then Inr (opt (member event ''created'') ''contractId'')
          else firstCreatedContractId rt events)"

definition getCreatedContractId :: "'n runtime \<Rightarrow> 'n json \<Rightarrow> error + 'n json" where
  "getCreatedContractId rt result =
     (case transactionEvents rt result of
        Inl e \<Rightarrow> Inl e
      | Inr events \<Rightarrow>
          (case iterate events of Inl e \<Rightarrow> Inl e | Inr es \<Rightarrow> firstCreatedContractId rt es))"

section \<open>Typed contracts\<close>

text \<open>
  The query helpers return the contracts of \<^verbatim>\<open>queryContracts\<close> under the interface types
  \<^verbatim>\<open>AssetHolding\<close>, \<^verbatim>\<open>LockedAssetHolding\<close>, \<^verbatim>\<open>Amulet\<close>, \<^verbatim>\<open>LockedAmulet\<close> and
  \<^verbatim>\<open>ActiveLoan\<close>. The assertion is not checked when the program runs: the helpers return
  the contracts as they came, and it is the caller's first read \<^verbatim>\<open>c.payload.k\<close> that raises
  a TypeError when the payload is \<^verbatim>\<open>undefined\<close> or \<^verbatim>\<open>null\<close> (a contract that came
  without \<^verbatim>\<open>createArgument\<close>). The model takes the typed view of a contract at that read:
  \<open>asAssetHolding\<close> and its siblings fail with the TypeError of the property read first,
  and otherwise carry the declared fields of the payload. The fields are declared strings;
  a string is read as it is, and a field that is absent reads as the empty string (falsy,
  not a number, no party and no asset type). The nested objects that the service never
  reads (\<^verbatim>\<open>createdAt\<close>, \<^verbatim>\<open>ratePerRound\<close>, \<^verbatim>\<open>lock\<close>) raise nothing when they are absent.
\<close>

record AssetHoldingPayload =
  issuer :: string
  owner :: string
  custodian :: string
  assetType :: string
  amount :: string

record LockedAssetHoldingPayload = AssetHoldingPayload +
  lockReason :: string
  releaseTo :: string

record AmuletAmount =
  initialAmount :: string
  createdAt_number :: string
  ratePerRound_rate :: string

record AmuletPayload =
  dso :: string
  amulet_owner :: string
  amulet_amount :: AmuletAmount

record LockedAmuletPayload =
  amulet :: AmuletPayload
  lock_holders :: "string list"
  lock_expiresAt :: string

record ActiveLoanPayload =
  borrower :: string
  lender :: string
  ccCollateralReference :: string
  principal :: string
  collateralAmount :: string
  interestRate :: string
  maturityDate :: string
  originationDate :: string
  loan_ccPrice :: string
  stablecoinType :: string

type_synonym 'n AssetHolding = "('n, AssetHoldingPayload) contract"
type_synonym 'n LockedAssetHolding = "('n, LockedAssetHoldingPayload) contract"
type_synonym 'n Amulet = "('n, AmuletPayload) contract"
type_synonym 'n LockedAmulet = "('n, LockedAmuletPayload) contract"
type_synonym 'n ActiveLoan = "('n, ActiveLoanPayload) contract"

definition field :: "'n runtime \<Rightarrow> 'n json \<Rightarrow> string \<Rightarrow> string" where
  "field rt v k = (case member v k of JStr s \<Rightarrow> s | JUndefined \<Rightarrow> [] | JNull \<Rightarrow> []
                   | w \<Rightarrow> js_String rt w)"

definition typed :: "('n json \<Rightarrow> 'p) \<Rightarrow> ('n, 'n json) contract \<Rightarrow> ('n, 'p) contract" where
  "typed read c = \<lparr>contractId = contractId c, contract_templateId = contract_templateId c,
                   payload = read (payload c)\<rparr>"

text \<open>
  The read \<^verbatim>\<open>c.payload.k\<^sub>1. ... .k\<^sub>n\<close> with which a caller first touches a contract: it
  raises at the first object on the path that is \<^verbatim>\<open>undefined\<close> or \<^verbatim>\<open>null\<close>.
\<close>

fun readPath :: "'n json \<Rightarrow> string list \<Rightarrow> error + 'n json" where
  "readPath v [] = Inr v"
| "readPath v (k # ks) = (case get v k of Inl e \<Rightarrow> Inl e | Inr w \<Rightarrow> readPath w ks)"

definition typedAt ::
  "string list \<Rightarrow> ('n json \<Rightarrow> 'p) \<Rightarrow> ('n, 'n json) contract \<Rightarrow> error + ('n, 'p) contract" where
  "typedAt path read c = (case readPath (payload c) path of Inl e \<Rightarrow> Inl e | Inr _ \<Rightarrow> Inr (typed read c))"

definition asAssetHoldingPayload :: "'n runtime \<Rightarrow> 'n json \<Rightarrow> AssetHoldingPayload" where
  "asAssetHoldingPayload rt v =
     \<lparr>issuer = field rt v ''issuer'', owner = field rt v ''owner'',
      custodian = field rt v ''custodian'', assetType = field rt v ''assetType'',
      amount = field rt v ''amount''\<rparr>"

definition asLockedAssetHoldingPayload :: "'n runtime \<Rightarrow> 'n json \<Rightarrow> LockedAssetHoldingPayload" where
  "asLockedAssetHoldingPayload rt v =
     \<lparr>issuer = field rt v ''issuer'', owner = field rt v ''owner'',
      custodian = field rt v ''custodian'', assetType = field rt v ''assetType'',
      amount = field rt v ''amount'', lockReason = field rt v ''lockReason'',
      releaseTo = field rt v ''releaseTo''\<rparr>"

definition asAmuletAmount :: "'n runtime \<Rightarrow> 'n json \<Rightarrow> AmuletAmount" where
  "asAmuletAmount rt v =
     \<lparr>initialAmount = field rt v ''initialAmount'',
      createdAt_number = field rt (member v ''createdAt'') ''number'',
      ratePerRound_rate = field rt (member v ''ratePerRound'') ''rate''\<rparr>"

definition asAmuletPayload :: "'n runtime \<Rightarrow> 'n json \<Rightarrow> AmuletPayload" where
  "asAmuletPayload rt v =
     \<lparr>dso = field rt v ''dso'', amulet_owner = field rt v ''owner'',
      amulet_amount = asAmuletAmount rt (member v ''amount'')\<rparr>"

definition asLockedAmuletPayload :: "'n runtime \<Rightarrow> 'n json \<Rightarrow> LockedAmuletPayload" where
  "asLockedAmuletPayload rt v =
     \<lparr>amulet = asAmuletPayload rt (member v ''amulet''),
      lock_holders = (case member (member v ''lock'') ''holders'' of
                        JArr hs \<Rightarrow> map (js_String rt) hs | _ \<Rightarrow> []),
      lock_expiresAt = field rt (member v ''lock'') ''expiresAt''\<rparr>"

definition asActiveLoanPayload :: "'n runtime \<Rightarrow> 'n json \<Rightarrow> ActiveLoanPayload" where
  "asActiveLoanPayload rt v =
     \<lparr>borrower = field rt v ''borrower'', lender = field rt v ''lender'',
      ccCollateralReference = field rt v ''ccCollateralReference'',
      principal = field rt v ''principal'', collateralAmount = field rt v ''collateralAmount'',
      interestRate = field rt v ''interestRate'', maturityDate = field rt v ''maturityDate'',
      originationDate = field rt v ''originationDate'', loan_ccPrice = field rt v ''ccPrice'',
      stablecoinType = field rt v ''stablecoinType''\<rparr>"

text \<open>
  The typed views, by the first read of their callers: a holding is first read at
  \<^verbatim>\<open>h.payload.assetType\<close> (the filter of every caller), an amulet at
  \<^verbatim>\<open>a.payload.amount.initialAmount\<close> and a locked amulet at
  \<^verbatim>\<open>a.payload.amulet.amount.initialAmount\<close> (the sums of \<^verbatim>\<open>calculateAmuletAmount\<close>), and
  a loan at the property that the caller names (\<^verbatim>\<open>borrower\<close> in the balances, \<^verbatim>\<open>lender\<close> in
  \<^verbatim>\<open>repayLoan\<close>, \<^verbatim>\<open>maturityDate\<close> in \<^verbatim>\<open>defaultLoan\<close>). \<open>mapE\<close> reads a list in its order
  and stops at the first contract that raises, as \<^verbatim>\<open>filter\<close> and \<^verbatim>\<open>reduce\<close> do.
\<close>

definition asAssetHolding :: "'n runtime \<Rightarrow> ('n, 'n json) contract \<Rightarrow> error + 'n AssetHolding" where
  "asAssetHolding rt = typedAt [''assetType''] (asAssetHoldingPayload rt)"

definition asLockedAssetHolding ::
  "'n runtime \<Rightarrow> ('n, 'n json) contract \<Rightarrow> error + 'n LockedAssetHolding" where
  "asLockedAssetHolding rt = typedAt [''assetType''] (asLockedAssetHoldingPayload rt)"

definition asAmulet :: "'n runtime \<Rightarrow> ('n, 'n json) contract \<Rightarrow> error + 'n Amulet" where
  "asAmulet rt = typedAt [''amount'', ''initialAmount''] (asAmuletPayload rt)"

definition asLockedAmulet :: "'n runtime \<Rightarrow> ('n, 'n json) contract \<Rightarrow> error + 'n LockedAmulet" where
  "asLockedAmulet rt = typedAt [''amulet'', ''amount'', ''initialAmount''] (asLockedAmuletPayload rt)"

definition asActiveLoan :: "'n runtime \<Rightarrow> string \<Rightarrow> ('n, 'n json) contract \<Rightarrow> error + 'n ActiveLoan" where
  "asActiveLoan rt first = typedAt [first] (asActiveLoanPayload rt)"

fun mapE :: "('a \<Rightarrow> error + 'b) \<Rightarrow> 'a list \<Rightarrow> error + 'b list" where
  "mapE f [] = Inr []"
| "mapE f (x # xs) =
     (case f x of
        Inl e \<Rightarrow> Inl e
      | Inr y \<Rightarrow> (case mapE f xs of Inl e \<Rightarrow> Inl e | Inr ys \<Rightarrow> Inr (y # ys)))"

definition queryAssetHoldings ::
  "'n runtime \<Rightarrow> 'n config \<Rightarrow> string \<Rightarrow> ('n, ('n, 'n json) contract list) promise" where
  "queryAssetHoldings rt cfg partyId =
     queryContracts rt cfg [templateId cfg ''Holding:AssetHolding''] [partyId]"

definition queryLockedAssetHoldings ::
  "'n runtime \<Rightarrow> 'n config \<Rightarrow> string \<Rightarrow> ('n, ('n, 'n json) contract list) promise" where
  "queryLockedAssetHoldings rt cfg partyId =
     queryContracts rt cfg [templateId cfg ''Holding:LockedAssetHolding''] [partyId]"

definition calculateAmuletAmount :: "'n runtime \<Rightarrow> AmuletAmount \<Rightarrow> 'n" where
  "calculateAmuletAmount rt a = parseFloat rt (initialAmount a)"

definition queryAmulets ::
  "'n runtime \<Rightarrow> 'n config \<Rightarrow> string \<Rightarrow> ('n, ('n, 'n json) contract list) promise" where
  "queryAmulets rt cfg partyId = queryContracts rt cfg [amuletTemplateId cfg ''Amulet''] [partyId]"

definition queryLockedAmulets ::
  "'n runtime \<Rightarrow> 'n config \<Rightarrow> string \<Rightarrow> ('n, ('n, 'n json) contract list) promise" where
  "queryLockedAmulets rt cfg partyId = queryContracts rt cfg [amuletTemplateId cfg ''LockedAmulet''] [partyId]"

definition queryActiveLoans ::
  "'n runtime \<Rightarrow> 'n config \<Rightarrow> string \<Rightarrow> ('n, ('n, 'n json) contract list) promise" where
  "queryActiveLoans rt cfg partyId =
     queryContracts rt cfg [templateId cfg ''ActiveLoanHybrid:ActiveLoanHybrid''] [partyId]"

section \<open>Token balances\<close>

record 'n TokenBalance =
  balance_assetType :: string
  available :: 'n
  locked :: 'n
  borrowed :: 'n
  total :: 'n

record 'n TokenBalances =
  usdc :: "'n TokenBalance"
  cc :: "'n TokenBalance"

text \<open>\<^verbatim>\<open>xs.reduce((sum, x) => sum + f(x), 0)\<close>.\<close>

definition sumOf :: "'n runtime \<Rightarrow> ('a \<Rightarrow> 'n) \<Rightarrow> 'a list \<Rightarrow> 'n" where
  "sumOf rt f xs = foldl (\<lambda>sum x. plus_n rt sum (f x)) (number_literal rt ''0'') xs"

definition getTokenBalances :: "'n runtime \<Rightarrow> 'n config \<Rightarrow> string \<Rightarrow> ('n, 'n TokenBalances) promise" where
  "getTokenBalances rt cfg partyId =
     andThen (queryAssetHoldings rt cfg partyId) (\<lambda>holdings.
     andThen (queryLockedAssetHoldings rt cfg partyId) (\<lambda>lockedHoldings.
     andThen (queryActiveLoans rt cfg partyId) (\<lambda>activeLoans.
     andThen (lift (mapE (asAssetHolding rt) holdings)) (\<lambda>holdings.
     andThen (lift (mapE (asLockedAssetHolding rt) lockedHoldings)) (\<lambda>lockedHoldings.
     andThen (lift (mapE (asActiveLoan rt ''borrower'') activeLoans)) (\<lambda>activeLoans.
     let usdcAvailable = sumOf rt (\<lambda>h. parseFloat rt (amount (payload h)))
           (filter (\<lambda>h. assetType (payload h) = ''USDC'' \<and> owner (payload h) = partyId) holdings);
         usdcLocked = sumOf rt (\<lambda>h. parseFloat rt (amount (payload h)))
           (filter (\<lambda>h. assetType (payload h) = ''USDC'' \<and> owner (payload h) = partyId) lockedHoldings);
         usdcBorrowed = sumOf rt (\<lambda>loan. parseFloat rt (principal (payload loan)))
           (filter (\<lambda>loan. borrower (payload loan) = partyId) activeLoans)
     in
     andThen (queryAmulets rt cfg partyId) (\<lambda>amulets.
     andThen (queryLockedAmulets rt cfg partyId) (\<lambda>lockedAmulets.
     andThen (lift (mapE (asAmulet rt) amulets)) (\<lambda>amulets.
     andThen (lift (mapE (asLockedAmulet rt) lockedAmulets)) (\<lambda>lockedAmulets.
     let ccAvailable = sumOf rt (\<lambda>a. calculateAmuletAmount rt (amulet_amount (payload a))) amulets;
         ccLocked = sumOf rt (\<lambda>a. calculateAmuletAmount rt (amulet_amount (amulet (payload a)))) lockedAmulets
     in resolve
       \<lparr>usdc = \<lparr>balance_assetType = ''USDC'', available = usdcAvailable, locked = usdcLocked,
                borrowed = usdcBorrowed, total = plus_n rt usdcAvailable usdcLocked\<rparr>,
        cc = \<lparr>balance_assetType = ''CC'', available = ccAvailable, locked = ccLocked,
              borrowed = number_literal rt ''0'', total = plus_n rt ccAvailable ccLocked\<rparr>\<rparr>))))))))))"

section \<open>Token operations (USDC holdings)\<close>

text \<open>
  The contract id of the split-off holding, read from the result of the \<^verbatim>\<open>Split\<close> choice:
  \<^verbatim>\<open>exerciseResult?._1 || (Array.isArray(exerciseResult) ? exerciseResult[0] : undefined)
  || (typeof exerciseResult === 'string' ? exerciseResult : undefined)\<close>.
\<close>

definition splitAmountCidOf :: "'n runtime \<Rightarrow> 'n json \<Rightarrow> 'n json" where
  "splitAmountCidOf rt exerciseResult =
     or_else rt (opt exerciseResult ''_1'')
    (or_else rt (case exerciseResult of JArr (x # _) \<Rightarrow> x | _ \<Rightarrow> JUndefined)
                (case exerciseResult of JStr _ \<Rightarrow> exerciseResult | _ \<Rightarrow> JUndefined))"

text \<open>\<^verbatim>\<open>v.map(f)\<close> on a value that must be an array.\<close>

definition arrayOf :: "'n json \<Rightarrow> error + 'n json list" where
  "arrayOf v = (case v of JArr xs \<Rightarrow> Inr xs | _ \<Rightarrow> Inl (TypeError ''map is not a function''))"

text \<open>
  \<^verbatim>\<open>events.map(e => e.CreatedEvent || e.created).filter(e => e?.contractId)\<close> over
  \<^verbatim>\<open>splitResult.transaction?.events || []\<close>.
\<close>

definition createdEventsOf :: "'n runtime \<Rightarrow> 'n json \<Rightarrow> error + 'n json list" where
  "createdEventsOf rt result =
     (case transactionEvents rt result of
        Inl e \<Rightarrow> Inl e
      | Inr events \<Rightarrow>
          (case arrayOf events of
             Inl e \<Rightarrow> Inl e
           | Inr es \<Rightarrow>
               (case mapE (\<lambda>e. case get e ''CreatedEvent'' of
                                 Inl err \<Rightarrow> Inl err
                               | Inr c \<Rightarrow> Inr (or_else rt c (member e ''created''))) es of
                  Inl e \<Rightarrow> Inl e
                | Inr cs \<Rightarrow> Inr (filter (\<lambda>e. truthy rt (opt e ''contractId'')) cs))))"

definition isUsdcOf :: "string \<Rightarrow> 'n AssetHolding \<Rightarrow> bool" where
  "isUsdcOf partyId h = (assetType (payload h) = ''USDC'' \<and> owner (payload h) = partyId)"

definition holdingAmount :: "'n runtime \<Rightarrow> 'n AssetHolding \<Rightarrow> 'n" where
  "holdingAmount rt h = parseFloat rt (amount (payload h))"

definition splitCommand :: "'n runtime \<Rightarrow> 'n config \<Rightarrow> 'n AssetHolding \<Rightarrow> 'n \<Rightarrow> 'n json" where
  "splitCommand rt cfg largeEnough amount' =
     exerciseCmd (templateId cfg ''Holding:AssetHolding'') (contractId largeEnough) ''Split''
       (JObj [(''splitAmount'', JStr (toString_n rt amount'))])"

text \<open>
  The successor holding as the service writes it down after a split:
  \<^verbatim>\<open>{ contractId: cid, payload: { ...largeEnough.payload, amount: amount.toString() } }\<close>.
\<close>

definition successor :: "'n runtime \<Rightarrow> 'n json \<Rightarrow> 'n AssetHolding \<Rightarrow> 'n \<Rightarrow> 'n AssetHolding" where
  "successor rt cid largeEnough amount' =
     \<lparr>contractId = cid, contract_templateId = JUndefined,
      payload = (payload largeEnough)\<lparr>amount := toString_n rt amount'\<rparr>\<rparr>"

text \<open>
  \<^verbatim>\<open>lockUSDC\<close>, first part (up to the assignment of \<^verbatim>\<open>holdingToLock\<close>): the holding
  to lock, found or split off.
\<close>

definition lockUSDC_holdingToLock ::
  "'n runtime \<Rightarrow> 'n config \<Rightarrow> string \<Rightarrow> 'n \<Rightarrow> ('n, 'n AssetHolding) promise" where
  "lockUSDC_holdingToLock rt cfg partyId amount' =
     andThen (queryAssetHoldings rt cfg partyId) (\<lambda>holdings.
     andThen (lift (mapE (asAssetHolding rt) holdings)) (\<lambda>holdings.
     let usdcHoldings = filter (isUsdcOf partyId) holdings in
     if usdcHoldings = [] then reject (Error (''No USDC holdings found for party '' @ partyId))
     else
       (case find (\<lambda>h. strict_eq_n rt (holdingAmount rt h) amount') usdcHoldings of
          Some exactMatch \<Rightarrow> resolve exactMatch
        | None \<Rightarrow>
            (case find (\<lambda>h. less_eq_n rt amount' (holdingAmount rt h)) usdcHoldings of
               None \<Rightarrow>
                 reject (Error (''Insufficient USDC balance. Need '' @ toString_n rt amount'
                                @ '', have '' @ toString_n rt (sumOf rt (holdingAmount rt) usdcHoldings)))
             | Some largeEnough \<Rightarrow>
                 andThen (submitCommand rt cfg [splitCommand rt cfg largeEnough amount'] [partyId]) (\<lambda>splitResult.
                 andThen (lift (getExerciseResult rt splitResult)) (\<lambda>exerciseResult.
                 let splitAmountCid = splitAmountCidOf rt exerciseResult in
                 if truthy rt splitAmountCid
                 then resolve (successor rt splitAmountCid largeEnough amount')
                 else
                   andThen (lift (createdEventsOf rt splitResult)) (\<lambda>createdEvents.
                   if createdEvents \<noteq> []
                   then resolve (successor rt (member (hd createdEvents) ''contractId'') largeEnough amount')
                   else
                     andThen (consoleError ''Split result structure:'') (\<lambda>_.
                     reject (Error ''Split did not return expected contract IDs'')))))))))"

text \<open>\<^verbatim>\<open>lockUSDC\<close>: the holding found above is locked with the \<^verbatim>\<open>Lock\<close> choice.\<close>

definition lockUSDC ::
  "'n runtime \<Rightarrow> 'n config \<Rightarrow> string \<Rightarrow> 'n \<Rightarrow> string \<Rightarrow> string \<Rightarrow> ('n, 'n json) promise" where
  "lockUSDC rt cfg partyId amount' lockReason' releaseTo' =
     andThen (lockUSDC_holdingToLock rt cfg partyId amount') (\<lambda>holdingToLock.
     andThen (submitCommand rt cfg
        [exerciseCmd (templateId cfg ''Holding:AssetHolding'') (contractId holdingToLock) ''Lock''
           (JObj [(''lockReason'', JStr lockReason'), (''releaseTo'', JStr releaseTo')])]
        [partyId]) (\<lambda>lockResult.
     andThen (lift (getExerciseResult rt lockResult)) (\<lambda>lockedCid.
     andThen (if \<not> truthy rt lockedCid \<or> (case lockedCid of JStr _ \<Rightarrow> False | _ \<Rightarrow> True)
              then lift (getCreatedContractId rt lockResult) else resolve lockedCid) (\<lambda>lockedCid.
     if \<not> truthy rt lockedCid
     then andThen (consoleError ''Lock result structure:'') (\<lambda>_.
          reject (Error ''Lock did not return expected contract ID''))
     else resolve lockedCid))))"

section \<open>Canton Coin (Amulet) operations\<close>

definition lockAmulet ::
  "'n runtime \<Rightarrow> 'n config \<Rightarrow> string \<Rightarrow> 'n \<Rightarrow> string \<Rightarrow> string \<Rightarrow> string option \<Rightarrow> ('n, 'n json) promise" where
  "lockAmulet rt cfg partyId amount' lockHolder expiresAt userToken =
     andThen (queryAmulets rt cfg partyId) (\<lambda>amulets.
     if amulets = []
     then reject (Error (''No Canton Coin (Amulet) holdings found for party '' @ partyId))
     else
       andThen (lift (mapE (asAmulet rt) amulets)) (\<lambda>amulets.
       let totalCC = sumOf rt (\<lambda>a. calculateAmuletAmount rt (amulet_amount (payload a))) amulets in
       if less_n rt totalCC amount'
       then reject (Error (''Insufficient CC balance. Need '' @ toString_n rt amount' @ '', have ''
                           @ toFixed_n rt totalCC 4))
       else
         let expiresAtMicros = times_n rt (Date_parse rt expiresAt) (number_literal rt ''1000'') in
         andThen Date_now (\<lambda>now.
         andThen (Math_random36 rt) (\<lambda>suffix.
         let trackingId = ''collateral-'' @ toString_n rt now @ ''-'' @ suffix in
         andThen (walletApiFetch rt cfg ''transfer-offers'' ''POST''
            (JObj [(''receiver_party_id'', JStr lockHolder),
                   (''amount'', JStr (toString_n rt amount')),
                   (''description'', JStr (''Loan collateral: '' @ toString_n rt amount'
                                           @ '' CC locked until '' @ expiresAt)),
                   (''expires_at'', JNum expiresAtMicros),
                   (''tracking_id'', JStr trackingId)])
            userToken) (\<lambda>result.
         lift (get result ''offer_contract_id''))))))"

definition unlockAmulet ::
  "'n runtime \<Rightarrow> 'n config \<Rightarrow> string \<Rightarrow> string \<Rightarrow> string option \<Rightarrow> ('n, string) promise" where
  "unlockAmulet rt cfg transferOfferCid partyId userToken =
     andThen (walletApiFetch rt cfg (''transfer-offers/'' @ transferOfferCid @ ''/withdraw'') ''POST''
                (JObj []) userToken) (\<lambda>_.
     resolve transferOfferCid)"

section \<open>Loan offers and active loans\<close>

datatype OfferType = BorrowerBid | LenderAsk

fun offerTypeName :: "OfferType \<Rightarrow> string" where
  "offerTypeName BorrowerBid = ''BorrowerBid''"
| "offerTypeName LenderAsk = ''LenderAsk''"

record offer =
  offerType :: OfferType
  offer_loanAmount :: string
  offer_collateralAmount :: string
  offer_interestRate :: string
  offer_maturityDate :: string

text \<open>\<^verbatim>\<open>new Date().toISOString().split('T')[0]\<close>.\<close>

definition today :: "'n runtime \<Rightarrow> ('n, string) promise" where
  "today rt s = (case toISOString rt (clock s) of
                   None \<Rightarrow> (Inl (RangeError ''Invalid time value''), s)
                 | Some isoString \<Rightarrow> (Inr (takeWhile (\<lambda>c. c \<noteq> CHR ''T'') isoString), s))"

text \<open>\<^verbatim>\<open>new Date(maturityDate + 'T23:59:59Z').toISOString()\<close>.\<close>

definition endOfDay :: "'n runtime \<Rightarrow> string \<Rightarrow> error + string" where
  "endOfDay rt maturityDate' =
     (case toISOString rt (Date_parse rt (maturityDate' @ ''T23:59:59Z'')) of
        None \<Rightarrow> Inl (RangeError ''Invalid time value'')
      | Some isoString \<Rightarrow> Inr isoString)"

definition offerArguments ::
  "'n runtime \<Rightarrow> 'n config \<Rightarrow> string \<Rightarrow> offer \<Rightarrow> 'n json \<Rightarrow> 'n json \<Rightarrow> string \<Rightarrow> 'n json" where
  "offerArguments rt cfg partyId offer' lockedCCCollateral lockedUSDCPrincipal today' =
     JObj [(''initiator'', JStr partyId),
           (''counterparty'', JNull),
           (''offerType'', JStr (offerTypeName (offerType offer'))),
           (''lockedCCCollateral'', lockedCCCollateral),
           (''lockedUSDCPrincipal'', lockedUSDCPrincipal),
           (''loanAmount'', JStr (offer_loanAmount offer')),
           (''collateralAmount'', JStr (offer_collateralAmount offer')),
           (''interestRate'', JStr (offer_interestRate offer')),
           (''maturityDate'', JStr (offer_maturityDate offer')),
           (''ltvRatio'', JStr (toString_n rt (defaultLtv cfg))),
           (''ccPrice'', JStr (toString_n rt (ccPrice cfg))),
           (''stablecoinType'', JStr ''USDC''),
           (''createdAt'', JStr today'),
           (''observers'', JArr [JStr (adminPartyId cfg)])]"

definition createLoanOffer ::
  "'n runtime \<Rightarrow> 'n config \<Rightarrow> string \<Rightarrow> offer \<Rightarrow> string option \<Rightarrow> ('n, 'n json) promise" where
  "createLoanOffer rt cfg partyId offer' userToken =
     andThen (today rt) (\<lambda>today'.
     andThen
       (if offerType offer' = BorrowerBid
        then
          andThen (lift (endOfDay rt (offer_maturityDate offer'))) (\<lambda>expiresAt.
          andThen (lockAmulet rt cfg partyId (parseFloat rt (offer_collateralAmount offer'))
                     (adminPartyId cfg) expiresAt userToken) (\<lambda>lockedCid.
          resolve (lockedCid, JNull)))
        else
          andThen (lockUSDC rt cfg partyId (parseFloat rt (offer_loanAmount offer'))
                     (''LenderAsk for '' @ offer_loanAmount offer' @ '' USDC loan'') partyId) (\<lambda>lockedCid.
          resolve (JNull, lockedCid)))
       (\<lambda>(lockedCCCollateral, lockedUSDCPrincipal).
     submitCommand rt cfg
       [createCmd (templateId cfg ''LoanOfferHybrid:LoanOfferHybrid'')
          (offerArguments rt cfg partyId offer' lockedCCCollateral lockedUSDCPrincipal today')]
       [partyId]))"

text \<open>
  \<^verbatim>\<open>repayLoan\<close>, the part that finds or splits the holding used for repayment (up to the
  assignment of \<^verbatim>\<open>repaymentHoldingCid\<close>).
\<close>

definition repayLoan_repaymentHoldingCid ::
  "'n runtime \<Rightarrow> 'n config \<Rightarrow> string \<Rightarrow> 'n \<Rightarrow> ('n, 'n json) promise" where
  "repayLoan_repaymentHoldingCid rt cfg partyId repaymentAmount =
     andThen (queryAssetHoldings rt cfg partyId) (\<lambda>holdings.
     andThen (lift (mapE (asAssetHolding rt) holdings)) (\<lambda>holdings.
     let usdcHoldings = filter (isUsdcOf partyId) holdings in
     if usdcHoldings = [] then reject (Error ''No USDC holdings found for repayment'')
     else
       (case find (\<lambda>h. less_n rt (abs_n rt (minus_n rt (holdingAmount rt h) repaymentAmount))
                                 (number_literal rt ''0.01'')) usdcHoldings of
          Some exactMatch \<Rightarrow> resolve (contractId exactMatch)
        | None \<Rightarrow>
            (case find (\<lambda>h. less_eq_n rt repaymentAmount (holdingAmount rt h)) usdcHoldings of
               None \<Rightarrow>
                 reject (Error (''Insufficient USDC for repayment. Need '' @ toString_n rt repaymentAmount
                                @ '', have '' @ toString_n rt (sumOf rt (holdingAmount rt) usdcHoldings)))
             | Some largeEnough \<Rightarrow>
                 andThen (submitCommand rt cfg [splitCommand rt cfg largeEnough repaymentAmount] [partyId]) (\<lambda>splitResult.
                 andThen (lift (getExerciseResult rt splitResult)) (\<lambda>exerciseResult.
                 andThen (if truthy rt (splitAmountCidOf rt exerciseResult)
                          then resolve (splitAmountCidOf rt exerciseResult)
                          else lift (getCreatedContractId rt splitResult)) (\<lambda>repaymentHoldingCid.
                 if \<not> truthy rt repaymentHoldingCid
                 then andThen (consoleError ''Split result for repayment:'') (\<lambda>_.
                      reject (Error ''Failed to split holdings for repayment''))
                 else resolve repaymentHoldingCid)))))))"

definition findLoan ::
  "string \<Rightarrow> ('n, 'n json) contract list \<Rightarrow> ('n, 'n json) contract option" where
  "findLoan loanContractId loans = find (\<lambda>l. contractId l = JStr loanContractId) loans"

definition repayLoan ::
  "'n runtime \<Rightarrow> 'n config \<Rightarrow> string \<Rightarrow> string \<Rightarrow> 'n \<Rightarrow> string option \<Rightarrow> ('n, 'n json) promise" where
  "repayLoan rt cfg partyId loanContractId repaymentAmount userToken =
     andThen (today rt) (\<lambda>today'.
     andThen (queryActiveLoans rt cfg partyId) (\<lambda>loans.
     case findLoan loanContractId loans of
       None \<Rightarrow> reject (Error (''Loan '' @ loanContractId @ '' not found''))
     | Some loan \<Rightarrow>
         andThen (lift (asActiveLoan rt ''lender'' loan)) (\<lambda>loan.
         andThen (repayLoan_repaymentHoldingCid rt cfg partyId repaymentAmount) (\<lambda>repaymentHoldingCid.
         andThen (submitCommand rt cfg
            [exerciseCmd (templateId cfg ''ActiveLoanHybrid:ActiveLoanHybrid'') (JStr loanContractId)
               ''RepayHybrid''
               (JObj [(''repaymentDate'', JStr today'), (''repaymentHoldingCid'', repaymentHoldingCid)])]
            [partyId, lender (payload loan)]) (\<lambda>repayResult.
         let ccCollateralRef = ccCollateralReference (payload loan) in
         andThen (if ccCollateralRef \<noteq> []
                  then tryCatch
                         (andThen (unlockAmulet rt cfg ccCollateralRef partyId userToken) (\<lambda>_. resolve ()))
                         (\<lambda>unlockErr. consoleError (''[Amulet] Failed to unlock CC collateral: ''
                                                      @ error_toString unlockErr))
                  else resolve ()) (\<lambda>_.
         resolve repayResult))))))"

definition defaultLoan ::
  "'n runtime \<Rightarrow> 'n config \<Rightarrow> string \<Rightarrow> string \<Rightarrow> string option \<Rightarrow> string option \<Rightarrow> ('n, 'n json) promise" where
  "defaultLoan rt cfg partyId loanContractId overrideClaimDate userToken =
     andThen (today rt) (\<lambda>today'.
     andThen (queryActiveLoans rt cfg partyId) (\<lambda>loans.
     case findLoan loanContractId loans of
       None \<Rightarrow> reject (Error (''Loan '' @ loanContractId @ '' not found''))
     | Some loan \<Rightarrow>
         let claimDate = (if given overrideClaimDate then the overrideClaimDate else today') in
         andThen (lift (asActiveLoan rt ''maturityDate'' loan)) (\<lambda>loan.
         if claimDate < maturityDate (payload loan)
         then reject (Error (''Loan has not matured yet. Maturity date: '' @ maturityDate (payload loan)
                             @ '', claim date: '' @ claimDate))
         else
           andThen (submitCommand rt cfg
              [exerciseCmd (templateId cfg ''ActiveLoanHybrid:ActiveLoanHybrid'') (JStr loanContractId)
                 ''ClaimDefaultHybrid'' (JObj [(''claimDate'', JStr claimDate)])]
              [partyId, borrower (payload loan)]) (\<lambda>defaultResult.
           let ccCollateralRef = ccCollateralReference (payload loan) in
           andThen (if ccCollateralRef \<noteq> []
                    then tryCatch
                           (andThen (walletApiFetch rt cfg (''transfer-offers/'' @ ccCollateralRef @ ''/accept'')
                                       ''POST'' (JObj []) userToken) (\<lambda>_. resolve ()))
                           (\<lambda>claimErr. consoleError (''[Amulet] Failed to claim CC collateral: ''
                                                       @ error_toString claimErr))
                    else resolve ()) (\<lambda>_.
           resolve defaultResult)))))"

section \<open>Transaction explorer\<close>

datatype EventType = created | archived | exercised

record 'n TransactionEvent =
  eventType :: EventType
  event_contractId :: "'n json"
  event_templateId :: "'n json"
  eventId :: "'n json"
  event_payload :: "'n json"
  choice :: "'n json"
  argument :: "'n json"

record 'n Transaction =
  transactionId :: "'n json"
  effectiveAt :: "'n json"
  tx_offset :: string
  events :: "'n TransactionEvent list"

text \<open>The callback of \<^verbatim>\<open>(tx.events || []).map(...)\<close>.\<close>

definition normalizeEvent :: "'n runtime \<Rightarrow> 'n json \<Rightarrow> error + 'n TransactionEvent" where
  "normalizeEvent rt e =
     (case get e ''CreatedEvent'' of
        Inl err \<Rightarrow> Inl err
      | Inr c \<Rightarrow>
          let created' = or_else rt c (member e ''created'');
              exercised' = or_else rt (member e ''ExercisedEvent'') (member e ''exercised'');
              archived' = or_else rt (member e ''ArchivedEvent'') (member e ''archived'')
          in
          if truthy rt created' then
            Inr \<lparr>eventType = created, event_contractId = member created' ''contractId'',
                 event_templateId = member created' ''templateId'',
                 eventId = or_else rt (member created' ''eventId'') (JStr []),
                 event_payload = or_else rt (member created' ''createArgument'')
                                            (member created' ''createArguments''),
                 choice = JUndefined, argument = JUndefined\<rparr>
          else if truthy rt exercised' then
            Inr \<lparr>eventType = exercised, event_contractId = member exercised' ''contractId'',
                 event_templateId = member exercised' ''templateId'',
                 eventId = or_else rt (member exercised' ''eventId'') (JStr []),
                 event_payload = JUndefined,
                 choice = member exercised' ''choice'', argument = member exercised' ''choiceArgument''\<rparr>
          else if truthy rt archived' then
            Inr \<lparr>eventType = archived, event_contractId = member archived' ''contractId'',
                 event_templateId = member archived' ''templateId'',
                 eventId = or_else rt (member archived' ''eventId'') (JStr []),
                 event_payload = JUndefined, choice = JUndefined, argument = JUndefined\<rparr>
          else
            Inr \<lparr>eventType = created, event_contractId = or_else rt (member e ''contractId'') (JStr []),
                 event_templateId = or_else rt (member e ''templateId'') (JStr []),
                 eventId = or_else rt (member e ''eventId'') (JStr []),
                 event_payload = member e ''payload'',
                 choice = JUndefined, argument = JUndefined\<rparr>)"

text \<open>The transaction inside an update, under the nestings the ledger may use.\<close>

definition unwrapTransaction :: "'n runtime \<Rightarrow> 'n json \<Rightarrow> error + 'n json" where
  "unwrapTransaction rt obj =
     (case get obj ''update'' of
        Inl e \<Rightarrow> Inl e
      | Inr update \<Rightarrow>
          Inr (or_else rt (opt (opt update ''Transaction'') ''value'')
              (or_else rt (opt (opt update ''transaction'') ''value'')
              (or_else rt (opt update ''Transaction'')
              (or_else rt (opt update ''transaction'')
              (or_else rt (member obj ''transaction'') obj))))))"

text \<open>The loop of \<^verbatim>\<open>getTransactionStream\<close> over the decoded items.\<close>

fun decodeTransactions :: "'n runtime \<Rightarrow> 'n json list \<Rightarrow> error + 'n Transaction list" where
  "decodeTransactions rt [] = Inr []"
| "decodeTransactions rt (obj # items) =
     (case unwrapTransaction rt obj of
        Inl e \<Rightarrow> Inl e
      | Inr tx \<Rightarrow>
          if \<not> truthy rt (opt tx ''updateId'') \<and> \<not> truthy rt (opt tx ''transactionId'')
          then decodeTransactions rt items
          else
            (case arrayOf (or_else rt (member tx ''events'') (JArr [])) of
               Inl e \<Rightarrow> Inl e
             | Inr es \<Rightarrow>
                 (case mapE (normalizeEvent rt) es of
                    Inl e \<Rightarrow> Inl e
                  | Inr evs \<Rightarrow>
                      (case decodeTransactions rt items of
                         Inl e \<Rightarrow> Inl e
                       | Inr transactions \<Rightarrow>
                           Inr (\<lparr>transactionId = or_else rt (member tx ''updateId'') (member tx ''transactionId''),
                                 effectiveAt = member tx ''effectiveAt'',
                                 tx_offset = js_String rt (member tx ''offset''),
                                 events = evs\<rparr> # transactions)))))"

text \<open>\<^verbatim>\<open>text.split('\n')\<close>.\<close>

fun splitOn :: "char \<Rightarrow> string \<Rightarrow> string list" where
  "splitOn c [] = [[]]"
| "splitOn c (x # xs) =
     (if x = c then [] # splitOn c xs
      else (case splitOn c xs of l # ls \<Rightarrow> (x # l) # ls | [] \<Rightarrow> [[x]]))"

text \<open>The items of the answer: one JSON document, or else one document per line.\<close>

definition streamItems :: "'n runtime \<Rightarrow> string \<Rightarrow> 'n json list" where
  "streamItems rt txt =
     (case JSON_parse rt txt of
        Some parsed \<Rightarrow> (case parsed of JArr xs \<Rightarrow> xs | _ \<Rightarrow> [parsed])
      | None \<Rightarrow>
          filter (truthy rt)
            (map (\<lambda>l. case JSON_parse rt l of Some v \<Rightarrow> v | None \<Rightarrow> JNull)
               (filter (\<lambda>l. trim l \<noteq> []) (splitOn (CHR 0x0A) txt))))"

definition streamRequestBody :: "'n runtime \<Rightarrow> string \<Rightarrow> string option \<Rightarrow> 'n json" where
  "streamRequestBody rt partyId fromOffset =
     JObj [(''beginExclusive'',
              JNum (if given fromOffset then parseInt rt (the fromOffset) else number_literal rt ''0'')),
           (''filter'', JObj [(''filtersByParty'',
              JObj [(partyId, JObj [(''cumulative'',
                JArr [JObj [(''identifierFilter'',
                  JObj [(''WildcardFilter'',
                    JObj [(''value'', JObj [(''includeCreatedEventBlob'', JBool False)])])])]])])])]),
           (''verbose'', JBool True)]"

definition updatesRequest ::
  "'n runtime \<Rightarrow> 'n config \<Rightarrow> string \<Rightarrow> string option \<Rightarrow> 'n json \<Rightarrow> 'n request" where
  "updatesRequest rt cfg partyId fromOffset token =
     \<lparr>url = jsonApiUrl cfg @ ''/v2/updates/flats'', http_method = ''POST'',
      headers = [(''Content-Type'', ''application/json''), bearer rt token],
      body = Some (streamRequestBody rt partyId fromOffset)\<rparr>"

definition getTransactionStream ::
  "'n runtime \<Rightarrow> 'n config \<Rightarrow> string \<Rightarrow> string option \<Rightarrow> ('n, 'n Transaction list) promise" where
  "getTransactionStream rt cfg partyId fromOffset =
     andThen (getLedgerApiToken rt cfg) (\<lambda>token.
     andThen (customFetch rt (updatesRequest rt cfg partyId fromOffset token)) (\<lambda>response.
     if \<not> ok response
     then reject (Error (''Failed to fetch transactions: '' @ toString_n rt (status response) @ '' - ''
                         @ body_text response))
     else
       andThen (lift (decodeTransactions rt (streamItems rt (body_text response)))) (\<lambda>transactions.
       resolve (take 50 transactions))))"



section \<open>Wallet operations\<close>

text \<open>
  \<^verbatim>\<open>transferUSDC\<close>, first part (up to the assignment of \<^verbatim>\<open>holdingToTransfer\<close>).
\<close>

definition transferUSDC_holdingToTransfer ::
  "'n runtime \<Rightarrow> 'n config \<Rightarrow> string \<Rightarrow> 'n \<Rightarrow> ('n, 'n AssetHolding) promise" where
  "transferUSDC_holdingToTransfer rt cfg senderPartyId amount' =
     andThen (queryAssetHoldings rt cfg senderPartyId) (\<lambda>holdings.
     andThen (lift (mapE (asAssetHolding rt) holdings)) (\<lambda>holdings.
     let usdcHoldings = filter (isUsdcOf senderPartyId) holdings in
     if usdcHoldings = [] then reject (Error (''No USDC holdings found for party '' @ senderPartyId))
     else
       (case find (\<lambda>h. strict_eq_n rt (holdingAmount rt h) amount') usdcHoldings of
          Some exactMatch \<Rightarrow> resolve exactMatch
        | None \<Rightarrow>
            (case find (\<lambda>h. less_eq_n rt amount' (holdingAmount rt h)) usdcHoldings of
               None \<Rightarrow>
                 reject (Error (''Insufficient USDC balance. Need '' @ toString_n rt amount'
                                @ '', have '' @ toString_n rt (sumOf rt (holdingAmount rt) usdcHoldings)))
             | Some largeEnough \<Rightarrow>
                 andThen (submitCommand rt cfg [splitCommand rt cfg largeEnough amount'] [senderPartyId]) (\<lambda>splitResult.
                 andThen (lift (getExerciseResult rt splitResult)) (\<lambda>exerciseResult.
                 let splitAmountCid = splitAmountCidOf rt exerciseResult in
                 if truthy rt splitAmountCid
                 then resolve (successor rt splitAmountCid largeEnough amount')
                 else
                   andThen (lift (createdEventsOf rt splitResult)) (\<lambda>createdEvents.
                   if createdEvents \<noteq> []
                   then resolve (successor rt (member (hd createdEvents) ''contractId'') largeEnough amount')
                   else reject (Error ''Split did not return expected contract IDs''))))))))"

record 'n transferReceipt =
  success :: bool
  transferred :: 'n
  sender :: string
  recipient :: string
  receipt_transactionId :: "'n json"

definition transferUSDC ::
  "'n runtime \<Rightarrow> 'n config \<Rightarrow> string \<Rightarrow> string \<Rightarrow> 'n \<Rightarrow> ('n, 'n transferReceipt) promise" where
  "transferUSDC rt cfg senderPartyId recipientPartyId amount' =
     andThen (transferUSDC_holdingToTransfer rt cfg senderPartyId amount') (\<lambda>holdingToTransfer.
     andThen (submitCommand rt cfg
        [exerciseCmd (templateId cfg ''Holding:AssetHolding'') (contractId holdingToTransfer) ''Transfer''
           (JObj [(''newOwner'', JStr recipientPartyId)])]
        [senderPartyId, recipientPartyId]) (\<lambda>transferResult.
     andThen (lift (get transferResult ''transaction'')) (\<lambda>tx.
     resolve \<lparr>success = True, transferred = amount', sender = senderPartyId,
              recipient = recipientPartyId, receipt_transactionId = opt tx ''transactionId''\<rparr>)))"

section \<open>What the requests of a call say\<close>

text \<open>
  The command lists submitted to the ledger so far: the \<^verbatim>\<open>commands\<close> of every request
  sent to the submit endpoint.
\<close>

definition commandsOf :: "'n config \<Rightarrow> 'n request \<Rightarrow> 'n json list" where
  "commandsOf cfg r =
     (case body r of
        Some b \<Rightarrow>
          if url r = submitUrl cfg \<and> member b ''commands'' \<noteq> JUndefined
          then [member (member b ''commands'') ''commands''] else []
      | None \<Rightarrow> [])"

definition submitted :: "'n config \<Rightarrow> 'n state \<Rightarrow> 'n json list" where
  "submitted cfg s = concat (map (commandsOf cfg) (sent s))"

text \<open>The token exchanges made so far: the requests that carry the client-credentials grant.\<close>

definition isExchange :: "'n request \<Rightarrow> bool" where
  "isExchange r = (case body r of
                     Some b \<Rightarrow> member b ''grant_type'' = JStr ''client_credentials''
                   | None \<Rightarrow> False)"

definition exchanges :: "'n state \<Rightarrow> 'n request list" where
  "exchanges s = filter isExchange (sent s)"

text \<open>A call that submits no command to the ledger, whatever the state it starts in.\<close>

definition quiet :: "'n config \<Rightarrow> ('n, 'a) promise \<Rightarrow> bool" where
  "quiet cfg m = (\<forall>s. submitted cfg (snd (m s)) = submitted cfg s)"

section \<open>The ledger's split of a holding\<close>

text \<open>
  Modelled from the spec: the \<^verbatim>\<open>Split\<close> choice of the \<^verbatim>\<open>Holding:AssetHolding\<close> template
  runs on the ledger (a Daml package named by \<^verbatim>\<open>PACKAGE_ID\<close>) and is not part of the
  sources; the service only exercises it and reads the contract ids it returns. The spec
  describes it: "splitting a holding archives it and creates two successor holdings whose
  amounts sum to the original", into \<open>{exact, remainder}\<close>, for a target \<open>0 < X < A\<close>.
  A ledger amount is a decimal with ten fractional digits, represented here by its count
  of units of \<open>10\<^sup>-\<^sup>1\<^sup>0\<close>, so that sums and differences are exact.
\<close>

record ledgerHolding =
  holding_owner :: string
  holding_assetType :: string
  units :: int

definition ledgerSplit :: "ledgerHolding \<Rightarrow> int \<Rightarrow> ledgerHolding list option" where
  "ledgerSplit h x =
     (if 0 < x \<and> x < units h then Some [h\<lparr>units := x\<rparr>, h\<lparr>units := units h - x\<rparr>] else None)"

section \<open>A runtime for the examples\<close>

text \<open>
  The examples run the service on a runtime with exact decimal arithmetic: a number is
  \<open>NaN\<close> or a decimal \<open>m / 10\<^sup>k\<close>. It is not IEEE arithmetic: it never rounds, so it
  agrees with doubles only where the result in doubles is exact too (\<open>500.01 - 500\<close> is
  \<open>0.01\<close> here and a little less in doubles), and it writes every number in positional
  notation (doubles below \<open>10\<^sup>-\<^sup>6\<close> are written with an exponent). The examples use
  amounts on which both agree. \<open>parseFloat\<close> reads an optional sign, digits and an
  optional fraction (no exponent).
\<close>

datatype dec = NaN | Dec int nat

fun dec_less :: "dec \<Rightarrow> dec \<Rightarrow> bool" where
  "dec_less (Dec m k) (Dec n l) = (m * 10 ^ l < n * 10 ^ k)"
| "dec_less _ _ = False"

fun dec_less_eq :: "dec \<Rightarrow> dec \<Rightarrow> bool" where
  "dec_less_eq (Dec m k) (Dec n l) = (m * 10 ^ l \<le> n * 10 ^ k)"
| "dec_less_eq _ _ = False"

fun dec_eq :: "dec \<Rightarrow> dec \<Rightarrow> bool" where
  "dec_eq (Dec m k) (Dec n l) = (m * 10 ^ l = n * 10 ^ k)"
| "dec_eq _ _ = False"

fun dec_plus :: "dec \<Rightarrow> dec \<Rightarrow> dec" where
  "dec_plus (Dec m k) (Dec n l) = Dec (m * 10 ^ (max k l - k) + n * 10 ^ (max k l - l)) (max k l)"
| "dec_plus _ _ = NaN"

fun dec_minus :: "dec \<Rightarrow> dec \<Rightarrow> dec" where
  "dec_minus (Dec m k) (Dec n l) = Dec (m * 10 ^ (max k l - k) - n * 10 ^ (max k l - l)) (max k l)"
| "dec_minus _ _ = NaN"

fun dec_times :: "dec \<Rightarrow> dec \<Rightarrow> dec" where
  "dec_times (Dec m k) (Dec n l) = Dec (m * n) (k + l)"
| "dec_times _ _ = NaN"

fun dec_abs :: "dec \<Rightarrow> dec" where
  "dec_abs (Dec m k) = Dec \<bar>m\<bar> k"
| "dec_abs NaN = NaN"

fun dec_truthy :: "dec \<Rightarrow> bool" where
  "dec_truthy (Dec m k) = (m \<noteq> 0)"
| "dec_truthy NaN = False"

definition digitChar :: "nat \<Rightarrow> char" where
  "digitChar d = (case d of 0 \<Rightarrow> CHR ''0'' | Suc 0 \<Rightarrow> CHR ''1'' | Suc (Suc 0) \<Rightarrow> CHR ''2''
     | Suc (Suc (Suc 0)) \<Rightarrow> CHR ''3'' | Suc (Suc (Suc (Suc 0))) \<Rightarrow> CHR ''4''
     | Suc (Suc (Suc (Suc (Suc 0)))) \<Rightarrow> CHR ''5''
     | Suc (Suc (Suc (Suc (Suc (Suc 0))))) \<Rightarrow> CHR ''6''
     | Suc (Suc (Suc (Suc (Suc (Suc (Suc 0)))))) \<Rightarrow> CHR ''7''
     | Suc (Suc (Suc (Suc (Suc (Suc (Suc (Suc 0))))))) \<Rightarrow> CHR ''8''
     | _ \<Rightarrow> CHR ''9'')"

fun showNat :: "nat \<Rightarrow> string" where
  "showNat n = (if n < 10 then [digitChar n] else showNat (n div 10) @ [digitChar (n mod 10)])"

declare showNat.simps [simp del]

text \<open>The digits of \<open>m / 10\<^sup>k\<close>, trailing zeros of the fraction dropped.\<close>

fun showDec :: "nat \<Rightarrow> nat \<Rightarrow> string" where
  "showDec m 0 = showNat m"
| "showDec m (Suc k) =
     (if m mod 10 = 0 then showDec (m div 10) k
      else showNat (m div 10 ^ Suc k) @ ''.''
           @ replicate (Suc k - length (showNat (m mod 10 ^ Suc k))) (CHR ''0'')
           @ showNat (m mod 10 ^ Suc k))"

fun dec_toString :: "dec \<Rightarrow> string" where
  "dec_toString NaN = ''NaN''"
| "dec_toString (Dec m k) = (if m < 0 then ''-'' else []) @ showDec (nat \<bar>m\<bar>) k"

text \<open>\<^verbatim>\<open>toFixed(d)\<close>, for a number that is not negative.\<close>

fun dec_toFixed :: "dec \<Rightarrow> nat \<Rightarrow> string" where
  "dec_toFixed NaN d = ''NaN''"
| "dec_toFixed (Dec m k) d =
     (let r = nat ((m * 10 ^ d + 10 ^ k div 2) div 10 ^ k)
      in if d = 0 then showNat r
         else showNat (r div 10 ^ d) @ ''.''
              @ replicate (d - length (showNat (r mod 10 ^ d))) (CHR ''0'') @ showNat (r mod 10 ^ d))"

definition isDigit :: "char \<Rightarrow> bool" where
  "isDigit c = (c \<in> set ''0123456789'')"

definition digitOf :: "char \<Rightarrow> nat" where
  "digitOf c = (case map_of (zip ''0123456789'' [0, 1, 2, 3, 4, 5, 6, 7, 8, 9]) c of
                  Some d \<Rightarrow> d | None \<Rightarrow> 0)"

definition natOfDigits :: "string \<Rightarrow> nat" where
  "natOfDigits ds = foldl (\<lambda>a c. 10 * a + digitOf c) 0 ds"

definition signOf :: "string \<Rightarrow> int \<times> string" where
  "signOf t = (case t of
                 c # r \<Rightarrow> if c = CHR ''-'' then (- 1, r) else if c = CHR ''+'' then (1, r) else (1, t)
               | [] \<Rightarrow> (1, []))"

definition dec_parseFloat :: "string \<Rightarrow> dec" where
  "dec_parseFloat s =
     (let (sign, u) = signOf (dropWhile is_space s);
          ip = takeWhile isDigit u;
          rest = dropWhile isDigit u;
          fp = (case rest of c # r \<Rightarrow> if c = CHR ''.'' then takeWhile isDigit r else [] | [] \<Rightarrow> [])
      in if ip = [] \<and> fp = [] then NaN
         else Dec (sign * int (natOfDigits (ip @ fp))) (length fp))"

definition dec_parseInt :: "string \<Rightarrow> dec" where
  "dec_parseInt s =
     (let (sign, u) = signOf (dropWhile is_space s);
          ip = takeWhile isDigit u
      in if ip = [] then NaN else Dec (sign * int (natOfDigits ip)) 0)"

text \<open>
  \<^verbatim>\<open>Number(s)\<close> of a string: 0 for the empty or blank string, the decimal when the whole
  string (blanks trimmed) is a sign, digits and an optional fraction, and \<open>NaN\<close> otherwise.
\<close>

definition dec_Number :: "string \<Rightarrow> dec" where
  "dec_Number s =
     (let t = trim s;
          (sign, u) = signOf t;
          ip = takeWhile isDigit u;
          rest = dropWhile isDigit u;
          fp = (case rest of c # r \<Rightarrow> if c = CHR ''.'' then r else [] | [] \<Rightarrow> [])
      in if t = [] then Dec 0 0
         else if (ip = [] \<and> fp = []) \<or> \<not> list_all isDigit fp
                 \<or> (case rest of c # r \<Rightarrow> c \<noteq> CHR ''.'' | [] \<Rightarrow> False)
         then NaN
         else Dec (sign * int (natOfDigits (ip @ fp))) (length fp))"

text \<open>
  The dates and JSON texts of the examples are tabulated: \<open>dates\<close> pairs a time in
  milliseconds with its ISO string, \<open>parses\<close> pairs a date string with its time, and
  \<open>documents\<close> pairs a JSON text with its value. The answers of the three services are
  the parameter \<open>answer\<close>; every answer arrives at the time \<open>arrival\<close>.
\<close>

definition testRuntime ::
  "(int \<times> string) list \<Rightarrow> (string \<times> int) list \<Rightarrow> (string \<times> dec json) list
   \<Rightarrow> (dec request \<Rightarrow> error + dec response) \<Rightarrow> dec \<Rightarrow> dec runtime" where
  "testRuntime dates parses documents answer arrival =
     \<lparr>parseFloat = dec_parseFloat, parseInt = dec_parseInt, number_literal = dec_parseFloat,
      Number_string = dec_Number, plus_n = dec_plus, minus_n = dec_minus, times_n = dec_times, abs_n = dec_abs,
      less_n = dec_less, less_eq_n = dec_less_eq, strict_eq_n = dec_eq, truthy_n = dec_truthy,
      toString_n = dec_toString, toFixed_n = dec_toFixed,
      toISOString = (\<lambda>t. case t of Dec m 0 \<Rightarrow> map_of dates m | _ \<Rightarrow> None),
      Date_parse = (\<lambda>d. case map_of parses d of Some m \<Rightarrow> Dec m 0 | None \<Rightarrow> NaN),
      JSON_parse = map_of documents,
      fetch = (\<lambda>history. answer),
      settled_at = (\<lambda>history request. arrival),
      random36 = (\<lambda>n. ''k3x9'' @ showNat n)\<rparr>"

definition testConfig :: "dec config" where
  "testConfig =
     \<lparr>jsonApiUrl = ''http://ledger:7575'', packageId = ''pkg'', adminPartyId = ''admin::1220aa'',
      damlUserId = ''administrator'', ccPrice = Dec 125 3, defaultLtv = Dec 5 1,
      amuletPackageId = ''splice'', dsoPartyId = ''dso::1220bb'',
      validatorWalletUrl = ''http://wallet:5003'',
      validatorAuthAudience = ''https://validator.rhein.finance'',
      auth0TokenUrl = ''https://auth/oauth/token'', auth0ClientId = ''client'',
      auth0ClientSecret = ''secret'', ledgerApiAuthAudience = ''https://canton.network.global''\<rparr>"

definition okResponse :: "string \<Rightarrow> error + dec response" where
  "okResponse txt = Inr \<lparr>ok = True, status = Dec 200 0, body_text = txt\<rparr>"

definition failResponse :: "int \<Rightarrow> string \<Rightarrow> error + dec response" where
  "failResponse code txt = Inr \<lparr>ok = False, status = Dec code 0, body_text = txt\<rparr>"

text \<open>
  The state of the examples: it is 2026-03-01, 09:30:00 UTC, and both service tokens are
  cached and valid for some hours more.
\<close>

definition testState :: "dec state" where
  "testState =
     \<lparr>tokenCache = [''https://canton.network.global'' \<mapsto> (JStr ''ledger-token'', Dec 1772379000000 0),
                    ''https://validator.rhein.finance'' \<mapsto> (JStr ''wallet-token'', Dec 1772379000000 0)],
      clock = Dec 1772357400000 0, sent = [], draws = 0, console_error = []\<rparr>"

text \<open>
  The token endpoint of the examples answers every exchange with a token that expires in
  3600 seconds; \<open>tokenWorldBare\<close> is the same endpoint answering without a token.
\<close>

definition tokenDocuments :: "(string \<times> dec json) list" where
  \<open>tokenDocuments =
     [(''{"access_token":"t-1","expires_in":3600}'',
         JObj [(''access_token'', JStr ''t-1''), (''expires_in'', JNum (Dec 3600 0))]),
      (''{"expires_in":3600}'', JObj [(''expires_in'', JNum (Dec 3600 0))])]\<close>

definition emptyState :: "dec \<Rightarrow> dec state" where
  "emptyState now = \<lparr>tokenCache = Map.empty, clock = now, sent = [], draws = 0, console_error = []\<rparr>"

definition tokenWorld :: "dec runtime" where
  \<open>tokenWorld = testRuntime [] [] tokenDocuments
     (\<lambda>r. okResponse ''{"access_token":"t-1","expires_in":3600}'') (Dec 2000 0)\<close>

definition tokenWorldBare :: "dec runtime" where
  \<open>tokenWorldBare = testRuntime [] [] tokenDocuments
     (\<lambda>r. okResponse ''{"expires_in":3600}'') (Dec 2000 0)\<close>

text \<open>
  A ledger and a wallet for the examples. The ledger answers a query by the template asked
  for and a submission by the choice exercised (\<open>JUndefined\<close> for a create command); the
  wallet answers by the address of the request, and with 404 where it has no answer.
\<close>

definition firstValue :: "dec json \<Rightarrow> dec json" where
  "firstValue v = (case v of JObj ((k, w) # _) \<Rightarrow> w | JArr (w # _) \<Rightarrow> w | _ \<Rightarrow> JUndefined)"

definition queriedTemplate :: "dec request \<Rightarrow> dec json" where
  "queriedTemplate r =
     (case body r of
        None \<Rightarrow> JUndefined
      | Some b \<Rightarrow>
          member (member (member (member
            (firstValue (member (firstValue (member (member b ''filter'') ''filtersByParty'')) ''cumulative''))
            ''identifierFilter'') ''TemplateFilter'') ''value'') ''templateId'')"

definition submittedChoice :: "dec request \<Rightarrow> dec json" where
  "submittedChoice r =
     (case body r of
        None \<Rightarrow> JUndefined
      | Some b \<Rightarrow>
          member (member (firstValue (member (member b ''commands'') ''commands'')) ''ExerciseCommand'')
            ''choice'')"

definition answerWith :: "(dec json \<times> string) list \<Rightarrow> dec json \<Rightarrow> error + dec response" where
  "answerWith table key =
     (case map_of table key of
        Some txt \<Rightarrow> okResponse txt
      | None \<Rightarrow> failResponse 404 ''not found'')"

definition offsetText :: string where
  \<open>offsetText =
       ''{"offset":42}''\<close>

definition offsetDoc :: "dec json" where
  "offsetDoc =
     JObj [(''offset'', JNum (Dec 42 0))]"

definition holdingsText :: string where
  \<open>holdingsText =
       ''[{"contractEntry":{"JsActiveContract":{"createdEvent":{"contractId":"h-1","templateId":"pkg:Holding:AssetHolding","createArgument":{"issuer":"admin::1220aa","owner":"alice::1220aa","custodian":"admin::1220aa","assetType":"USDC","amount":"1000"}}}}},{"contractEntry":{"JsActiveContract":{"createdEvent":{"contractId":"h-2","templateId":"pkg:Holding:AssetHolding","createArgument":{"issuer":"admin::1220aa","owner":"alice::1220aa","custodian":"admin::1220aa","assetType":"USDC","amount":"500"}}}}}]''\<close>

definition holdingsDoc :: "dec json" where
  "holdingsDoc =
     JArr [JObj [(''contractEntry'', JObj [(''JsActiveContract'', JObj [(''createdEvent'',
     JObj [(''contractId'', JStr ''h-1''), (''templateId'', JStr ''pkg:Holding:AssetHolding''),
     (''createArgument'', JObj [(''issuer'', JStr ''admin::1220aa''), (''owner'',
     JStr ''alice::1220aa''), (''custodian'', JStr ''admin::1220aa''), (''assetType'', JStr ''USDC''),
     (''amount'', JStr ''1000'')])])])])], JObj [(''contractEntry'', JObj [(''JsActiveContract'',
     JObj [(''createdEvent'', JObj [(''contractId'', JStr ''h-2''), (''templateId'',
     JStr ''pkg:Holding:AssetHolding''), (''createArgument'', JObj [(''issuer'',
     JStr ''admin::1220aa''), (''owner'', JStr ''alice::1220aa''), (''custodian'',
     JStr ''admin::1220aa''), (''assetType'', JStr ''USDC''), (''amount'', JStr ''500'')])])])])]]"

definition lockedHoldingsText :: string where
  \<open>lockedHoldingsText =
       ''[{"contractEntry":{"JsActiveContract":{"createdEvent":{"contractId":"l-1","templateId":"pkg:Holding:LockedAssetHolding","createArgument":{"issuer":"admin::1220aa","owner":"alice::1220aa","custodian":"admin::1220aa","assetType":"USDC","amount":"250.25","lockReason":"offer","releaseTo":"alice::1220aa"}}}}}]''\<close>

definition lockedHoldingsDoc :: "dec json" where
  "lockedHoldingsDoc =
     JArr [JObj [(''contractEntry'', JObj [(''JsActiveContract'', JObj [(''createdEvent'',
     JObj [(''contractId'', JStr ''l-1''), (''templateId'', JStr ''pkg:Holding:LockedAssetHolding''),
     (''createArgument'', JObj [(''issuer'', JStr ''admin::1220aa''), (''owner'',
     JStr ''alice::1220aa''), (''custodian'', JStr ''admin::1220aa''), (''assetType'', JStr ''USDC''),
     (''amount'', JStr ''250.25''), (''lockReason'', JStr ''offer''), (''releaseTo'',
     JStr ''alice::1220aa'')])])])])]]"

definition loansText :: string where
  \<open>loansText =
       ''[{"contractEntry":{"JsActiveContract":{"createdEvent":{"contractId":"loan-1","templateId":"pkg:ActiveLoanHybrid:ActiveLoanHybrid","createArgument":{"borrower":"alice::1220aa","lender":"bob::1220cc","ccCollateralReference":"offer-1","principal":"300","collateralAmount":"4000","interestRate":"5.5","maturityDate":"2026-06-30","originationDate":"2026-01-01","ccPrice":"0.125","stablecoinType":"USDC"}}}}},{"contractEntry":{"JsActiveContract":{"createdEvent":{"contractId":"loan-2","templateId":"pkg:ActiveLoanHybrid:ActiveLoanHybrid","createArgument":{"borrower":"bob::1220cc","lender":"alice::1220aa","ccCollateralReference":"offer-2","principal":"700","collateralAmount":"4000","interestRate":"5.5","maturityDate":"2026-09-30","originationDate":"2026-01-01","ccPrice":"0.125","stablecoinType":"USDC"}}}}}]''\<close>

definition loansDoc :: "dec json" where
  "loansDoc =
     JArr [JObj [(''contractEntry'', JObj [(''JsActiveContract'', JObj [(''createdEvent'',
     JObj [(''contractId'', JStr ''loan-1''), (''templateId'',
     JStr ''pkg:ActiveLoanHybrid:ActiveLoanHybrid''), (''createArgument'', JObj [(''borrower'',
     JStr ''alice::1220aa''), (''lender'', JStr ''bob::1220cc''), (''ccCollateralReference'',
     JStr ''offer-1''), (''principal'', JStr ''300''), (''collateralAmount'', JStr ''4000''),
     (''interestRate'', JStr ''5.5''), (''maturityDate'', JStr ''2026-06-30''), (''originationDate'',
     JStr ''2026-01-01''), (''ccPrice'', JStr ''0.125''), (''stablecoinType'',
     JStr ''USDC'')])])])])], JObj [(''contractEntry'', JObj [(''JsActiveContract'',
     JObj [(''createdEvent'', JObj [(''contractId'', JStr ''loan-2''), (''templateId'',
     JStr ''pkg:ActiveLoanHybrid:ActiveLoanHybrid''), (''createArgument'', JObj [(''borrower'',
     JStr ''bob::1220cc''), (''lender'', JStr ''alice::1220aa''), (''ccCollateralReference'',
     JStr ''offer-2''), (''principal'', JStr ''700''), (''collateralAmount'', JStr ''4000''),
     (''interestRate'', JStr ''5.5''), (''maturityDate'', JStr ''2026-09-30''), (''originationDate'',
     JStr ''2026-01-01''), (''ccPrice'', JStr ''0.125''), (''stablecoinType'',
     JStr ''USDC'')])])])])]]"

definition amuletsText :: string where
  \<open>amuletsText =
       ''[{"contractEntry":{"JsActiveContract":{"createdEvent":{"contractId":"a-1","templateId":"splice:Splice.Amulet:Amulet","createArgument":{"dso":"dso::1220bb","owner":"alice::1220aa","amount":{"initialAmount":"4000","createdAt":{"number":"7"},"ratePerRound":{"rate":"0.0001"}}}}}}}]''\<close>

definition amuletsDoc :: "dec json" where
  "amuletsDoc =
     JArr [JObj [(''contractEntry'', JObj [(''JsActiveContract'', JObj [(''createdEvent'',
     JObj [(''contractId'', JStr ''a-1''), (''templateId'', JStr ''splice:Splice.Amulet:Amulet''),
     (''createArgument'', JObj [(''dso'', JStr ''dso::1220bb''), (''owner'', JStr ''alice::1220aa''),
     (''amount'', JObj [(''initialAmount'', JStr ''4000''), (''createdAt'', JObj [(''number'',
     JStr ''7'')]), (''ratePerRound'', JObj [(''rate'', JStr ''0.0001'')])])])])])])]]"

definition lockedAmuletsText :: string where
  \<open>lockedAmuletsText =
       ''[{"contractEntry":{"JsActiveContract":{"createdEvent":{"contractId":"la-1","templateId":"splice:Splice.Amulet:LockedAmulet","createArgument":{"amulet":{"dso":"dso::1220bb","owner":"alice::1220aa","amount":{"initialAmount":"1500.5","createdAt":{"number":"7"},"ratePerRound":{"rate":"0.0001"}}},"lock":{"holders":["admin::1220aa"],"expiresAt":"2026-12-31T23:59:59Z"}}}}}}]''\<close>

definition lockedAmuletsDoc :: "dec json" where
  "lockedAmuletsDoc =
     JArr [JObj [(''contractEntry'', JObj [(''JsActiveContract'', JObj [(''createdEvent'',
     JObj [(''contractId'', JStr ''la-1''), (''templateId'',
     JStr ''splice:Splice.Amulet:LockedAmulet''), (''createArgument'', JObj [(''amulet'',
     JObj [(''dso'', JStr ''dso::1220bb''), (''owner'', JStr ''alice::1220aa''), (''amount'',
     JObj [(''initialAmount'', JStr ''1500.5''), (''createdAt'', JObj [(''number'', JStr ''7'')]),
     (''ratePerRound'', JObj [(''rate'', JStr ''0.0001'')])])]), (''lock'', JObj [(''holders'',
     JArr [JStr ''admin::1220aa'']), (''expiresAt'', JStr ''2026-12-31T23:59:59Z'')])])])])])]]"

definition splitResultText :: string where
  \<open>splitResultText =
       ''{"transaction":{"updateId":"tx-7","events":[{"ExercisedEvent":{"contractId":"h-1","choice":"Split","exerciseResult":{"_1":"h-3","_2":"h-4"}}},{"CreatedEvent":{"contractId":"h-3"}},{"CreatedEvent":{"contractId":"h-4"}}]}}''\<close>

definition splitResultDoc :: "dec json" where
  "splitResultDoc =
     JObj [(''transaction'', JObj [(''updateId'', JStr ''tx-7''), (''events'',
     JArr [JObj [(''ExercisedEvent'', JObj [(''contractId'', JStr ''h-1''), (''choice'',
     JStr ''Split''), (''exerciseResult'', JObj [(''_1'', JStr ''h-3''), (''_2'', JStr ''h-4'')])])],
     JObj [(''CreatedEvent'', JObj [(''contractId'', JStr ''h-3'')])], JObj [(''CreatedEvent'',
     JObj [(''contractId'', JStr ''h-4'')])]])])]"

definition lockResultText :: string where
  \<open>lockResultText =
       ''{"transaction":{"updateId":"tx-8","events":[{"ExercisedEvent":{"contractId":"h-2","choice":"Lock","exerciseResult":"l-9"}},{"CreatedEvent":{"contractId":"l-9"}}]}}''\<close>

definition lockResultDoc :: "dec json" where
  "lockResultDoc =
     JObj [(''transaction'', JObj [(''updateId'', JStr ''tx-8''), (''events'',
     JArr [JObj [(''ExercisedEvent'', JObj [(''contractId'', JStr ''h-2''), (''choice'',
     JStr ''Lock''), (''exerciseResult'', JStr ''l-9'')])], JObj [(''CreatedEvent'',
     JObj [(''contractId'', JStr ''l-9'')])]])])]"

definition repayResultText :: string where
  \<open>repayResultText =
       ''{"transaction":{"updateId":"tx-9","events":[{"ExercisedEvent":{"contractId":"loan-1","choice":"RepayHybrid","exerciseResult":{"_1":"settled-1","_2":"offer-1"}}}]}}''\<close>

definition repayResultDoc :: "dec json" where
  "repayResultDoc =
     JObj [(''transaction'', JObj [(''updateId'', JStr ''tx-9''), (''events'',
     JArr [JObj [(''ExercisedEvent'', JObj [(''contractId'', JStr ''loan-1''), (''choice'',
     JStr ''RepayHybrid''), (''exerciseResult'', JObj [(''_1'', JStr ''settled-1''), (''_2'',
     JStr ''offer-1'')])])]])])]"

definition defaultResultText :: string where
  \<open>defaultResultText =
       ''{"transaction":{"updateId":"tx-10","events":[{"ExercisedEvent":{"contractId":"loan-1","choice":"ClaimDefaultHybrid","exerciseResult":"defaulted-1"}}]}}''\<close>

definition defaultResultDoc :: "dec json" where
  "defaultResultDoc =
     JObj [(''transaction'', JObj [(''updateId'', JStr ''tx-10''), (''events'',
     JArr [JObj [(''ExercisedEvent'', JObj [(''contractId'', JStr ''loan-1''), (''choice'',
     JStr ''ClaimDefaultHybrid''), (''exerciseResult'', JStr ''defaulted-1'')])]])])]"

definition createResultText :: string where
  \<open>createResultText =
       ''{"transaction":{"updateId":"tx-11","events":[{"CreatedEvent":{"contractId":"loan-offer-1","templateId":"pkg:LoanOfferHybrid:LoanOfferHybrid"}}]}}''\<close>

definition createResultDoc :: "dec json" where
  "createResultDoc =
     JObj [(''transaction'', JObj [(''updateId'', JStr ''tx-11''), (''events'',
     JArr [JObj [(''CreatedEvent'', JObj [(''contractId'', JStr ''loan-offer-1''), (''templateId'',
     JStr ''pkg:LoanOfferHybrid:LoanOfferHybrid'')])]])])]"

definition transferOfferText :: string where
  \<open>transferOfferText =
       ''{"offer_contract_id":"offer-7"}''\<close>

definition transferOfferDoc :: "dec json" where
  "transferOfferDoc =
     JObj [(''offer_contract_id'', JStr ''offer-7'')]"

definition ledgerDocuments :: "(string \<times> dec json) list" where
  "ledgerDocuments =
     [(offsetText, offsetDoc), (holdingsText, holdingsDoc), (lockedHoldingsText, lockedHoldingsDoc),
      (loansText, loansDoc), (amuletsText, amuletsDoc), (lockedAmuletsText, lockedAmuletsDoc),
      (splitResultText, splitResultDoc), (lockResultText, lockResultDoc),
      (repayResultText, repayResultDoc), (defaultResultText, defaultResultDoc),
      (createResultText, createResultDoc), (transferOfferText, transferOfferDoc)]"

definition ledgerContracts :: "(dec json \<times> string) list" where
  "ledgerContracts =
     [(JStr ''pkg:Holding:AssetHolding'', holdingsText),
      (JStr ''pkg:Holding:LockedAssetHolding'', lockedHoldingsText),
      (JStr ''pkg:ActiveLoanHybrid:ActiveLoanHybrid'', loansText),
      (JStr ''splice:Splice.Amulet:Amulet'', amuletsText),
      (JStr ''splice:Splice.Amulet:LockedAmulet'', lockedAmuletsText)]"

definition ledgerResults :: "(dec json \<times> string) list" where
  "ledgerResults =
     [(JStr ''Split'', splitResultText), (JStr ''Lock'', lockResultText),
      (JStr ''RepayHybrid'', repayResultText), (JStr ''ClaimDefaultHybrid'', defaultResultText),
      (JUndefined, createResultText)]"

text \<open>
  The wallet of the examples creates transfer offers; the offers \<open>offer-1\<close> and \<open>offer-2\<close>
  of the two loans are gone (withdrawn by hand), so that to withdraw or to accept them fails.
\<close>

definition walletAnswers :: "(string \<times> (error + dec response)) list" where
  \<open>walletAnswers =
     [(''http://wallet:5003/api/validator/v0/wallet/transfer-offers'', okResponse transferOfferText),
      (''http://wallet:5003/api/validator/v0/wallet/transfer-offers/offer-1/withdraw'',
         failResponse 404 ''{"error":"offer not found"}''),
      (''http://wallet:5003/api/validator/v0/wallet/transfer-offers/offer-1/accept'',
         failResponse 404 ''{"error":"offer not found"}'')]\<close>

definition ledgerAnswer :: "dec request \<Rightarrow> error + dec response" where
  "ledgerAnswer r =
     (if url r = ''http://ledger:7575/v2/state/ledger-end'' then okResponse offsetText
      else if url r = ''http://ledger:7575/v2/state/active-contracts''
        then answerWith ledgerContracts (queriedTemplate r)
      else if url r = ''http://ledger:7575/v2/commands/submit-and-wait-for-transaction''
        then answerWith ledgerResults (submittedChoice r)
      else (case map_of walletAnswers (url r) of
              Some a \<Rightarrow> a
            | None \<Rightarrow> failResponse 404 ''not found''))"

definition ledgerWorld :: "dec runtime" where
  "ledgerWorld =
     testRuntime [(1772357400000, ''2026-03-01T09:30:00.000Z''), (1782863999000, ''2026-06-30T23:59:59.000Z'')]
       [(''2026-06-30T23:59:59Z'', 1782863999000), (''2026-06-30T23:59:59.000Z'', 1782863999000)]
       ledgerDocuments ledgerAnswer (Dec 1772357400250 0)"

text \<open>
  The states from which the examples run: the two service tokens are cached as in
  \<open>testState\<close> and have not expired.
\<close>

definition ready :: "dec state \<Rightarrow> bool" where
  "ready s = (tokenCache s = tokenCache testState \<and> dec_less (clock s) (Dec 1772379000000 0))"

text \<open>
  The contracts of the example ledger: as the queries return them (\<open>rawHolding1\<close>, ...),
  and as the service reads them.
\<close>

definition rawHolding1 :: "(dec, dec json) contract" where
  "rawHolding1 =
     \<lparr>contractId = JStr ''h-1'', contract_templateId = JStr ''pkg:Holding:AssetHolding'',
      payload =
        JObj [(''issuer'', JStr ''admin::1220aa''), (''owner'', JStr ''alice::1220aa''), (''custodian'',
        JStr ''admin::1220aa''), (''assetType'', JStr ''USDC''), (''amount'', JStr ''1000'')]\<rparr>"

definition rawHolding2 :: "(dec, dec json) contract" where
  "rawHolding2 =
     \<lparr>contractId = JStr ''h-2'', contract_templateId = JStr ''pkg:Holding:AssetHolding'',
      payload =
        JObj [(''issuer'', JStr ''admin::1220aa''), (''owner'', JStr ''alice::1220aa''), (''custodian'',
        JStr ''admin::1220aa''), (''assetType'', JStr ''USDC''), (''amount'', JStr ''500'')]\<rparr>"

definition rawLockedHolding1 :: "(dec, dec json) contract" where
  "rawLockedHolding1 =
     \<lparr>contractId = JStr ''l-1'', contract_templateId = JStr ''pkg:Holding:LockedAssetHolding'',
      payload =
        JObj [(''issuer'', JStr ''admin::1220aa''), (''owner'', JStr ''alice::1220aa''), (''custodian'',
        JStr ''admin::1220aa''), (''assetType'', JStr ''USDC''), (''amount'', JStr ''250.25''),
        (''lockReason'', JStr ''offer''), (''releaseTo'', JStr ''alice::1220aa'')]\<rparr>"

definition rawLoan1 :: "(dec, dec json) contract" where
  "rawLoan1 =
     \<lparr>contractId = JStr ''loan-1'', contract_templateId = JStr ''pkg:ActiveLoanHybrid:ActiveLoanHybrid'',
      payload =
        JObj [(''borrower'', JStr ''alice::1220aa''), (''lender'', JStr ''bob::1220cc''),
        (''ccCollateralReference'', JStr ''offer-1''), (''principal'', JStr ''300''),
        (''collateralAmount'', JStr ''4000''), (''interestRate'', JStr ''5.5''), (''maturityDate'',
        JStr ''2026-06-30''), (''originationDate'', JStr ''2026-01-01''), (''ccPrice'', JStr ''0.125''),
        (''stablecoinType'', JStr ''USDC'')]\<rparr>"

definition rawLoan2 :: "(dec, dec json) contract" where
  "rawLoan2 =
     \<lparr>contractId = JStr ''loan-2'', contract_templateId = JStr ''pkg:ActiveLoanHybrid:ActiveLoanHybrid'',
      payload =
        JObj [(''borrower'', JStr ''bob::1220cc''), (''lender'', JStr ''alice::1220aa''),
        (''ccCollateralReference'', JStr ''offer-2''), (''principal'', JStr ''700''),
        (''collateralAmount'', JStr ''4000''), (''interestRate'', JStr ''5.5''), (''maturityDate'',
        JStr ''2026-09-30''), (''originationDate'', JStr ''2026-01-01''), (''ccPrice'', JStr ''0.125''),
        (''stablecoinType'', JStr ''USDC'')]\<rparr>"

definition rawAmulet1 :: "(dec, dec json) contract" where
  "rawAmulet1 =
     \<lparr>contractId = JStr ''a-1'', contract_templateId = JStr ''splice:Splice.Amulet:Amulet'',
      payload =
        JObj [(''dso'', JStr ''dso::1220bb''), (''owner'', JStr ''alice::1220aa''), (''amount'',
        JObj [(''initialAmount'', JStr ''4000''), (''createdAt'', JObj [(''number'', JStr ''7'')]),
        (''ratePerRound'', JObj [(''rate'', JStr ''0.0001'')])])]\<rparr>"

definition rawLockedAmulet1 :: "(dec, dec json) contract" where
  "rawLockedAmulet1 =
     \<lparr>contractId = JStr ''la-1'', contract_templateId = JStr ''splice:Splice.Amulet:LockedAmulet'',
      payload =
        JObj [(''amulet'', JObj [(''dso'', JStr ''dso::1220bb''), (''owner'', JStr ''alice::1220aa''),
        (''amount'', JObj [(''initialAmount'', JStr ''1500.5''), (''createdAt'', JObj [(''number'',
        JStr ''7'')]), (''ratePerRound'', JObj [(''rate'', JStr ''0.0001'')])])]), (''lock'',
        JObj [(''holders'', JArr [JStr ''admin::1220aa'']), (''expiresAt'',
        JStr ''2026-12-31T23:59:59Z'')])]\<rparr>"

definition holding1 :: "dec AssetHolding" where
  "holding1 = \<lparr>contractId = JStr ''h-1'', contract_templateId = JStr ''pkg:Holding:AssetHolding'',
     payload = \<lparr>issuer = ''admin::1220aa'', owner = ''alice::1220aa'', custodian = ''admin::1220aa'',
                assetType = ''USDC'', amount = ''1000''\<rparr>\<rparr>"

definition holding2 :: "dec AssetHolding" where
  "holding2 = \<lparr>contractId = JStr ''h-2'', contract_templateId = JStr ''pkg:Holding:AssetHolding'',
     payload = \<lparr>issuer = ''admin::1220aa'', owner = ''alice::1220aa'', custodian = ''admin::1220aa'',
                assetType = ''USDC'', amount = ''500''\<rparr>\<rparr>"

definition loan1 :: "dec ActiveLoan" where
  "loan1 = \<lparr>contractId = JStr ''loan-1'',
     contract_templateId = JStr ''pkg:ActiveLoanHybrid:ActiveLoanHybrid'',
     payload = \<lparr>borrower = ''alice::1220aa'', lender = ''bob::1220cc'',
                ccCollateralReference = ''offer-1'', principal = ''300'', collateralAmount = ''4000'',
                interestRate = ''5.5'', maturityDate = ''2026-06-30'', originationDate = ''2026-01-01'',
                loan_ccPrice = ''0.125'', stablecoinType = ''USDC''\<rparr>\<rparr>"

definition loan2 :: "dec ActiveLoan" where
  "loan2 = \<lparr>contractId = JStr ''loan-2'',
     contract_templateId = JStr ''pkg:ActiveLoanHybrid:ActiveLoanHybrid'',
     payload = \<lparr>borrower = ''bob::1220cc'', lender = ''alice::1220aa'',
                ccCollateralReference = ''offer-2'', principal = ''700'', collateralAmount = ''4000'',
                interestRate = ''5.5'', maturityDate = ''2026-09-30'', originationDate = ''2026-01-01'',
                loan_ccPrice = ''0.125'', stablecoinType = ''USDC''\<rparr>\<rparr>"

definition lockedHolding1 :: "dec LockedAssetHolding" where
  "lockedHolding1 = \<lparr>contractId = JStr ''l-1'',
     contract_templateId = JStr ''pkg:Holding:LockedAssetHolding'',
     payload = \<lparr>issuer = ''admin::1220aa'', owner = ''alice::1220aa'', custodian = ''admin::1220aa'',
                assetType = ''USDC'', amount = ''250.25'', lockReason = ''offer'',
                releaseTo = ''alice::1220aa''\<rparr>\<rparr>"

definition amulet1 :: "dec Amulet" where
  "amulet1 = \<lparr>contractId = JStr ''a-1'', contract_templateId = JStr ''splice:Splice.Amulet:Amulet'',
     payload = \<lparr>dso = ''dso::1220bb'', amulet_owner = ''alice::1220aa'',
                amulet_amount = \<lparr>initialAmount = ''4000'', createdAt_number = ''7'',
                                  ratePerRound_rate = ''0.0001''\<rparr>\<rparr>\<rparr>"

definition lockedAmulet1 :: "dec LockedAmulet" where
  "lockedAmulet1 = \<lparr>contractId = JStr ''la-1'',
     contract_templateId = JStr ''splice:Splice.Amulet:LockedAmulet'',
     payload = \<lparr>amulet = \<lparr>dso = ''dso::1220bb'', amulet_owner = ''alice::1220aa'',
                           amulet_amount = \<lparr>initialAmount = ''1500.5'', createdAt_number = ''7'',
                                             ratePerRound_rate = ''0.0001''\<rparr>\<rparr>,
                lock_holders = [''admin::1220aa''], lock_expiresAt = ''2026-12-31T23:59:59Z''\<rparr>\<rparr>"

text \<open>
  The state after a query, after a submission and after a call of the wallet, in the
  world of the examples and from a state in which the tokens are cached.
\<close>

definition afterQuery :: "string \<Rightarrow> string \<Rightarrow> dec state \<Rightarrow> dec state" where
  "afterQuery tid partyId s =
     s\<lparr>sent := sent s @
          [ledgerEndRequest ledgerWorld testConfig (JStr ''ledger-token''),
           activeContractsRequest ledgerWorld testConfig [tid] [partyId] (JNum (Dec 42 0))
             (JStr ''ledger-token'')],
       clock := Dec 1772357400250 0\<rparr>"

definition afterSubmit :: "dec json list \<Rightarrow> string list \<Rightarrow> dec state \<Rightarrow> dec state" where
  "afterSubmit commands actAs s =
     s\<lparr>draws := Suc (draws s),
       sent := sent s @
          [submitRequest ledgerWorld testConfig
             (''rhein-'' @ dec_toString (clock s) @ ''-k3x9'' @ showNat (draws s))
             commands actAs (JStr ''ledger-token'')],
       clock := Dec 1772357400250 0\<rparr>"

definition afterWallet :: "string \<Rightarrow> string \<Rightarrow> dec json \<Rightarrow> dec state \<Rightarrow> dec state" where
  "afterWallet endpoint meth body' s =
     s\<lparr>sent := sent s @ [walletRequest ledgerWorld testConfig endpoint meth body' (JStr ''wallet-token'')],
       clock := Dec 1772357400250 0\<rparr>"

text \<open>Two offers of Alice: a bid that locks 1000 CC, and an ask that locks 500 USDC.\<close>

definition borrowerBid :: offer where
  "borrowerBid = \<lparr>offerType = BorrowerBid, offer_loanAmount = ''500'', offer_collateralAmount = ''1000'',
     offer_interestRate = ''5.5'', offer_maturityDate = ''2026-06-30''\<rparr>"

definition lenderAsk :: offer where
  "lenderAsk = \<lparr>offerType = LenderAsk, offer_loanAmount = ''500'', offer_collateralAmount = ''1000'',
     offer_interestRate = ''5.5'', offer_maturityDate = ''2026-06-30''\<rparr>"

text \<open>
  An update stream of 51 transactions, \<open>tx-1\<close> (offset 1, 08:01) to \<open>tx-51\<close> (offset 51,
  08:51), oldest first, answered as one JSON array: \<open>updateText n\<close> is the \<open>n\<close>-th update
  as the ledger writes it, \<open>updateDoc n\<close> its value, and \<open>streamTx n\<close> the transaction as
  the service returns it.
\<close>

definition minuteOf :: "nat \<Rightarrow> string" where
  "minuteOf n = [digitChar (n div 10), digitChar (n mod 10)]"






definition streamAnswer :: "string \<Rightarrow> dec request \<Rightarrow> error + dec response" where
  "streamAnswer txt r =
     (if url r = ''http://ledger:7575/v2/updates/flats'' then okResponse txt
      else failResponse 404 ''not found'')"


text \<open>
  The same endpoint answering with newline-delimited JSON: a transaction with a created and
  an exercised event, a transaction with an archived event, an empty line, and a
  checkpoint, which is no transaction.
\<close>

definition line1Text :: string where
  \<open>line1Text =
       ''{"update":{"Transaction":{"value":{"updateId":"tx-1","effectiveAt":"2026-03-01T08:01:00Z","offset":7,"events":[{"CreatedEvent":{"contractId":"h-3","templateId":"pkg:Holding:AssetHolding","eventId":"e-1","createArgument":{"amount":"200"}}},{"ExercisedEvent":{"contractId":"h-1","templateId":"pkg:Holding:AssetHolding","choice":"Split","choiceArgument":{"splitAmount":"200"}}}]}}}}''\<close>

definition line1Doc :: "dec json" where
  "line1Doc =
     JObj [(''update'', JObj [(''Transaction'', JObj [(''value'', JObj [(''updateId'', JStr ''tx-1''),
     (''effectiveAt'', JStr ''2026-03-01T08:01:00Z''), (''offset'', JNum (Dec 7 0)), (''events'',
     JArr [JObj [(''CreatedEvent'', JObj [(''contractId'', JStr ''h-3''), (''templateId'',
     JStr ''pkg:Holding:AssetHolding''), (''eventId'', JStr ''e-1''), (''createArgument'',
     JObj [(''amount'', JStr ''200'')])])], JObj [(''ExercisedEvent'', JObj [(''contractId'',
     JStr ''h-1''), (''templateId'', JStr ''pkg:Holding:AssetHolding''), (''choice'', JStr ''Split''),
     (''choiceArgument'', JObj [(''splitAmount'', JStr ''200'')])])]])])])])]"

definition line2Text :: string where
  \<open>line2Text =
       ''{"transaction":{"transactionId":"tx-2","effectiveAt":"2026-03-01T08:02:00Z","offset":8,"events":[{"ArchivedEvent":{"contractId":"h-1","templateId":"pkg:Holding:AssetHolding","eventId":"e-3"}}]}}''\<close>

definition line2Doc :: "dec json" where
  "line2Doc =
     JObj [(''transaction'', JObj [(''transactionId'', JStr ''tx-2''), (''effectiveAt'',
     JStr ''2026-03-01T08:02:00Z''), (''offset'', JNum (Dec 8 0)), (''events'',
     JArr [JObj [(''ArchivedEvent'', JObj [(''contractId'', JStr ''h-1''), (''templateId'',
     JStr ''pkg:Holding:AssetHolding''), (''eventId'', JStr ''e-3'')])]])])]"

definition line3Text :: string where
  \<open>line3Text =
       ''{"update":{"OffsetCheckpoint":{"value":{"offset":9}}}}''\<close>

definition line3Doc :: "dec json" where
  "line3Doc =
     JObj [(''update'', JObj [(''OffsetCheckpoint'', JObj [(''value'', JObj [(''offset'',
     JNum (Dec 9 0))])])])]"

definition linesText :: string where
  "linesText = line1Text @ [CHR 0x0A] @ line2Text @ [CHR 0x0A, CHR 0x0A] @ line3Text @ [CHR 0x0A]"

definition linesWorld :: "dec runtime" where
  "linesWorld = testRuntime [] []
     [(line1Text, line1Doc), (line2Text, line2Doc), (line3Text, line3Doc)]
     (streamAnswer linesText) (Dec 1772357400250 0)"

definition lineTx1 :: "dec Transaction" where
  "lineTx1 =
     \<lparr>transactionId = JStr ''tx-1'', effectiveAt = JStr ''2026-03-01T08:01:00Z'', tx_offset = ''7'',
      events =
        [\<lparr>eventType = created, event_contractId = JStr ''h-3'',
          event_templateId = JStr ''pkg:Holding:AssetHolding'', eventId = JStr ''e-1'',
          event_payload = JObj [(''amount'', JStr ''200'')], choice = JUndefined, argument = JUndefined\<rparr>,
         \<lparr>eventType = exercised, event_contractId = JStr ''h-1'',
          event_templateId = JStr ''pkg:Holding:AssetHolding'', eventId = JStr [],
          event_payload = JUndefined, choice = JStr ''Split'',
          argument = JObj [(''splitAmount'', JStr ''200'')]\<rparr>]\<rparr>"

definition lineTx2 :: "dec Transaction" where
  "lineTx2 =
     \<lparr>transactionId = JStr ''tx-2'', effectiveAt = JStr ''2026-03-01T08:02:00Z'', tx_offset = ''8'',
      events =
        [\<lparr>eventType = archived, event_contractId = JStr ''h-1'',
          event_templateId = JStr ''pkg:Holding:AssetHolding'', eventId = JStr ''e-3'',
          event_payload = JUndefined, choice = JUndefined, argument = JUndefined\<rparr>]\<rparr>"

text \<open>
  Three variants of the example ledger and wallet. In the first the wallet answers the
  creation of a transfer offer with status 200 and an empty body. In the second the ledger
  answers a \<open>Split\<close> with the two created contracts and no exercise result. In the third
  the ledger returns a holding that came without \<open>createArgument\<close>.
\<close>

definition splitEventsText :: string where
  \<open>splitEventsText =
       ''{"transaction":{"updateId":"tx-7","events":[{"CreatedEvent":{"contractId":"h-3"}},{"CreatedEvent":{"contractId":"h-4"}}]}}''\<close>

definition splitEventsDoc :: "dec json" where
  "splitEventsDoc =
     JObj [(''transaction'', JObj [(''updateId'', JStr ''tx-7''), (''events'',
     JArr [JObj [(''CreatedEvent'', JObj [(''contractId'', JStr ''h-3'')])], JObj [(''CreatedEvent'',
     JObj [(''contractId'', JStr ''h-4'')])]])])]"

definition bareHoldingsText :: string where
  \<open>bareHoldingsText =
       ''[{"contractEntry":{"JsActiveContract":{"createdEvent":{"contractId":"h-9","templateId":"pkg:Holding:AssetHolding"}}}}]''\<close>

definition bareHoldingsDoc :: "dec json" where
  "bareHoldingsDoc =
     JArr [JObj [(''contractEntry'', JObj [(''JsActiveContract'', JObj [(''createdEvent'',
     JObj [(''contractId'', JStr ''h-9''), (''templateId'',
     JStr ''pkg:Holding:AssetHolding'')])])])]]"

definition rawHolding9 :: "(dec, dec json) contract" where
  "rawHolding9 =
     \<lparr>contractId = JStr ''h-9'', contract_templateId = JStr ''pkg:Holding:AssetHolding'',
      payload =
        JUndefined\<rparr>"

definition silentWalletAnswer :: "dec request \<Rightarrow> error + dec response" where
  "silentWalletAnswer r =
     (if url r = ''http://wallet:5003/api/validator/v0/wallet/transfer-offers'' then okResponse []
      else ledgerAnswer r)"

definition silentWalletWorld :: "dec runtime" where
  "silentWalletWorld =
     testRuntime [(1772357400000, ''2026-03-01T09:30:00.000Z''), (1782863999000, ''2026-06-30T23:59:59.000Z'')]
       [(''2026-06-30T23:59:59Z'', 1782863999000), (''2026-06-30T23:59:59.000Z'', 1782863999000)]
       ledgerDocuments silentWalletAnswer (Dec 1772357400250 0)"

definition eventsOnlyAnswer :: "dec request \<Rightarrow> error + dec response" where
  "eventsOnlyAnswer r =
     (if url r = ''http://ledger:7575/v2/commands/submit-and-wait-for-transaction''
         \<and> submittedChoice r = JStr ''Split''
      then okResponse splitEventsText
      else ledgerAnswer r)"

definition eventsOnlyDocuments :: "(string \<times> dec json) list" where
  "eventsOnlyDocuments = (splitEventsText, splitEventsDoc) # ledgerDocuments"

definition eventsOnlyWorld :: "dec runtime" where
  "eventsOnlyWorld =
     testRuntime [(1772357400000, ''2026-03-01T09:30:00.000Z'')] []
       eventsOnlyDocuments eventsOnlyAnswer (Dec 1772357400250 0)"

definition bareHoldingAnswer :: "dec request \<Rightarrow> error + dec response" where
  "bareHoldingAnswer r =
     (if url r = ''http://ledger:7575/v2/state/active-contracts''
         \<and> queriedTemplate r = JStr ''pkg:Holding:AssetHolding''
      then okResponse bareHoldingsText
      else ledgerAnswer r)"

definition bareHoldingDocuments :: "(string \<times> dec json) list" where
  "bareHoldingDocuments = (bareHoldingsText, bareHoldingsDoc) # ledgerDocuments"

definition bareHoldingWorld :: "dec runtime" where
  "bareHoldingWorld =
     testRuntime [(1772357400000, ''2026-03-01T09:30:00.000Z'')] []
       bareHoldingDocuments bareHoldingAnswer (Dec 1772357400250 0)"


section \<open>Promises: evaluation rules\<close>

lemma andThen_resolve [simp]: "andThen (resolve x) f = f x"
  by (rule ext) (simp add: andThen_def resolve_def)

lemma andThen_reject [simp]: "andThen (reject e) f = reject e"
  by (rule ext) (simp add: andThen_def reject_def)

lemma andThen_lift_Inr [simp]: "andThen (lift (Inr x)) f = f x"
  by (rule ext) (simp add: andThen_def lift_def)

lemma andThen_lift_Inl [simp]: "andThen (lift (Inl e)) f = reject e"
  by (rule ext) (simp add: andThen_def lift_def reject_def)

lemma andThen_fst_Inr: "fst (m s) = Inr x \<Longrightarrow> andThen m f s = f x (snd (m s))"
  by (cases "m s") (simp add: andThen_def)

lemma andThen_fst_Inl: "fst (m s) = Inl e \<Longrightarrow> andThen m f s = (Inl e, snd (m s))"
  by (cases "m s") (simp add: andThen_def)

lemma andThen_Date_now [simp]: "andThen Date_now f s = f (clock s) s"
  by (simp add: andThen_def Date_now_def)

lemma andThen_cacheGet [simp]: "andThen (cacheGet a) f s = f (tokenCache s a) s"
  by (simp add: andThen_def cacheGet_def)

lemma andThen_cacheSet [simp]:
  "andThen (cacheSet a entry) f s = f () (s\<lparr>tokenCache := (tokenCache s)(a \<mapsto> entry)\<rparr>)"
  by (simp add: andThen_def cacheSet_def)

lemma andThen_customFetch [simp]:
  "andThen (customFetch rt req) f s =
     (let s' = s\<lparr>sent := sent s @ [req], clock := settled_at rt (sent s) req\<rparr>
      in case fetch rt (sent s) req of Inl e \<Rightarrow> (Inl e, s') | Inr r \<Rightarrow> f r s')"
  by (simp add: andThen_def customFetch_def Let_def)

lemma andThen_consoleError [simp]:
  "andThen (consoleError line) f s = f () (s\<lparr>console_error := console_error s @ [line]\<rparr>)"
  by (simp add: andThen_def consoleError_def)

lemma resolve_apply [simp]: "resolve x s = (Inr x, s)"
  by (simp add: resolve_def)

lemma reject_apply [simp]: "reject e s = (Inl e, s)"
  by (simp add: reject_def)


lemma get_if:
  "get v k = (if v = JUndefined then Inl (cannotRead ''undefined'' k)
              else if v = JNull then Inl (cannotRead ''null'' k)
              else Inr (member v k))"
  by (cases v) (simp_all add: get_def)

lemma nullish_iff: "nullish v \<longleftrightarrow> v = JUndefined \<or> v = JNull"
  by (cases v) simp_all

lemmas typed_defs = asAssetHoldingPayload_def asLockedAssetHoldingPayload_def asAmuletAmount_def
  asAmuletPayload_def asLockedAmuletPayload_def asActiveLoanPayload_def

lemmas query_defs = queryAssetHoldings_def queryLockedAssetHoldings_def queryAmulets_def
  queryLockedAmulets_def queryActiveLoans_def

section \<open>Calls that submit no command\<close>

lemma quietI: "(\<And>s. submitted cfg (snd (m s)) = submitted cfg s) \<Longrightarrow> quiet cfg m"
  by (simp add: quiet_def)

lemma quietD: "quiet cfg m \<Longrightarrow> submitted cfg (snd (m s)) = submitted cfg s"
  by (simp add: quiet_def)

lemma quiet_resolve [simp]: "quiet cfg (resolve x)"
  by (simp add: quiet_def)

lemma quiet_reject [simp]: "quiet cfg (reject e)"
  by (simp add: quiet_def)

lemma quiet_lift [simp]: "quiet cfg (lift r)"
  by (simp add: quiet_def lift_def)

lemma quiet_andThen: "quiet cfg m \<Longrightarrow> (\<And>x. quiet cfg (f x)) \<Longrightarrow> quiet cfg (andThen m f)"
  unfolding quiet_def andThen_def
  by (auto split: prod.splits sum.splits) (metis snd_conv)+

lemma quiet_tryCatch: "quiet cfg m \<Longrightarrow> (\<And>e. quiet cfg (h e)) \<Longrightarrow> quiet cfg (tryCatch m h)"
  unfolding quiet_def tryCatch_def
  by (auto split: prod.splits sum.splits) (metis snd_conv)+

lemma quiet_if: "quiet cfg m \<Longrightarrow> quiet cfg n \<Longrightarrow> quiet cfg (if b then m else n)"
  by simp

lemma submitted_simps [simp]:
  "submitted cfg (s\<lparr>clock := c\<rparr>) = submitted cfg s"
  "submitted cfg (s\<lparr>tokenCache := t\<rparr>) = submitted cfg s"
  "submitted cfg (s\<lparr>draws := d\<rparr>) = submitted cfg s"
  "submitted cfg (s\<lparr>console_error := l\<rparr>) = submitted cfg s"
  "submitted cfg (s\<lparr>sent := sent s @ [r]\<rparr>) = submitted cfg s @ commandsOf cfg r"
  by (simp_all add: submitted_def)

lemma quiet_customFetch: "commandsOf cfg req = [] \<Longrightarrow> quiet cfg (customFetch rt req)"
  by (simp add: quiet_def customFetch_def)

lemma quiet_consoleError [simp]: "quiet cfg (consoleError l)"
  by (simp add: quiet_def consoleError_def)

lemma quiet_Date_now [simp]: "quiet cfg Date_now"
  by (simp add: quiet_def Date_now_def)

lemma quiet_Math_random36 [simp]: "quiet cfg (Math_random36 rt)"
  by (simp add: quiet_def Math_random36_def)

lemma quiet_cacheGet [simp]: "quiet cfg (cacheGet a)"
  by (simp add: quiet_def cacheGet_def)

lemma quiet_cacheSet [simp]: "quiet cfg (cacheSet a e)"
  by (simp add: quiet_def cacheSet_def)

lemma quiet_today [simp]: "quiet cfg (today rt)"
  by (simp add: quiet_def today_def split: option.splits)

lemma commandsOf_tokenRequest [simp]: "commandsOf cfg (tokenRequest cfg' a) = []"
  by (simp add: commandsOf_def tokenRequest_def)

lemma quiet_case_sum:
  "(\<And>e. quiet cfg (f e)) \<Longrightarrow> (\<And>x. quiet cfg (g x)) \<Longrightarrow> quiet cfg (case r of Inl e \<Rightarrow> f e | Inr x \<Rightarrow> g x)"
  by (cases r) simp_all

lemma quiet_case_option:
  "quiet cfg f \<Longrightarrow> (\<And>x. quiet cfg (g x)) \<Longrightarrow> quiet cfg (case r of None \<Rightarrow> f | Some x \<Rightarrow> g x)"
  by (cases r) simp_all

lemma quiet_case_prod:
  "(\<And>a b. quiet cfg (f a b)) \<Longrightarrow> quiet cfg (case p of (a, b) \<Rightarrow> f a b)"
  by (cases p) simp_all

lemmas quiet_intros = quiet_andThen quiet_tryCatch quiet_if quiet_resolve quiet_reject quiet_lift
  quiet_consoleError quiet_Date_now quiet_Math_random36 quiet_cacheGet quiet_cacheSet quiet_today
  quiet_case_sum quiet_case_option quiet_case_prod quiet_customFetch

lemma quiet_exchangeToken: "quiet cfg (exchangeToken rt cfg' a)"
  unfolding exchangeToken_def Let_def
  by (intro quiet_intros commandsOf_tokenRequest)

lemma quiet_getAuth0Token: "quiet cfg (getAuth0Token rt cfg' a)"
  unfolding getAuth0Token_def
  by (intro quiet_intros quiet_exchangeToken)

lemma quiet_getLedgerApiToken: "quiet cfg (getLedgerApiToken rt cfg')"
  by (simp add: getLedgerApiToken_def quiet_getAuth0Token)

lemma quiet_getValidatorToken: "quiet cfg (getValidatorToken rt cfg')"
  by (simp add: getValidatorToken_def quiet_getAuth0Token)

lemma quiet_getLatestOffset: "quiet cfg (getLatestOffset rt cfg')"
  unfolding getLatestOffset_def
  by (intro quiet_intros quiet_getLedgerApiToken) (simp add: commandsOf_def ledgerEndRequest_def)

lemma quiet_queryContracts: "quiet cfg (queryContracts rt cfg' templateIds actAs)"
  unfolding queryContracts_def
  by (intro quiet_intros quiet_getLedgerApiToken quiet_getLatestOffset)
     (simp add: commandsOf_def activeContractsRequest_def Let_def)

lemma quiet_queries:
  "quiet cfg (queryAssetHoldings rt cfg' p)"
  "quiet cfg (queryLockedAssetHoldings rt cfg' p)"
  "quiet cfg (queryAmulets rt cfg' p)"
  "quiet cfg (queryLockedAmulets rt cfg' p)"
  "quiet cfg (queryActiveLoans rt cfg' p)"
  unfolding query_defs
  by (intro quiet_intros quiet_queryContracts)+

lemma quiet_walletApiFetch:
  "member body' ''commands'' = JUndefined \<Longrightarrow> quiet cfg (walletApiFetch rt cfg' endpoint meth body' userToken)"
  unfolding walletApiFetch_def
  by (intro quiet_intros quiet_getValidatorToken) (simp add: commandsOf_def walletRequest_def)

text \<open>What a submission adds to the commands submitted.\<close>

lemma submitCommand_submitted:
  "submitted cfg (snd (submitCommand rt cfg commands actAs s)) =
     submitted cfg s @
       (case fst (getLedgerApiToken rt cfg (s\<lparr>draws := Suc (draws s)\<rparr>)) of
          Inl e \<Rightarrow> [] | Inr token \<Rightarrow> [JArr commands])"
proof -
  let ?s = "s\<lparr>draws := Suc (draws s)\<rparr>"
  have q: "submitted cfg (snd (getLedgerApiToken rt cfg ?s)) = submitted cfg s"
    using quietD [OF quiet_getLedgerApiToken, of cfg rt cfg ?s] by simp
  show ?thesis
    using q
    by (cases "getLedgerApiToken rt cfg ?s")
       (auto simp add: submitCommand_def submitRequest_def Math_random36_def Date_now_def andThen_def
          Let_def commandsOf_def customFetch_def response_json_def lift_def consoleError_def
          split: sum.splits option.splits)
qed

section \<open>Best-effort steps\<close>

lemma today_state [simp]: "snd (today rt s) = s"
  by (simp add: today_def split: option.splits)

lemma today_pair: "fst (today rt s) = Inr d \<Longrightarrow> today rt s = (Inr d, s)"
  by (simp add: prod_eq_iff)

lemma tryCatch_logged_fst:
  "fst (tryCatch m (\<lambda>e. consoleError (f e)) s) = Inr ()"
  by (cases "m s") (auto simp add: tryCatch_def consoleError_def split: sum.splits)

lemma tryCatch_logged_console:
  "fst (m s) = Inl e \<Longrightarrow>
   console_error (snd (tryCatch m (\<lambda>e. consoleError (f e)) s)) = console_error (snd (m s)) @ [f e]"
  by (cases "m s") (auto simp add: tryCatch_def consoleError_def split: sum.splits)

lemma andThen_rejected: "fst (m s) = Inl e \<Longrightarrow> fst (andThen m f s) = Inl e"
  by (cases "m s") (auto simp add: andThen_def)

lemma andThen_resolve_snd [simp]: "snd (andThen m (\<lambda>_. resolve x) s) = snd (m s)"
  by (cases "m s") (auto simp add: andThen_def split: sum.splits)

text \<open>A best-effort step: whatever it does, the value before it is returned.\<close>

lemma bestEffort_fst:
  "fst (andThen (if b then tryCatch m (\<lambda>e. consoleError (f e)) else resolve ()) (\<lambda>_. resolve r) s) = Inr r"
  using tryCatch_logged_fst [of m f s]
  by (cases "tryCatch m (\<lambda>e. consoleError (f e)) s") (auto simp add: andThen_def)

lemma bestEffort_console:
  "b \<Longrightarrow> fst (m s) = Inl e \<Longrightarrow>
   console_error (snd (andThen (if b then tryCatch m (\<lambda>e. consoleError (f e)) else resolve ()) (\<lambda>_. resolve r) s))
     = console_error (snd (m s)) @ [f e]"
  using tryCatch_logged_fst [of m f s] tryCatch_logged_console [of m s e f]
  by (cases "tryCatch m (\<lambda>e. consoleError (f e)) s") (auto simp add: andThen_def)

section \<open>Evaluation in the world of the examples\<close>

lemma testRuntime_simps [simp]:
  "parseFloat (testRuntime d p j a t) = dec_parseFloat"
  "parseInt (testRuntime d p j a t) = dec_parseInt"
  "number_literal (testRuntime d p j a t) = dec_parseFloat"
  "Number_string (testRuntime d p j a t) = dec_Number"
  "plus_n (testRuntime d p j a t) = dec_plus"
  "minus_n (testRuntime d p j a t) = dec_minus"
  "times_n (testRuntime d p j a t) = dec_times"
  "abs_n (testRuntime d p j a t) = dec_abs"
  "less_n (testRuntime d p j a t) = dec_less"
  "less_eq_n (testRuntime d p j a t) = dec_less_eq"
  "strict_eq_n (testRuntime d p j a t) = dec_eq"
  "truthy_n (testRuntime d p j a t) = dec_truthy"
  "toString_n (testRuntime d p j a t) = dec_toString"
  "toFixed_n (testRuntime d p j a t) = dec_toFixed"
  "toISOString (testRuntime d p j a t) = (\<lambda>t. case t of Dec m 0 \<Rightarrow> map_of d m | _ \<Rightarrow> None)"
  "Date_parse (testRuntime d p j a t) = (\<lambda>x. case map_of p x of Some m \<Rightarrow> Dec m 0 | None \<Rightarrow> NaN)"
  "JSON_parse (testRuntime d p j a t) = map_of j"
  "fetch (testRuntime d p j a t) = (\<lambda>history. a)"
  "settled_at (testRuntime d p j a t) = (\<lambda>history request. t)"
  "random36 (testRuntime d p j a t) = (\<lambda>n. ''k3x9'' @ showNat n)"
  by (simp_all add: testRuntime_def)

lemma ledgerWorld_simps [simp]:
  "parseFloat ledgerWorld = dec_parseFloat"
  "parseInt ledgerWorld = dec_parseInt"
  "number_literal ledgerWorld = dec_parseFloat"
  "Number_string ledgerWorld = dec_Number"
  "plus_n ledgerWorld = dec_plus"
  "minus_n ledgerWorld = dec_minus"
  "times_n ledgerWorld = dec_times"
  "abs_n ledgerWorld = dec_abs"
  "less_n ledgerWorld = dec_less"
  "less_eq_n ledgerWorld = dec_less_eq"
  "strict_eq_n ledgerWorld = dec_eq"
  "truthy_n ledgerWorld = dec_truthy"
  "toString_n ledgerWorld = dec_toString"
  "toFixed_n ledgerWorld = dec_toFixed"
  "toISOString ledgerWorld (Dec 1772357400000 0) = Some ''2026-03-01T09:30:00.000Z''"
  "toISOString ledgerWorld (Dec 1782863999000 0) = Some ''2026-06-30T23:59:59.000Z''"
  "Date_parse ledgerWorld ''2026-06-30T23:59:59Z'' = Dec 1782863999000 0"
  "Date_parse ledgerWorld ''2026-06-30T23:59:59.000Z'' = Dec 1782863999000 0"
  "JSON_parse ledgerWorld = map_of ledgerDocuments"
  "fetch ledgerWorld = (\<lambda>history. ledgerAnswer)"
  "settled_at ledgerWorld = (\<lambda>history request. Dec 1772357400250 0)"
  "random36 ledgerWorld = (\<lambda>n. ''k3x9'' @ showNat n)"
  by (simp_all add: ledgerWorld_def)

lemma testConfig_simps [simp]:
  "jsonApiUrl testConfig = ''http://ledger:7575''"
  "packageId testConfig = ''pkg''"
  "adminPartyId testConfig = ''admin::1220aa''"
  "damlUserId testConfig = ''administrator''"
  "ccPrice testConfig = Dec 125 3"
  "defaultLtv testConfig = Dec 5 1"
  "amuletPackageId testConfig = ''splice''"
  "dsoPartyId testConfig = ''dso::1220bb''"
  "validatorWalletUrl testConfig = ''http://wallet:5003''"
  "validatorAuthAudience testConfig = ''https://validator.rhein.finance''"
  "auth0TokenUrl testConfig = ''https://auth/oauth/token''"
  "auth0ClientId testConfig = ''client''"
  "auth0ClientSecret testConfig = ''secret''"
  "ledgerApiAuthAudience testConfig = ''https://canton.network.global''"
  by (simp_all add: testConfig_def)

lemma digitChar_simps [simp]:
  "digitChar 0 = CHR ''0''" "digitChar 1 = CHR ''1''" "digitChar 2 = CHR ''2''"
  "digitChar 3 = CHR ''3''" "digitChar 4 = CHR ''4''" "digitChar 5 = CHR ''5''"
  "digitChar 6 = CHR ''6''" "digitChar 7 = CHR ''7''" "digitChar 8 = CHR ''8''"
  "digitChar 9 = CHR ''9''" "digitChar (Suc 0) = CHR ''1''"
  by (simp_all add: digitChar_def eval_nat_numeral)

lemma showNat_simps [simp]:
  "n < 10 \<Longrightarrow> showNat n = [digitChar n]"
  "\<not> n < 10 \<Longrightarrow> showNat n = showNat (n div 10) @ [digitChar (n mod 10)]"
  by (simp_all add: showNat.simps [of n])

lemmas dec_parse_defs =
  dec_parseFloat_def dec_parseInt_def signOf_def is_space_def isDigit_def natOfDigits_def digitOf_def

lemmas text_defs = offsetText_def holdingsText_def lockedHoldingsText_def loansText_def
  amuletsText_def lockedAmuletsText_def splitResultText_def lockResultText_def repayResultText_def
  defaultResultText_def createResultText_def transferOfferText_def

text \<open>The \<open>JSON.parse\<close> of the examples on the texts of the ledger and the wallet.\<close>

lemma ledgerDocuments_parse [simp]:
  "map_of ledgerDocuments offsetText = Some offsetDoc"
  "map_of ledgerDocuments holdingsText = Some holdingsDoc"
  "map_of ledgerDocuments lockedHoldingsText = Some lockedHoldingsDoc"
  "map_of ledgerDocuments loansText = Some loansDoc"
  "map_of ledgerDocuments amuletsText = Some amuletsDoc"
  "map_of ledgerDocuments lockedAmuletsText = Some lockedAmuletsDoc"
  "map_of ledgerDocuments splitResultText = Some splitResultDoc"
  "map_of ledgerDocuments lockResultText = Some lockResultDoc"
  "map_of ledgerDocuments repayResultText = Some repayResultDoc"
  "map_of ledgerDocuments defaultResultText = Some defaultResultDoc"
  "map_of ledgerDocuments createResultText = Some createResultDoc"
  "map_of ledgerDocuments transferOfferText = Some transferOfferDoc"
  by (simp_all add: ledgerDocuments_def text_defs)

lemma testState_simps [simp]:
  "console_error testState = []"
  "sent testState = []"
  "draws testState = 0"
  "clock testState = Dec 1772357400000 0"
  by (simp_all add: testState_def)

lemma ready_testState [simp]: "ready testState"
  by (simp add: ready_def testState_def)

lemma ready_after [simp]:
  "ready s \<Longrightarrow> ready (afterQuery tid p s)"
  "ready s \<Longrightarrow> ready (afterSubmit commands actAs s)"
  "ready s \<Longrightarrow> ready (afterWallet endpoint meth b s)"
  "ready s \<Longrightarrow> ready (s\<lparr>console_error := l\<rparr>)"
  "ready s \<Longrightarrow> ready (s\<lparr>draws := d\<rparr>)"
  by (simp_all add: ready_def afterQuery_def afterSubmit_def afterWallet_def)

lemma console_after [simp]:
  "console_error (afterQuery tid p s) = console_error s"
  "console_error (afterSubmit commands actAs s) = console_error s"
  "console_error (afterWallet endpoint meth b s) = console_error s"
  by (simp_all add: afterQuery_def afterSubmit_def afterWallet_def)

lemma submitted_after [simp]:
  "submitted testConfig (afterQuery tid p s) = submitted testConfig s"
  "submitted testConfig (afterSubmit commands actAs s) = submitted testConfig s @ [JArr commands]"
  "member b ''commands'' = JUndefined \<Longrightarrow> submitted testConfig (afterWallet endpoint meth b s) = submitted testConfig s"
  by (simp_all add: afterQuery_def afterSubmit_def afterWallet_def submitted_def commandsOf_def
      ledgerEndRequest_def activeContractsRequest_def submitRequest_def walletRequest_def submitUrl_def
      Let_def)

lemma submitted_testState [simp]: "submitted testConfig testState = []"
  by (simp add: submitted_def testState_def)

lemma ledgerWorld_token:
  "ready s \<Longrightarrow> getLedgerApiToken ledgerWorld testConfig s = (Inr (JStr ''ledger-token''), s)"
  "ready s \<Longrightarrow> getValidatorToken ledgerWorld testConfig s = (Inr (JStr ''wallet-token''), s)"
  by (simp_all add: ready_def getLedgerApiToken_def getValidatorToken_def getAuth0Token_def
      testState_def andThen_def cacheGet_def Date_now_def)

lemmas answer_defs = ledgerAnswer_def ledgerContracts_def ledgerResults_def walletAnswers_def
  answerWith_def queriedTemplate_def submittedChoice_def firstValue_def okResponse_def failResponse_def

lemmas request_defs = ledgerEndRequest_def activeContractsRequest_def submitRequest_def
  walletRequest_def submitUrl_def bearer_def templateFilter_def templateId_def amuletTemplateId_def
  exerciseCmd_def createCmd_def

lemmas json_defs = response_json_def get_def opt_def or_else_def iterate_def typed_def field_def

lemmas promise_defs = andThen_def tryCatch_def lift_def customFetch_def Let_def
  Date_now_def Math_random36_def consoleError_def

lemma ledgerWorld_offset:
  "ready s \<Longrightarrow> getLatestOffset ledgerWorld testConfig s =
     (Inr (JNum (Dec 42 0)),
      s\<lparr>sent := sent s @ [ledgerEndRequest ledgerWorld testConfig (JStr ''ledger-token'')],
        clock := Dec 1772357400250 0\<rparr>)"
  by (simp add: getLatestOffset_def ledgerWorld_token promise_defs json_defs request_defs answer_defs
      offsetDoc_def)

lemma ready_offset [simp]:
  "ready s \<Longrightarrow> ready (s\<lparr>sent := x, clock := Dec 1772357400250 0\<rparr>)"
  by (simp add: ready_def)

lemma ledgerWorld_queryActiveLoans:
  "ready s \<Longrightarrow> queryActiveLoans ledgerWorld testConfig p s =
     (Inr [rawLoan1, rawLoan2], afterQuery ''pkg:ActiveLoanHybrid:ActiveLoanHybrid'' p s)"
  by (simp add: queryActiveLoans_def queryContracts_def ledgerWorld_offset ledgerWorld_token
      promise_defs json_defs request_defs answer_defs
      loansDoc_def rawLoan1_def rawLoan2_def afterQuery_def)

lemma ledgerWorld_queryAssetHoldings:
  "ready s \<Longrightarrow> queryAssetHoldings ledgerWorld testConfig p s =
     (Inr [rawHolding1, rawHolding2], afterQuery ''pkg:Holding:AssetHolding'' p s)"
  by (simp add: queryAssetHoldings_def queryContracts_def ledgerWorld_offset ledgerWorld_token
      promise_defs json_defs request_defs answer_defs
      holdingsDoc_def rawHolding1_def rawHolding2_def afterQuery_def)

lemma ledgerWorld_queryLockedAssetHoldings:
  "ready s \<Longrightarrow> queryLockedAssetHoldings ledgerWorld testConfig p s =
     (Inr [rawLockedHolding1], afterQuery ''pkg:Holding:LockedAssetHolding'' p s)"
  by (simp add: queryLockedAssetHoldings_def queryContracts_def ledgerWorld_offset ledgerWorld_token
      promise_defs json_defs request_defs answer_defs
      lockedHoldingsDoc_def rawLockedHolding1_def afterQuery_def)

lemma ledgerWorld_queryAmulets:
  "ready s \<Longrightarrow> queryAmulets ledgerWorld testConfig p s =
     (Inr [rawAmulet1], afterQuery ''splice:Splice.Amulet:Amulet'' p s)"
  by (simp add: queryAmulets_def queryContracts_def ledgerWorld_offset ledgerWorld_token
      promise_defs json_defs request_defs answer_defs
      amuletsDoc_def rawAmulet1_def afterQuery_def)

lemma ledgerWorld_queryLockedAmulets:
  "ready s \<Longrightarrow> queryLockedAmulets ledgerWorld testConfig p s =
     (Inr [rawLockedAmulet1], afterQuery ''splice:Splice.Amulet:LockedAmulet'' p s)"
  by (simp add: queryLockedAmulets_def queryContracts_def ledgerWorld_offset ledgerWorld_token
      promise_defs json_defs request_defs answer_defs
      lockedAmuletsDoc_def rawLockedAmulet1_def afterQuery_def)

text \<open>The typed views of the contracts of the example ledger (their payloads are objects).\<close>

lemma typedAt_object:
  "payload c = JObj kvs \<Longrightarrow> typedAt [k] read c = Inr (typed read c)"
  by (simp add: typedAt_def get_def)

lemma example_read [simp]:
  "asAssetHolding rt rawHolding1 = Inr holding1"
  "asAssetHolding rt rawHolding2 = Inr holding2"
  "asLockedAssetHolding rt rawLockedHolding1 = Inr lockedHolding1"
  "asActiveLoan rt k rawLoan1 = Inr loan1"
  "asActiveLoan rt k rawLoan2 = Inr loan2"
  by (simp_all add: asAssetHolding_def asLockedAssetHolding_def asActiveLoan_def typedAt_object
      typed_def field_def typed_defs rawHolding1_def rawHolding2_def rawLockedHolding1_def
      rawLoan1_def rawLoan2_def holding1_def holding2_def lockedHolding1_def loan1_def loan2_def)

lemma example_read_amulets [simp]:
  "asAmulet rt rawAmulet1 = Inr amulet1"
  "asLockedAmulet rt rawLockedAmulet1 = Inr lockedAmulet1"
  by (simp_all add: asAmulet_def asLockedAmulet_def typedAt_def get_def
      typed_def field_def typed_defs rawAmulet1_def rawLockedAmulet1_def amulet1_def lockedAmulet1_def)

lemma example_contractId [simp]:
  "contractId rawLoan1 = JStr ''loan-1''" "contractId rawLoan2 = JStr ''loan-2''"
  "contractId rawHolding1 = JStr ''h-1''" "contractId rawHolding2 = JStr ''h-2''"
  by (simp_all add: rawLoan1_def rawLoan2_def rawHolding1_def rawHolding2_def)

lemma ledgerWorld_submit:
  "ready s \<Longrightarrow> submitCommand ledgerWorld testConfig [exerciseCmd tid cid ''Split'' arg] actAs s =
     (Inr splitResultDoc, afterSubmit [exerciseCmd tid cid ''Split'' arg] actAs s)"
  "ready s \<Longrightarrow> submitCommand ledgerWorld testConfig [exerciseCmd tid cid ''Lock'' arg] actAs s =
     (Inr lockResultDoc, afterSubmit [exerciseCmd tid cid ''Lock'' arg] actAs s)"
  "ready s \<Longrightarrow> submitCommand ledgerWorld testConfig [exerciseCmd tid cid ''RepayHybrid'' arg] actAs s =
     (Inr repayResultDoc, afterSubmit [exerciseCmd tid cid ''RepayHybrid'' arg] actAs s)"
  "ready s \<Longrightarrow> submitCommand ledgerWorld testConfig [exerciseCmd tid cid ''ClaimDefaultHybrid'' arg] actAs s =
     (Inr defaultResultDoc, afterSubmit [exerciseCmd tid cid ''ClaimDefaultHybrid'' arg] actAs s)"
  "ready s \<Longrightarrow> submitCommand ledgerWorld testConfig [createCmd tid args] actAs s =
     (Inr createResultDoc, afterSubmit [createCmd tid args] actAs s)"
  by (simp_all add: submitCommand_def ledgerWorld_token promise_defs json_defs request_defs answer_defs
      afterSubmit_def)

lemma transferOfferText_trim [simp]: "transferOfferText \<noteq> []" "trim transferOfferText \<noteq> []"
  by (simp_all add: transferOfferText_def trim_def is_space_def)

lemma ledgerWorld_wallet:
  "ready s \<Longrightarrow>
   walletApiFetch ledgerWorld testConfig ''transfer-offers'' ''POST'' (JObj kvs) None s =
     (Inr transferOfferDoc, afterWallet ''transfer-offers'' ''POST'' (JObj kvs) s)"
  \<open>ready s \<Longrightarrow>
   walletApiFetch ledgerWorld testConfig ''transfer-offers/offer-1/withdraw'' ''POST'' (JObj []) None s =
     (Inl (Error ''Wallet API error (404): {"error":"offer not found"}''),
      afterWallet ''transfer-offers/offer-1/withdraw'' ''POST'' (JObj []) s)\<close>
  \<open>ready s \<Longrightarrow>
   walletApiFetch ledgerWorld testConfig ''transfer-offers/offer-1/accept'' ''POST'' (JObj []) None s =
     (Inl (Error ''Wallet API error (404): {"error":"offer not found"}''),
      afterWallet ''transfer-offers/offer-1/accept'' ''POST'' (JObj []) s)\<close>
  by (simp_all add: walletApiFetch_def given_def ledgerWorld_token promise_defs json_defs request_defs
      answer_defs afterWallet_def)

lemma ledgerWorld_today: "today ledgerWorld testState = (Inr ''2026-03-01'', testState)"
  by (simp add: today_def testState_def)

section \<open>The variants of the example world\<close>

lemma testRuntime_token:
  "ready s \<Longrightarrow> getLedgerApiToken (testRuntime d p j a t) testConfig s = (Inr (JStr ''ledger-token''), s)"
  "ready s \<Longrightarrow> getValidatorToken (testRuntime d p j a t) testConfig s = (Inr (JStr ''wallet-token''), s)"
  by (simp_all add: ready_def getLedgerApiToken_def getValidatorToken_def getAuth0Token_def
      testState_def andThen_def cacheGet_def Date_now_def)

lemma variant_parse [simp]:
  "map_of eventsOnlyDocuments offsetText = Some offsetDoc"
  "map_of eventsOnlyDocuments holdingsText = Some holdingsDoc"
  "map_of eventsOnlyDocuments splitEventsText = Some splitEventsDoc"
  "map_of bareHoldingDocuments offsetText = Some offsetDoc"
  "map_of bareHoldingDocuments bareHoldingsText = Some bareHoldingsDoc"
  by (simp_all add: eventsOnlyDocuments_def bareHoldingDocuments_def ledgerDocuments_def text_defs
      splitEventsText_def bareHoldingsText_def)

lemma eventsOnlyWorld_queryAssetHoldings:
  "ready s \<Longrightarrow> queryAssetHoldings eventsOnlyWorld testConfig p s =
     (Inr [rawHolding1, rawHolding2], afterQuery ''pkg:Holding:AssetHolding'' p s)"
  by (simp add: eventsOnlyWorld_def queryAssetHoldings_def queryContracts_def getLatestOffset_def
      testRuntime_token promise_defs json_defs request_defs answer_defs eventsOnlyAnswer_def
      offsetDoc_def holdingsDoc_def rawHolding1_def rawHolding2_def afterQuery_def)

lemma eventsOnlyWorld_split:
  "ready s \<Longrightarrow> submitCommand eventsOnlyWorld testConfig [exerciseCmd tid cid ''Split'' arg] actAs s =
     (Inr splitEventsDoc, afterSubmit [exerciseCmd tid cid ''Split'' arg] actAs s)"
  by (simp add: eventsOnlyWorld_def submitCommand_def testRuntime_token promise_defs json_defs
      request_defs answer_defs eventsOnlyAnswer_def afterSubmit_def)

lemma splitEvents_ids:
  "getExerciseResult rt splitEventsDoc = Inr JUndefined"
  "splitAmountCidOf rt JUndefined = JUndefined"
  "createdEventsOf rt splitEventsDoc =
     Inr [JObj [(''contractId'', JStr ''h-3'')], JObj [(''contractId'', JStr ''h-4'')]]"
  by (simp_all add: getExerciseResult_def createdEventsOf_def transactionEvents_def splitEventsDoc_def
      json_defs arrayOf_def splitAmountCidOf_def)

lemma bareHoldingWorld_queryAssetHoldings:
  "ready s \<Longrightarrow> queryAssetHoldings bareHoldingWorld testConfig p s =
     (Inr [rawHolding9], afterQuery ''pkg:Holding:AssetHolding'' p s)"
  by (simp add: bareHoldingWorld_def queryAssetHoldings_def queryContracts_def getLatestOffset_def
      testRuntime_token promise_defs json_defs request_defs answer_defs bareHoldingAnswer_def
      offsetDoc_def bareHoldingsDoc_def rawHolding9_def afterQuery_def)

lemma rawHolding9_unread:
  "asAssetHolding rt rawHolding9 = Inl (cannotRead ''undefined'' ''assetType'')"
  by (simp add: asAssetHolding_def typedAt_def get_def rawHolding9_def)

lemma silentWalletWorld_simps [simp]:
  "toISOString silentWalletWorld (Dec 1772357400000 0) = Some ''2026-03-01T09:30:00.000Z''"
  "toISOString silentWalletWorld (Dec 1782863999000 0) = Some ''2026-06-30T23:59:59.000Z''"
  "Date_parse silentWalletWorld ''2026-06-30T23:59:59Z'' = Dec 1782863999000 0"
  "Date_parse silentWalletWorld ''2026-06-30T23:59:59.000Z'' = Dec 1782863999000 0"
  "parseFloat silentWalletWorld = dec_parseFloat"
  "number_literal silentWalletWorld = dec_parseFloat"
  "plus_n silentWalletWorld = dec_plus"
  "times_n silentWalletWorld = dec_times"
  "less_n silentWalletWorld = dec_less"
  "toString_n silentWalletWorld = dec_toString"
  "toFixed_n silentWalletWorld = dec_toFixed"
  "random36 silentWalletWorld = (\<lambda>n. ''k3x9'' @ showNat n)"
  by (simp_all add: silentWalletWorld_def)

lemma silentWalletWorld_queryAmulets:
  "ready s \<Longrightarrow> queryAmulets silentWalletWorld testConfig p s =
     (Inr [rawAmulet1], afterQuery ''splice:Splice.Amulet:Amulet'' p s)"
  by (simp add: silentWalletWorld_def queryAmulets_def queryContracts_def getLatestOffset_def
      testRuntime_token promise_defs json_defs request_defs answer_defs silentWalletAnswer_def
      offsetDoc_def amuletsDoc_def rawAmulet1_def afterQuery_def)

lemma silentWalletWorld_wallet:
  "ready s \<Longrightarrow>
   walletApiFetch silentWalletWorld testConfig ''transfer-offers'' ''POST'' (JObj kvs) None s =
     (Inr (JObj []), afterWallet ''transfer-offers'' ''POST'' (JObj kvs) s)"
  by (simp add: silentWalletWorld_def walletApiFetch_def given_def testRuntime_token promise_defs
      json_defs request_defs answer_defs silentWalletAnswer_def afterWallet_def)

lemma silentWalletWorld_create:
  "ready s \<Longrightarrow> submitCommand silentWalletWorld testConfig [createCmd tid args] actAs s =
     (Inr createResultDoc, afterSubmit [createCmd tid args] actAs s)"
  by (simp add: silentWalletWorld_def submitCommand_def testRuntime_token promise_defs json_defs
      request_defs answer_defs silentWalletAnswer_def afterSubmit_def)

section \<open>The token cache\<close>

lemma getAuth0Token_hit:
  "tokenCache s a = Some (token, expiresAt) \<Longrightarrow> less_n rt (clock s) expiresAt \<Longrightarrow>
   getAuth0Token rt cfg a s = (Inr token, s)"
  by (simp add: getAuth0Token_def)

lemma getAuth0Token_miss:
  "\<forall>token expiresAt. tokenCache s a = Some (token, expiresAt) \<longrightarrow> \<not> less_n rt (clock s) expiresAt \<Longrightarrow>
   getAuth0Token rt cfg a s = exchangeToken rt cfg a s"
  by (cases "tokenCache s a") (auto simp add: getAuth0Token_def)

lemma isExchange_tokenRequest [simp]: "isExchange (tokenRequest cfg a)"
  by (simp add: isExchange_def tokenRequest_def)

lemma exchangeToken_exchanges:
  "exchanges (snd (exchangeToken rt cfg a s)) = exchanges s @ [tokenRequest cfg a]"
  by (auto simp add: exchangeToken_def exchanges_def Let_def response_json_def get_if
      split: sum.splits option.splits)

lemma exchangeToken_result:
  assumes "fst (exchangeToken rt cfg a s) = Inr token"
  shows "\<exists>response data. fetch rt (sent s) (tokenRequest cfg a) = Inr response \<and> ok response \<and>
           JSON_parse rt (body_text response) = Some data \<and> \<not> nullish data \<and>
           token = member data ''access_token'' \<and>
           tokenCache (snd (exchangeToken rt cfg a s)) a =
             Some (token, plus_n rt (settled_at rt (sent s) (tokenRequest cfg a))
                    (times_n rt (minus_n rt (toNumber rt (member data ''expires_in''))
                       (number_literal rt ''60'')) (number_literal rt ''1000'')))"
  using assms
  by (auto simp add: exchangeToken_def Let_def response_json_def get_if nullish_iff
      split: sum.splits option.splits if_splits)

lemma getAuth0Token_caches:
  assumes "fst (getAuth0Token rt cfg a s) = Inr token"
  shows "\<exists>expiresAt. tokenCache (snd (getAuth0Token rt cfg a s)) a = Some (token, expiresAt)"
proof (cases "\<exists>t e. tokenCache s a = Some (t, e) \<and> less_n rt (clock s) e")
  case True
  then obtain t e where h: "tokenCache s a = Some (t, e)" "less_n rt (clock s) e" by blast
  from getAuth0Token_hit [OF h] assms show ?thesis using h by simp
next
  case False
  then have m: "getAuth0Token rt cfg a s = exchangeToken rt cfg a s"
    by (intro getAuth0Token_miss) blast
  from exchangeToken_result [of rt cfg a s token] assms m show ?thesis by auto
qed

lemma tokenWorld_first:
  \<open>getAuth0Token tokenWorld testConfig ''aud'' (emptyState (Dec 1000 0)) =
     (Inr (JStr ''t-1''),
      \<lparr>tokenCache = [''aud'' \<mapsto> (JStr ''t-1'', Dec 3542000 0)], clock = Dec 2000 0,
       sent = [tokenRequest testConfig ''aud''], draws = 0, console_error = []\<rparr>)\<close>
  by (simp add: getAuth0Token_def exchangeToken_def emptyState_def tokenWorld_def
      okResponse_def response_json_def tokenDocuments_def get_if toNumber_def dec_parse_defs)

text \<open>
  C7. A token obtained for an audience is cached: a later call for that audience, made while
  the entry is still in the cache and the clock is before its expiry, returns the same
  token and leaves the state as it is (no request is sent, so no second exchange); a call
  made when the clock is not before the expiry sends one exchange, and when it succeeds
  the token of the answer is cached with the expiry
  \<open>now + (expires_in - 60) * 1000\<close> milliseconds, \<open>now\<close> being the time of the answer.
\<close>

theorem getAuth0Token_cached_or_exchanged:
  assumes first: "fst (getAuth0Token rt cfg audience s0) = Inr token"
      and kept: "tokenCache s2 audience = tokenCache (snd (getAuth0Token rt cfg audience s0)) audience"
  shows "\<exists>expiresAt. tokenCache s2 audience = Some (token, expiresAt) \<and>
           (less_n rt (clock s2) expiresAt \<longrightarrow>
              getAuth0Token rt cfg audience s2 = (Inr token, s2)) \<and>
           (\<not> less_n rt (clock s2) expiresAt \<longrightarrow>
              exchanges (snd (getAuth0Token rt cfg audience s2)) = exchanges s2 @ [tokenRequest cfg audience] \<and>
              (\<forall>token'. fst (getAuth0Token rt cfg audience s2) = Inr token' \<longrightarrow>
                 (\<exists>response data.
                    fetch rt (sent s2) (tokenRequest cfg audience) = Inr response \<and>
                    JSON_parse rt (body_text response) = Some data \<and>
                    token' = member data ''access_token'' \<and>
                    tokenCache (snd (getAuth0Token rt cfg audience s2)) audience =
                      Some (token', plus_n rt (settled_at rt (sent s2) (tokenRequest cfg audience))
                             (times_n rt (minus_n rt (toNumber rt (member data ''expires_in''))
                                (number_literal rt ''60'')) (number_literal rt ''1000''))))))"
proof -
  from getAuth0Token_caches [OF first] kept
  obtain expiresAt where c: "tokenCache s2 audience = Some (token, expiresAt)" by auto
  have hit: "less_n rt (clock s2) expiresAt \<longrightarrow> getAuth0Token rt cfg audience s2 = (Inr token, s2)"
    using getAuth0Token_hit [OF c] by blast
  have miss: "\<not> less_n rt (clock s2) expiresAt \<longrightarrow>
      getAuth0Token rt cfg audience s2 = exchangeToken rt cfg audience s2"
    using c by (auto intro: getAuth0Token_miss)
  show ?thesis
  proof (intro exI [of _ expiresAt] conjI impI allI)
    show "tokenCache s2 audience = Some (token, expiresAt)" by (rule c)
  next
    assume "less_n rt (clock s2) expiresAt"
    with hit show "getAuth0Token rt cfg audience s2 = (Inr token, s2)" by blast
  next
    assume n: "\<not> less_n rt (clock s2) expiresAt"
    with miss show "exchanges (snd (getAuth0Token rt cfg audience s2)) = exchanges s2 @ [tokenRequest cfg audience]"
      by (simp add: exchangeToken_exchanges)
  next
    fix token'
    assume n: "\<not> less_n rt (clock s2) expiresAt"
       and r: "fst (getAuth0Token rt cfg audience s2) = Inr token'"
    from miss n have e: "getAuth0Token rt cfg audience s2 = exchangeToken rt cfg audience s2" by blast
    from exchangeToken_result [of rt cfg audience s2 token'] r e
    show "\<exists>response data.
            fetch rt (sent s2) (tokenRequest cfg audience) = Inr response \<and>
            JSON_parse rt (body_text response) = Some data \<and>
            token' = member data ''access_token'' \<and>
            tokenCache (snd (getAuth0Token rt cfg audience s2)) audience =
              Some (token', plus_n rt (settled_at rt (sent s2) (tokenRequest cfg audience))
                     (times_n rt (minus_n rt (toNumber rt (member data ''expires_in''))
                        (number_literal rt ''60'')) (number_literal rt ''1000'')))"
      by auto
  qed
qed

lemma tokenWorld_less [simp]: "less_n tokenWorld = dec_less"
  by (simp add: tokenWorld_def testRuntime_def)

theorem getAuth0Token_cached_or_exchanged_witness:
  \<open>fst (getAuth0Token tokenWorld testConfig ''aud'' (emptyState (Dec 1000 0))) = Inr (JStr ''t-1'') \<and>
   getAuth0Token tokenWorld testConfig ''aud''
     ((snd (getAuth0Token tokenWorld testConfig ''aud'' (emptyState (Dec 1000 0))))\<lparr>clock := Dec 5000 0\<rparr>)
   = (Inr (JStr ''t-1''),
      (snd (getAuth0Token tokenWorld testConfig ''aud'' (emptyState (Dec 1000 0))))\<lparr>clock := Dec 5000 0\<rparr>) \<and>
   exchanges (snd (getAuth0Token tokenWorld testConfig ''aud''
     ((snd (getAuth0Token tokenWorld testConfig ''aud'' (emptyState (Dec 1000 0))))\<lparr>clock := Dec 3542000 0\<rparr>)))
   = [tokenRequest testConfig ''aud'', tokenRequest testConfig ''aud'']\<close>
proof -
  let ?s1 = "snd (getAuth0Token tokenWorld testConfig ''aud'' (emptyState (Dec 1000 0)))"
  have first: "fst (getAuth0Token tokenWorld testConfig ''aud'' (emptyState (Dec 1000 0))) = Inr (JStr ''t-1'')"
    by (simp add: tokenWorld_first)
  have early: "getAuth0Token tokenWorld testConfig ''aud'' (?s1\<lparr>clock := Dec 5000 0\<rparr>)
                 = (Inr (JStr ''t-1''), ?s1\<lparr>clock := Dec 5000 0\<rparr>)"
    using getAuth0Token_cached_or_exchanged [OF first, of "?s1\<lparr>clock := Dec 5000 0\<rparr>"]
    by (simp add: tokenWorld_first)
  have late: "exchanges (snd (getAuth0Token tokenWorld testConfig ''aud'' (?s1\<lparr>clock := Dec 3542000 0\<rparr>)))
                 = [tokenRequest testConfig ''aud'', tokenRequest testConfig ''aud'']"
    using getAuth0Token_cached_or_exchanged [OF first, of "?s1\<lparr>clock := Dec 3542000 0\<rparr>"]
    by (simp add: tokenWorld_first exchanges_def)
  from first early late show ?thesis by blast
qed

text \<open>
  C8. The exchange raises when the answer is not a success (and when it is not JSON, or is
  \<^verbatim>\<open>null\<close>); it does not look at \<^verbatim>\<open>access_token\<close>. On a success answer without
  \<^verbatim>\<open>access_token\<close> the call returns \<^verbatim>\<open>undefined\<close> as the token and caches it until the
  expiry of the answer.
\<close>

theorem getAuth0Token_missing_access_token:
  \<open>getAuth0Token tokenWorldBare testConfig ''aud'' (emptyState (Dec 1000 0)) =
     (Inr JUndefined,
      \<lparr>tokenCache = [''aud'' \<mapsto> (JUndefined, Dec 3542000 0)], clock = Dec 2000 0,
       sent = [tokenRequest testConfig ''aud''], draws = 0, console_error = []\<rparr>)\<close>
  by (simp add: getAuth0Token_def exchangeToken_def emptyState_def tokenWorldBare_def
      okResponse_def response_json_def tokenDocuments_def get_if toNumber_def dec_parse_defs)

section \<open>Token balances: the snapshot\<close>

text \<open>
  C3. In every snapshot that \<^verbatim>\<open>getTokenBalances\<close> returns, for USDC and for CC, \<open>total\<close> is
  the sum \<open>available + locked\<close>; \<open>cc.borrowed\<close> is 0; and \<open>usdc.borrowed\<close> is the sum of
  the principals of the active loans (as the query of the snapshot returned them, each read
  as a loan) whose borrower is the party.
\<close>

theorem getTokenBalances_total:
  assumes "fst (getTokenBalances rt cfg partyId s) = Inr b"
  shows "plus_n rt (available (usdc b)) (locked (usdc b)) = total (usdc b) \<and>
         plus_n rt (available (cc b)) (locked (cc b)) = total (cc b) \<and>
         borrowed (cc b) = number_literal rt ''0'' \<and>
         (\<exists>contracts activeLoans.
            fst (queryActiveLoans rt cfg partyId
                  (snd (queryLockedAssetHoldings rt cfg partyId
                         (snd (queryAssetHoldings rt cfg partyId s))))) = Inr contracts \<and>
            mapE (asActiveLoan rt ''borrower'') contracts = Inr activeLoans \<and>
            borrowed (usdc b) =
              sumOf rt (\<lambda>loan. parseFloat rt (principal (payload loan)))
                (filter (\<lambda>loan. borrower (payload loan) = partyId) activeLoans))"
  using assms
  by (auto simp add: getTokenBalances_def andThen_def lift_def Let_def split: prod.splits sum.splits)

lemma ledgerWorld_snapshot:
  "fst (getTokenBalances ledgerWorld testConfig ''alice::1220aa'' testState) =
  Inr \<lparr>usdc = \<lparr>balance_assetType = ''USDC'', available = Dec 1500 0, locked = Dec 25025 2,
                borrowed = Dec 300 0, total = Dec 175025 2\<rparr>,
        cc = \<lparr>balance_assetType = ''CC'', available = Dec 4000 0, locked = Dec 15005 1,
              borrowed = Dec 0 0, total = Dec 55005 1\<rparr>\<rparr>"
  by (simp add: getTokenBalances_def andThen_def lift_def Let_def ledgerWorld_queryAssetHoldings
      ledgerWorld_queryLockedAssetHoldings ledgerWorld_queryActiveLoans ledgerWorld_queryAmulets
      ledgerWorld_queryLockedAmulets sumOf_def calculateAmuletAmount_def dec_parse_defs
      holding1_def holding2_def lockedHolding1_def loan1_def loan2_def amulet1_def lockedAmulet1_def)

theorem getTokenBalances_total_witness:
  "fst (getTokenBalances ledgerWorld testConfig ''alice::1220aa'' testState) =
     Inr \<lparr>usdc = \<lparr>balance_assetType = ''USDC'', available = Dec 1500 0, locked = Dec 25025 2,
                borrowed = Dec 300 0, total = Dec 175025 2\<rparr>,
        cc = \<lparr>balance_assetType = ''CC'', available = Dec 4000 0, locked = Dec 15005 1,
              borrowed = Dec 0 0, total = Dec 55005 1\<rparr>\<rparr> \<and>
   plus_n ledgerWorld (Dec 1500 0) (Dec 25025 2) = Dec 175025 2 \<and>
   plus_n ledgerWorld (Dec 4000 0) (Dec 15005 1) = Dec 55005 1"
  using getTokenBalances_total [OF ledgerWorld_snapshot] ledgerWorld_snapshot
  by simp

section \<open>Claiming a default\<close>

text \<open>
  C5. Let the loan be among the active loans that the query of \<^verbatim>\<open>defaultLoan\<close> returns, and
  let the claim date be the override when one is given and today's date otherwise. When the
  claim date is before the maturity date (as strings, which for ISO dates is the order of
  the calendar) the call fails with the error "Loan has not matured yet" and no command has
  been submitted to the ledger. When the claim date is on or after the maturity date the
  \<^verbatim>\<open>ClaimDefaultHybrid\<close> exercise is submitted, and when the ledger accepts it its result is
  the result of the call, also when the claim of the collateral at the wallet fails: the
  failure adds one line to the error log and is not raised. (A loan that came without a
  payload makes the read of its maturity date fail, before anything is submitted.)
\<close>

theorem defaultLoan_maturity:
  assumes t: "fst (today rt s) = Inr today'"
      and q: "queryActiveLoans rt cfg partyId s = (Inr loans, s1)"
      and f: "findLoan loanContractId loans = Some contract"
      and c: "claimDate = (if given overrideClaimDate then the overrideClaimDate else today')"
  shows "(\<forall>e. asActiveLoan rt ''maturityDate'' contract = Inl e \<longrightarrow>
            fst (defaultLoan rt cfg partyId loanContractId overrideClaimDate userToken s) = Inl e \<and>
            submitted cfg (snd (defaultLoan rt cfg partyId loanContractId overrideClaimDate userToken s)) =
              submitted cfg s) \<and>
         (\<forall>loan. asActiveLoan rt ''maturityDate'' contract = Inr loan \<longrightarrow>
         (claimDate < maturityDate (payload loan) \<longrightarrow>
            fst (defaultLoan rt cfg partyId loanContractId overrideClaimDate userToken s) =
              Inl (Error (''Loan has not matured yet. Maturity date: '' @ maturityDate (payload loan)
                          @ '', claim date: '' @ claimDate)) \<and>
            submitted cfg (snd (defaultLoan rt cfg partyId loanContractId overrideClaimDate userToken s)) =
              submitted cfg s) \<and>
         (maturityDate (payload loan) \<le> claimDate \<longrightarrow>
            (\<forall>defaultResult s2.
               submitCommand rt cfg
                 [exerciseCmd (templateId cfg ''ActiveLoanHybrid:ActiveLoanHybrid'') (JStr loanContractId)
                    ''ClaimDefaultHybrid'' (JObj [(''claimDate'', JStr claimDate)])]
                 [partyId, borrower (payload loan)] s1 = (Inr defaultResult, s2) \<longrightarrow>
               fst (defaultLoan rt cfg partyId loanContractId overrideClaimDate userToken s) = Inr defaultResult \<and>
               (\<forall>claimErr.
                  ccCollateralReference (payload loan) \<noteq> [] \<and>
                  fst (walletApiFetch rt cfg
                         (''transfer-offers/'' @ ccCollateralReference (payload loan) @ ''/accept'')
                         ''POST'' (JObj []) userToken s2) = Inl claimErr \<longrightarrow>
                  console_error (snd (defaultLoan rt cfg partyId loanContractId overrideClaimDate userToken s)) =
                    console_error (snd (walletApiFetch rt cfg
                         (''transfer-offers/'' @ ccCollateralReference (payload loan) @ ''/accept'')
                         ''POST'' (JObj []) userToken s2))
                    @ [''[Amulet] Failed to claim CC collateral: '' @ error_toString claimErr]))))"
proof -
  note tp = today_pair [OF t]
  have quiet1: "submitted cfg s1 = submitted cfg s"
    using quietD [OF quiet_queries(5), of cfg rt cfg partyId s] q by simp
  have unread: "defaultLoan rt cfg partyId loanContractId overrideClaimDate userToken s = (Inl e, s1)"
    if "asActiveLoan rt ''maturityDate'' contract = Inl e" for e
    using tp q f c that by (simp add: defaultLoan_def andThen_def lift_def Let_def)
  have early: "defaultLoan rt cfg partyId loanContractId overrideClaimDate userToken s =
        (Inl (Error (''Loan has not matured yet. Maturity date: '' @ maturityDate (payload loan)
                          @ '', claim date: '' @ claimDate)), s1)"
    if "asActiveLoan rt ''maturityDate'' contract = Inr loan"
      and "claimDate < maturityDate (payload loan)" for loan
    using tp q f c that by (simp add: defaultLoan_def andThen_def lift_def Let_def)
  have late: "defaultLoan rt cfg partyId loanContractId overrideClaimDate userToken s =
        andThen (if ccCollateralReference (payload loan) \<noteq> []
                    then tryCatch
                           (andThen (walletApiFetch rt cfg (''transfer-offers/'' @ ccCollateralReference (payload loan) @ ''/accept'')
                                       ''POST'' (JObj []) userToken) (\<lambda>_. resolve ()))
                           (\<lambda>claimErr. consoleError (''[Amulet] Failed to claim CC collateral: ''
                                                       @ error_toString claimErr))
                    else resolve ()) (\<lambda>_. resolve defaultResult) s2"
    if "asActiveLoan rt ''maturityDate'' contract = Inr loan"
      and "maturityDate (payload loan) \<le> claimDate"
      and "submitCommand rt cfg
                 [exerciseCmd (templateId cfg ''ActiveLoanHybrid:ActiveLoanHybrid'') (JStr loanContractId)
                    ''ClaimDefaultHybrid'' (JObj [(''claimDate'', JStr claimDate)])]
                 [partyId, borrower (payload loan)] s1 = (Inr defaultResult, s2)"
    for loan defaultResult s2
    using tp q f c that by (simp add: defaultLoan_def andThen_def lift_def Let_def not_less [symmetric])
  show ?thesis
  proof (intro conjI impI allI)
    fix e
    assume "asActiveLoan rt ''maturityDate'' contract = Inl e"
    from unread [OF this] quiet1
    show "fst (defaultLoan rt cfg partyId loanContractId overrideClaimDate userToken s) = Inl e"
      and "submitted cfg (snd (defaultLoan rt cfg partyId loanContractId overrideClaimDate userToken s)) =
              submitted cfg s"
      by simp_all
  next
    fix loan
    assume r: "asActiveLoan rt ''maturityDate'' contract = Inr loan"
      and "claimDate < maturityDate (payload loan)"
    from early [OF this] quiet1
    show "fst (defaultLoan rt cfg partyId loanContractId overrideClaimDate userToken s) =
              Inl (Error (''Loan has not matured yet. Maturity date: '' @ maturityDate (payload loan)
                          @ '', claim date: '' @ claimDate))"
      and "submitted cfg (snd (defaultLoan rt cfg partyId loanContractId overrideClaimDate userToken s)) =
              submitted cfg s"
      by simp_all
  next
    fix loan defaultResult s2
    assume r: "asActiveLoan rt ''maturityDate'' contract = Inr loan"
      and m: "maturityDate (payload loan) \<le> claimDate"
      and d: "submitCommand rt cfg
                 [exerciseCmd (templateId cfg ''ActiveLoanHybrid:ActiveLoanHybrid'') (JStr loanContractId)
                    ''ClaimDefaultHybrid'' (JObj [(''claimDate'', JStr claimDate)])]
                 [partyId, borrower (payload loan)] s1 = (Inr defaultResult, s2)"
    from late [OF r m d] show "fst (defaultLoan rt cfg partyId loanContractId overrideClaimDate userToken s) = Inr defaultResult"
      by (simp add: bestEffort_fst)
  next
    fix loan defaultResult s2 claimErr
    assume r: "asActiveLoan rt ''maturityDate'' contract = Inr loan"
      and m: "maturityDate (payload loan) \<le> claimDate"
      and d: "submitCommand rt cfg
                 [exerciseCmd (templateId cfg ''ActiveLoanHybrid:ActiveLoanHybrid'') (JStr loanContractId)
                    ''ClaimDefaultHybrid'' (JObj [(''claimDate'', JStr claimDate)])]
                 [partyId, borrower (payload loan)] s1 = (Inr defaultResult, s2)"
      and w: "ccCollateralReference (payload loan) \<noteq> [] \<and>
                  fst (walletApiFetch rt cfg
                         (''transfer-offers/'' @ ccCollateralReference (payload loan) @ ''/accept'')
                         ''POST'' (JObj []) userToken s2) = Inl claimErr"
    from w have w1: "ccCollateralReference (payload loan) \<noteq> []"
      and w2: "fst (andThen (walletApiFetch rt cfg
                         (''transfer-offers/'' @ ccCollateralReference (payload loan) @ ''/accept'')
                         ''POST'' (JObj []) userToken) (\<lambda>_. resolve ()) s2) = Inl claimErr"
      by (simp_all add: andThen_rejected)
    from bestEffort_console [where b = "ccCollateralReference (payload loan) \<noteq> []" and s = s2
          and m = "andThen (walletApiFetch rt cfg
                         (''transfer-offers/'' @ ccCollateralReference (payload loan) @ ''/accept'')
                         ''POST'' (JObj []) userToken) (\<lambda>_. resolve ())"
          and e = claimErr and r = defaultResult
          and f = "\<lambda>claimErr. ''[Amulet] Failed to claim CC collateral: '' @ error_toString claimErr",
          OF w1 w2]
      late [OF r m d]
    show "console_error (snd (defaultLoan rt cfg partyId loanContractId overrideClaimDate userToken s)) =
                    console_error (snd (walletApiFetch rt cfg
                         (''transfer-offers/'' @ ccCollateralReference (payload loan) @ ''/accept'')
                         ''POST'' (JObj []) userToken s2))
                    @ [''[Amulet] Failed to claim CC collateral: '' @ error_toString claimErr]"
      by simp
  qed
qed

lemma loan1_simps [simp]:
  "findLoan ''loan-1'' [rawLoan1, rawLoan2] = Some rawLoan1"
  "maturityDate (payload loan1) = ''2026-06-30''"
  "borrower (payload loan1) = ''alice::1220aa''"
  "lender (payload loan1) = ''bob::1220cc''"
  "ccCollateralReference (payload loan1) = ''offer-1''"
  by (simp_all add: findLoan_def loan1_def loan2_def)

theorem defaultLoan_maturity_witness:
  \<open>fst (defaultLoan ledgerWorld testConfig ''bob::1220cc'' ''loan-1'' None None testState) =
     Inl (Error ''Loan has not matured yet. Maturity date: 2026-06-30, claim date: 2026-03-01'') \<and>
   submitted testConfig (snd (defaultLoan ledgerWorld testConfig ''bob::1220cc'' ''loan-1'' None None testState)) = [] \<and>
   fst (defaultLoan ledgerWorld testConfig ''bob::1220cc'' ''loan-1'' (Some ''2026-07-01'') None testState) =
     Inr defaultResultDoc \<and>
   console_error (snd (defaultLoan ledgerWorld testConfig ''bob::1220cc'' ''loan-1'' (Some ''2026-07-01'') None testState)) =
     [''[Amulet] Failed to claim CC collateral: Error: Wallet API error (404): {"error":"offer not found"}'']\<close>
proof -
  have t: "fst (today ledgerWorld testState) = Inr ''2026-03-01''"
    by (simp add: ledgerWorld_today)
  have q: "queryActiveLoans ledgerWorld testConfig ''bob::1220cc'' testState =
             (Inr [rawLoan1, rawLoan2], afterQuery ''pkg:ActiveLoanHybrid:ActiveLoanHybrid'' ''bob::1220cc'' testState)"
    by (simp add: ledgerWorld_queryActiveLoans)
  have f: "findLoan ''loan-1'' [rawLoan1, rawLoan2] = Some rawLoan1" by simp
  from defaultLoan_maturity [OF t q f, of "''2026-03-01''" None None]
  have early: \<open>fst (defaultLoan ledgerWorld testConfig ''bob::1220cc'' ''loan-1'' None None testState) =
       Inl (Error ''Loan has not matured yet. Maturity date: 2026-06-30, claim date: 2026-03-01'') \<and>
     submitted testConfig (snd (defaultLoan ledgerWorld testConfig ''bob::1220cc'' ''loan-1'' None None testState)) = []\<close>
    by (simp add: given_def)
  from defaultLoan_maturity [OF t q f, of "''2026-07-01''" "Some ''2026-07-01''" None]
  have late: \<open>fst (defaultLoan ledgerWorld testConfig ''bob::1220cc'' ''loan-1'' (Some ''2026-07-01'') None testState) =
       Inr defaultResultDoc \<and>
     console_error (snd (defaultLoan ledgerWorld testConfig ''bob::1220cc'' ''loan-1'' (Some ''2026-07-01'') None testState)) =
       [''[Amulet] Failed to claim CC collateral: Error: Wallet API error (404): {"error":"offer not found"}'']\<close>
    by (simp add: given_def ledgerWorld_submit ledgerWorld_wallet)
  from early late show ?thesis by blast
qed

section \<open>Repaying a loan\<close>

text \<open>
  C6. Once the \<^verbatim>\<open>RepayHybrid\<close> command of \<^verbatim>\<open>repayLoan\<close> has succeeded (for the loan found
  among the active loans and read as a loan), its result is the result of the call, whatever the unlock of the collateral at the wallet does afterwards:
  when the unlock fails, the failure adds one line to the error log and is not raised.
\<close>

theorem repayLoan_unlock_best_effort:
  assumes t: "fst (today rt s) = Inr today'"
      and q: "queryActiveLoans rt cfg partyId s = (Inr loans, s1)"
      and f: "findLoan loanContractId loans = Some contract"
      and l: "asActiveLoan rt ''lender'' contract = Inr loan"
      and h: "repayLoan_repaymentHoldingCid rt cfg partyId repaymentAmount s1 = (Inr repaymentHoldingCid, s2)"
      and r: "submitCommand rt cfg
                [exerciseCmd (templateId cfg ''ActiveLoanHybrid:ActiveLoanHybrid'') (JStr loanContractId)
                   ''RepayHybrid''
                   (JObj [(''repaymentDate'', JStr today'), (''repaymentHoldingCid'', repaymentHoldingCid)])]
                [partyId, lender (payload loan)] s2 = (Inr repayResult, s3)"
  shows "fst (repayLoan rt cfg partyId loanContractId repaymentAmount userToken s) = Inr repayResult \<and>
         (\<forall>unlockErr.
            ccCollateralReference (payload loan) \<noteq> [] \<and>
            fst (unlockAmulet rt cfg (ccCollateralReference (payload loan)) partyId userToken s3) = Inl unlockErr \<longrightarrow>
            console_error (snd (repayLoan rt cfg partyId loanContractId repaymentAmount userToken s)) =
              console_error (snd (unlockAmulet rt cfg (ccCollateralReference (payload loan)) partyId userToken s3))
              @ [''[Amulet] Failed to unlock CC collateral: '' @ error_toString unlockErr])"
proof -
  note tp = today_pair [OF t]
  have run: "repayLoan rt cfg partyId loanContractId repaymentAmount userToken s =
      andThen (if ccCollateralReference (payload loan) \<noteq> []
               then tryCatch
                      (andThen (unlockAmulet rt cfg (ccCollateralReference (payload loan)) partyId userToken)
                         (\<lambda>_. resolve ()))
                      (\<lambda>unlockErr. consoleError (''[Amulet] Failed to unlock CC collateral: ''
                                                   @ error_toString unlockErr))
               else resolve ()) (\<lambda>_. resolve repayResult) s3"
    using tp q f l h r by (simp add: repayLoan_def andThen_def lift_def Let_def)
  show ?thesis
  proof (intro conjI impI allI)
    from run show "fst (repayLoan rt cfg partyId loanContractId repaymentAmount userToken s) = Inr repayResult"
      by (simp add: bestEffort_fst)
  next
    fix unlockErr
    assume w: "ccCollateralReference (payload loan) \<noteq> [] \<and>
            fst (unlockAmulet rt cfg (ccCollateralReference (payload loan)) partyId userToken s3) = Inl unlockErr"
    from w have w1: "ccCollateralReference (payload loan) \<noteq> []"
      and w2: "fst (andThen (unlockAmulet rt cfg (ccCollateralReference (payload loan)) partyId userToken)
                      (\<lambda>_. resolve ()) s3) = Inl unlockErr"
      by (simp_all add: andThen_rejected)
    from bestEffort_console [where b = "ccCollateralReference (payload loan) \<noteq> []" and s = s3
          and m = "andThen (unlockAmulet rt cfg (ccCollateralReference (payload loan)) partyId userToken)
                      (\<lambda>_. resolve ())"
          and e = unlockErr and r = repayResult
          and f = "\<lambda>unlockErr. ''[Amulet] Failed to unlock CC collateral: '' @ error_toString unlockErr",
          OF w1 w2]
      run
    show "console_error (snd (repayLoan rt cfg partyId loanContractId repaymentAmount userToken s)) =
              console_error (snd (unlockAmulet rt cfg (ccCollateralReference (payload loan)) partyId userToken s3))
              @ [''[Amulet] Failed to unlock CC collateral: '' @ error_toString unlockErr]"
      by simp
  qed
qed

lemma holding_simps [simp]:
  "isUsdcOf ''alice::1220aa'' holding1"
  "isUsdcOf ''alice::1220aa'' holding2"
  "holdingAmount ledgerWorld holding1 = Dec 1000 0"
  "holdingAmount ledgerWorld holding2 = Dec 500 0"
  "contractId holding1 = JStr ''h-1''"
  "contractId holding2 = JStr ''h-2''"
  by (simp_all add: isUsdcOf_def holdingAmount_def holding1_def holding2_def dec_parse_defs)

lemma splitResult_cid [simp]:
  "getExerciseResult ledgerWorld splitResultDoc = Inr (JObj [(''_1'', JStr ''h-3''), (''_2'', JStr ''h-4'')])"
  "splitAmountCidOf ledgerWorld (JObj [(''_1'', JStr ''h-3''), (''_2'', JStr ''h-4'')]) = JStr ''h-3''"
  by (simp_all add: getExerciseResult_def transactionEvents_def splitResultDoc_def json_defs
      splitAmountCidOf_def)

lemma ledgerWorld_repaymentHolding_300:
  "ready s \<Longrightarrow>
   repayLoan_repaymentHoldingCid ledgerWorld testConfig ''alice::1220aa'' (Dec 300 0) s =
     (Inr (JStr ''h-3''),
      afterSubmit [splitCommand ledgerWorld testConfig holding1 (Dec 300 0)] [''alice::1220aa'']
        (afterQuery ''pkg:Holding:AssetHolding'' ''alice::1220aa'' s))"
  by (simp add: repayLoan_repaymentHoldingCid_def andThen_def Let_def lift_def
      ledgerWorld_queryAssetHoldings splitCommand_def ledgerWorld_submit dec_parse_defs)

theorem repayLoan_unlock_best_effort_witness:
  \<open>fst (repayLoan ledgerWorld testConfig ''alice::1220aa'' ''loan-1'' (Dec 300 0) None testState) =
     Inr repayResultDoc \<and>
   console_error (snd (repayLoan ledgerWorld testConfig ''alice::1220aa'' ''loan-1'' (Dec 300 0) None testState)) =
     [''[Amulet] Failed to unlock CC collateral: Error: Wallet API error (404): {"error":"offer not found"}'']\<close>
proof -
  have t: "fst (today ledgerWorld testState) = Inr ''2026-03-01''"
    by (simp add: ledgerWorld_today)
  have q: "queryActiveLoans ledgerWorld testConfig ''alice::1220aa'' testState =
             (Inr [rawLoan1, rawLoan2], afterQuery ''pkg:ActiveLoanHybrid:ActiveLoanHybrid'' ''alice::1220aa'' testState)"
    by (simp add: ledgerWorld_queryActiveLoans)
  have f: "findLoan ''loan-1'' [rawLoan1, rawLoan2] = Some rawLoan1" by simp
  have l: "asActiveLoan ledgerWorld ''lender'' rawLoan1 = Inr loan1" by simp
  have h: "repayLoan_repaymentHoldingCid ledgerWorld testConfig ''alice::1220aa'' (Dec 300 0)
             (afterQuery ''pkg:ActiveLoanHybrid:ActiveLoanHybrid'' ''alice::1220aa'' testState) =
           (Inr (JStr ''h-3''),
            afterSubmit [splitCommand ledgerWorld testConfig holding1 (Dec 300 0)] [''alice::1220aa'']
              (afterQuery ''pkg:Holding:AssetHolding'' ''alice::1220aa''
                 (afterQuery ''pkg:ActiveLoanHybrid:ActiveLoanHybrid'' ''alice::1220aa'' testState)))"
    by (simp add: ledgerWorld_repaymentHolding_300)
  have r: "submitCommand ledgerWorld testConfig
             [exerciseCmd (templateId testConfig ''ActiveLoanHybrid:ActiveLoanHybrid'') (JStr ''loan-1'')
                ''RepayHybrid''
                (JObj [(''repaymentDate'', JStr ''2026-03-01''), (''repaymentHoldingCid'', JStr ''h-3'')])]
             [''alice::1220aa'', lender (payload loan1)]
             (afterSubmit [splitCommand ledgerWorld testConfig holding1 (Dec 300 0)] [''alice::1220aa'']
              (afterQuery ''pkg:Holding:AssetHolding'' ''alice::1220aa''
                 (afterQuery ''pkg:ActiveLoanHybrid:ActiveLoanHybrid'' ''alice::1220aa'' testState))) =
           (Inr repayResultDoc,
            afterSubmit [exerciseCmd (templateId testConfig ''ActiveLoanHybrid:ActiveLoanHybrid'') (JStr ''loan-1'')
                ''RepayHybrid''
                (JObj [(''repaymentDate'', JStr ''2026-03-01''), (''repaymentHoldingCid'', JStr ''h-3'')])]
             [''alice::1220aa'', lender (payload loan1)]
             (afterSubmit [splitCommand ledgerWorld testConfig holding1 (Dec 300 0)] [''alice::1220aa'']
              (afterQuery ''pkg:Holding:AssetHolding'' ''alice::1220aa''
                 (afterQuery ''pkg:ActiveLoanHybrid:ActiveLoanHybrid'' ''alice::1220aa'' testState))))"
    by (simp add: ledgerWorld_submit)
  from repayLoan_unlock_best_effort [OF t q f l h r, of None]
  show ?thesis
    by (simp add: unlockAmulet_def andThen_def ledgerWorld_wallet)
qed

section \<open>Finding or splitting a holding\<close>

text \<open>
  What \<^verbatim>\<open>lockUSDC\<close> and \<^verbatim>\<open>transferUSDC\<close> (whose code is a copy) do once the holdings are
  known, case by case. The last step of \<^verbatim>\<open>lockUSDC\<close> alone writes a line to the error log
  before it fails.
\<close>

text \<open>A successful submission has sent its commands.\<close>

lemma submitCommand_sent:
  assumes "submitCommand rt cfg commands actAs s = (Inr result, s')"
  shows "submitted cfg s' = submitted cfg s @ [JArr commands]"
proof -
  have "\<exists>token. fst (getLedgerApiToken rt cfg (s\<lparr>draws := Suc (draws s)\<rparr>)) = Inr token"
    using assms
    by (cases "getLedgerApiToken rt cfg (s\<lparr>draws := Suc (draws s)\<rparr>)")
       (auto simp add: submitCommand_def Math_random36_def Date_now_def andThen_def Let_def
          split: sum.splits)
  with submitCommand_submitted [of cfg rt commands actAs s] assms show ?thesis by auto
qed

lemma query_submitted:
  "queryAssetHoldings rt cfg partyId s = (r, s1) \<Longrightarrow> submitted cfg s1 = submitted cfg s"
  using quietD [OF quiet_queries(1), of cfg rt cfg partyId s] by simp

lemma holdingToLock_unread:
  assumes "queryAssetHoldings rt cfg partyId s = (Inr contracts, s1)"
      and "mapE (asAssetHolding rt) contracts = Inl e"
  shows "lockUSDC_holdingToLock rt cfg partyId amt s = (Inl e, s1)"
  using assms by (simp add: lockUSDC_holdingToLock_def andThen_def lift_def Let_def)

lemma holdingToLock_none:
  assumes "queryAssetHoldings rt cfg partyId s = (Inr contracts, s1)"
      and "mapE (asAssetHolding rt) contracts = Inr holdings"
      and "filter (isUsdcOf partyId) holdings = []"
  shows "lockUSDC_holdingToLock rt cfg partyId amt s =
           (Inl (Error (''No USDC holdings found for party '' @ partyId)), s1)"
  using assms by (simp add: lockUSDC_holdingToLock_def andThen_def lift_def Let_def)

lemma holdingToLock_exact:
  assumes "queryAssetHoldings rt cfg partyId s = (Inr contracts, s1)"
      and "mapE (asAssetHolding rt) contracts = Inr holdings"
      and "find (\<lambda>h. strict_eq_n rt (holdingAmount rt h) amt) (filter (isUsdcOf partyId) holdings) = Some h"
  shows "lockUSDC_holdingToLock rt cfg partyId amt s = (Inr h, s1)"
proof -
  from assms(3) have "filter (isUsdcOf partyId) holdings \<noteq> []" by auto
  with assms show ?thesis by (simp add: lockUSDC_holdingToLock_def andThen_def lift_def Let_def)
qed

lemma holdingToLock_insufficient:
  assumes "queryAssetHoldings rt cfg partyId s = (Inr contracts, s1)"
      and "mapE (asAssetHolding rt) contracts = Inr holdings"
      and "filter (isUsdcOf partyId) holdings \<noteq> []"
      and "find (\<lambda>h. strict_eq_n rt (holdingAmount rt h) amt) (filter (isUsdcOf partyId) holdings) = None"
      and "find (\<lambda>h. less_eq_n rt amt (holdingAmount rt h)) (filter (isUsdcOf partyId) holdings) = None"
  shows "lockUSDC_holdingToLock rt cfg partyId amt s =
           (Inl (Error (''Insufficient USDC balance. Need '' @ toString_n rt amt @ '', have ''
                        @ toString_n rt (sumOf rt (holdingAmount rt) (filter (isUsdcOf partyId) holdings)))), s1)"
  using assms by (simp add: lockUSDC_holdingToLock_def andThen_def lift_def Let_def)

text \<open>The three ways in which a split ends.\<close>

lemma holdingToLock_splitting:
  assumes "queryAssetHoldings rt cfg partyId s = (Inr contracts, s1)"
      and "mapE (asAssetHolding rt) contracts = Inr holdings"
      and "find (\<lambda>h. strict_eq_n rt (holdingAmount rt h) amt) (filter (isUsdcOf partyId) holdings) = None"
      and "find (\<lambda>h. less_eq_n rt amt (holdingAmount rt h)) (filter (isUsdcOf partyId) holdings) = Some largeEnough"
  shows "lockUSDC_holdingToLock rt cfg partyId amt s =
           andThen (submitCommand rt cfg [splitCommand rt cfg largeEnough amt] [partyId]) (\<lambda>splitResult.
           andThen (lift (getExerciseResult rt splitResult)) (\<lambda>exerciseResult.
           if truthy rt (splitAmountCidOf rt exerciseResult)
           then resolve (successor rt (splitAmountCidOf rt exerciseResult) largeEnough amt)
           else
             andThen (lift (createdEventsOf rt splitResult)) (\<lambda>createdEvents.
             if createdEvents \<noteq> []
             then resolve (successor rt (member (hd createdEvents) ''contractId'') largeEnough amt)
             else andThen (consoleError ''Split result structure:'') (\<lambda>_.
                  reject (Error ''Split did not return expected contract IDs''))))) s1"
proof -
  from assms(4) have "filter (isUsdcOf partyId) holdings \<noteq> []" by auto
  with assms show ?thesis by (simp add: lockUSDC_holdingToLock_def andThen_def lift_def Let_def)
qed

lemma holdingToLock_split:
  assumes "queryAssetHoldings rt cfg partyId s = (Inr contracts, s1)"
      and "mapE (asAssetHolding rt) contracts = Inr holdings"
      and "find (\<lambda>h. strict_eq_n rt (holdingAmount rt h) amt) (filter (isUsdcOf partyId) holdings) = None"
      and "find (\<lambda>h. less_eq_n rt amt (holdingAmount rt h)) (filter (isUsdcOf partyId) holdings) = Some largeEnough"
      and "submitCommand rt cfg [splitCommand rt cfg largeEnough amt] [partyId] s1 = (Inr splitResult, s2)"
      and "getExerciseResult rt splitResult = Inr exerciseResult"
      and "truthy rt (splitAmountCidOf rt exerciseResult)"
  shows "lockUSDC_holdingToLock rt cfg partyId amt s =
           (Inr (successor rt (splitAmountCidOf rt exerciseResult) largeEnough amt), s2)"
  using assms(5-7) by (simp add: holdingToLock_splitting [OF assms(1-4)] andThen_def lift_def)

lemma holdingToLock_fallback:
  assumes "queryAssetHoldings rt cfg partyId s = (Inr contracts, s1)"
      and "mapE (asAssetHolding rt) contracts = Inr holdings"
      and "find (\<lambda>h. strict_eq_n rt (holdingAmount rt h) amt) (filter (isUsdcOf partyId) holdings) = None"
      and "find (\<lambda>h. less_eq_n rt amt (holdingAmount rt h)) (filter (isUsdcOf partyId) holdings) = Some largeEnough"
      and "submitCommand rt cfg [splitCommand rt cfg largeEnough amt] [partyId] s1 = (Inr splitResult, s2)"
      and "getExerciseResult rt splitResult = Inr exerciseResult"
      and "\<not> truthy rt (splitAmountCidOf rt exerciseResult)"
      and "createdEventsOf rt splitResult = Inr createdEvents"
      and "createdEvents \<noteq> []"
  shows "lockUSDC_holdingToLock rt cfg partyId amt s =
           (Inr (successor rt (member (hd createdEvents) ''contractId'') largeEnough amt), s2)"
  using assms(5-9) by (simp add: holdingToLock_splitting [OF assms(1-4)] andThen_def lift_def)

lemma holdingToLock_no_ids:
  assumes "queryAssetHoldings rt cfg partyId s = (Inr contracts, s1)"
      and "mapE (asAssetHolding rt) contracts = Inr holdings"
      and "find (\<lambda>h. strict_eq_n rt (holdingAmount rt h) amt) (filter (isUsdcOf partyId) holdings) = None"
      and "find (\<lambda>h. less_eq_n rt amt (holdingAmount rt h)) (filter (isUsdcOf partyId) holdings) = Some largeEnough"
      and "submitCommand rt cfg [splitCommand rt cfg largeEnough amt] [partyId] s1 = (Inr splitResult, s2)"
      and "getExerciseResult rt splitResult = Inr exerciseResult"
      and "\<not> truthy rt (splitAmountCidOf rt exerciseResult)"
      and "createdEventsOf rt splitResult = Inr []"
  shows "fst (lockUSDC_holdingToLock rt cfg partyId amt s) = Inl (Error ''Split did not return expected contract IDs'')"
  using assms(5-8) by (simp add: holdingToLock_splitting [OF assms(1-4)] andThen_def lift_def consoleError_def)

text \<open>Without a holding of exactly the target amount, a holding is returned only after a split.\<close>

lemma holdingToLock_after_split:
  assumes q: "queryAssetHoldings rt cfg partyId s = (Inr contracts, s1)"
      and m: "mapE (asAssetHolding rt) contracts = Inr holdings"
      and n: "find (\<lambda>h. strict_eq_n rt (holdingAmount rt h) amt) (filter (isUsdcOf partyId) holdings) = None"
      and r: "lockUSDC_holdingToLock rt cfg partyId amt s = (Inr h', s')"
  shows "\<exists>largeEnough. find (\<lambda>h. less_eq_n rt amt (holdingAmount rt h)) (filter (isUsdcOf partyId) holdings)
             = Some largeEnough \<and>
           submitted cfg s' = submitted cfg s @ [JArr [splitCommand rt cfg largeEnough amt]]"
proof (cases "find (\<lambda>h. less_eq_n rt amt (holdingAmount rt h)) (filter (isUsdcOf partyId) holdings)")
  case None
  with q m n r show ?thesis
    by (auto simp add: lockUSDC_holdingToLock_def andThen_def lift_def Let_def split: if_splits)
next
  case (Some largeEnough)
  obtain res s2 where sc: "submitCommand rt cfg [splitCommand rt cfg largeEnough amt] [partyId] s1 = (res, s2)"
    by (cases "submitCommand rt cfg [splitCommand rt cfg largeEnough amt] [partyId] s1")
  from r sc obtain splitResult where ok: "res = Inr splitResult" and same: "submitted cfg s' = submitted cfg s2"
    unfolding holdingToLock_splitting [OF q m n Some]
    by (cases res)
       (auto simp add: andThen_def lift_def consoleError_def split: if_splits sum.splits)
  from submitCommand_sent [OF sc [unfolded ok]] query_submitted [OF q] same Some
  show ?thesis by simp
qed

text \<open>The same for \<^verbatim>\<open>transferUSDC\<close>.\<close>

lemma holdingToTransfer_unread:
  assumes "queryAssetHoldings rt cfg partyId s = (Inr contracts, s1)"
      and "mapE (asAssetHolding rt) contracts = Inl e"
  shows "transferUSDC_holdingToTransfer rt cfg partyId amt s = (Inl e, s1)"
  using assms by (simp add: transferUSDC_holdingToTransfer_def andThen_def lift_def Let_def)

lemma holdingToTransfer_none:
  assumes "queryAssetHoldings rt cfg partyId s = (Inr contracts, s1)"
      and "mapE (asAssetHolding rt) contracts = Inr holdings"
      and "filter (isUsdcOf partyId) holdings = []"
  shows "transferUSDC_holdingToTransfer rt cfg partyId amt s =
           (Inl (Error (''No USDC holdings found for party '' @ partyId)), s1)"
  using assms by (simp add: transferUSDC_holdingToTransfer_def andThen_def lift_def Let_def)

lemma holdingToTransfer_exact:
  assumes "queryAssetHoldings rt cfg partyId s = (Inr contracts, s1)"
      and "mapE (asAssetHolding rt) contracts = Inr holdings"
      and "find (\<lambda>h. strict_eq_n rt (holdingAmount rt h) amt) (filter (isUsdcOf partyId) holdings) = Some h"
  shows "transferUSDC_holdingToTransfer rt cfg partyId amt s = (Inr h, s1)"
proof -
  from assms(3) have "filter (isUsdcOf partyId) holdings \<noteq> []" by auto
  with assms show ?thesis by (simp add: transferUSDC_holdingToTransfer_def andThen_def lift_def Let_def)
qed

lemma holdingToTransfer_insufficient:
  assumes "queryAssetHoldings rt cfg partyId s = (Inr contracts, s1)"
      and "mapE (asAssetHolding rt) contracts = Inr holdings"
      and "filter (isUsdcOf partyId) holdings \<noteq> []"
      and "find (\<lambda>h. strict_eq_n rt (holdingAmount rt h) amt) (filter (isUsdcOf partyId) holdings) = None"
      and "find (\<lambda>h. less_eq_n rt amt (holdingAmount rt h)) (filter (isUsdcOf partyId) holdings) = None"
  shows "transferUSDC_holdingToTransfer rt cfg partyId amt s =
           (Inl (Error (''Insufficient USDC balance. Need '' @ toString_n rt amt @ '', have ''
                        @ toString_n rt (sumOf rt (holdingAmount rt) (filter (isUsdcOf partyId) holdings)))), s1)"
  using assms by (simp add: transferUSDC_holdingToTransfer_def andThen_def lift_def Let_def)

lemma holdingToTransfer_splitting:
  assumes "queryAssetHoldings rt cfg partyId s = (Inr contracts, s1)"
      and "mapE (asAssetHolding rt) contracts = Inr holdings"
      and "find (\<lambda>h. strict_eq_n rt (holdingAmount rt h) amt) (filter (isUsdcOf partyId) holdings) = None"
      and "find (\<lambda>h. less_eq_n rt amt (holdingAmount rt h)) (filter (isUsdcOf partyId) holdings) = Some largeEnough"
  shows "transferUSDC_holdingToTransfer rt cfg partyId amt s =
           andThen (submitCommand rt cfg [splitCommand rt cfg largeEnough amt] [partyId]) (\<lambda>splitResult.
           andThen (lift (getExerciseResult rt splitResult)) (\<lambda>exerciseResult.
           if truthy rt (splitAmountCidOf rt exerciseResult)
           then resolve (successor rt (splitAmountCidOf rt exerciseResult) largeEnough amt)
           else
             andThen (lift (createdEventsOf rt splitResult)) (\<lambda>createdEvents.
             if createdEvents \<noteq> []
             then resolve (successor rt (member (hd createdEvents) ''contractId'') largeEnough amt)
             else reject (Error ''Split did not return expected contract IDs'')))) s1"
proof -
  from assms(4) have "filter (isUsdcOf partyId) holdings \<noteq> []" by auto
  with assms show ?thesis by (simp add: transferUSDC_holdingToTransfer_def andThen_def lift_def Let_def)
qed

lemma holdingToTransfer_split:
  assumes "queryAssetHoldings rt cfg partyId s = (Inr contracts, s1)"
      and "mapE (asAssetHolding rt) contracts = Inr holdings"
      and "find (\<lambda>h. strict_eq_n rt (holdingAmount rt h) amt) (filter (isUsdcOf partyId) holdings) = None"
      and "find (\<lambda>h. less_eq_n rt amt (holdingAmount rt h)) (filter (isUsdcOf partyId) holdings) = Some largeEnough"
      and "submitCommand rt cfg [splitCommand rt cfg largeEnough amt] [partyId] s1 = (Inr splitResult, s2)"
      and "getExerciseResult rt splitResult = Inr exerciseResult"
      and "truthy rt (splitAmountCidOf rt exerciseResult)"
  shows "transferUSDC_holdingToTransfer rt cfg partyId amt s =
           (Inr (successor rt (splitAmountCidOf rt exerciseResult) largeEnough amt), s2)"
  using assms(5-7) by (simp add: holdingToTransfer_splitting [OF assms(1-4)] andThen_def lift_def)

lemma holdingToTransfer_fallback:
  assumes "queryAssetHoldings rt cfg partyId s = (Inr contracts, s1)"
      and "mapE (asAssetHolding rt) contracts = Inr holdings"
      and "find (\<lambda>h. strict_eq_n rt (holdingAmount rt h) amt) (filter (isUsdcOf partyId) holdings) = None"
      and "find (\<lambda>h. less_eq_n rt amt (holdingAmount rt h)) (filter (isUsdcOf partyId) holdings) = Some largeEnough"
      and "submitCommand rt cfg [splitCommand rt cfg largeEnough amt] [partyId] s1 = (Inr splitResult, s2)"
      and "getExerciseResult rt splitResult = Inr exerciseResult"
      and "\<not> truthy rt (splitAmountCidOf rt exerciseResult)"
      and "createdEventsOf rt splitResult = Inr createdEvents"
      and "createdEvents \<noteq> []"
  shows "transferUSDC_holdingToTransfer rt cfg partyId amt s =
           (Inr (successor rt (member (hd createdEvents) ''contractId'') largeEnough amt), s2)"
  using assms(5-9) by (simp add: holdingToTransfer_splitting [OF assms(1-4)] andThen_def lift_def)

lemma holdingToTransfer_no_ids:
  assumes "queryAssetHoldings rt cfg partyId s = (Inr contracts, s1)"
      and "mapE (asAssetHolding rt) contracts = Inr holdings"
      and "find (\<lambda>h. strict_eq_n rt (holdingAmount rt h) amt) (filter (isUsdcOf partyId) holdings) = None"
      and "find (\<lambda>h. less_eq_n rt amt (holdingAmount rt h)) (filter (isUsdcOf partyId) holdings) = Some largeEnough"
      and "submitCommand rt cfg [splitCommand rt cfg largeEnough amt] [partyId] s1 = (Inr splitResult, s2)"
      and "getExerciseResult rt splitResult = Inr exerciseResult"
      and "\<not> truthy rt (splitAmountCidOf rt exerciseResult)"
      and "createdEventsOf rt splitResult = Inr []"
  shows "fst (transferUSDC_holdingToTransfer rt cfg partyId amt s) = Inl (Error ''Split did not return expected contract IDs'')"
  using assms(5-8) by (simp add: holdingToTransfer_splitting [OF assms(1-4)] andThen_def lift_def consoleError_def)

lemma holdingToTransfer_after_split:
  assumes q: "queryAssetHoldings rt cfg partyId s = (Inr contracts, s1)"
      and m: "mapE (asAssetHolding rt) contracts = Inr holdings"
      and n: "find (\<lambda>h. strict_eq_n rt (holdingAmount rt h) amt) (filter (isUsdcOf partyId) holdings) = None"
      and r: "transferUSDC_holdingToTransfer rt cfg partyId amt s = (Inr h', s')"
  shows "\<exists>largeEnough. find (\<lambda>h. less_eq_n rt amt (holdingAmount rt h)) (filter (isUsdcOf partyId) holdings)
             = Some largeEnough \<and>
           submitted cfg s' = submitted cfg s @ [JArr [splitCommand rt cfg largeEnough amt]]"
proof (cases "find (\<lambda>h. less_eq_n rt amt (holdingAmount rt h)) (filter (isUsdcOf partyId) holdings)")
  case None
  with q m n r show ?thesis
    by (auto simp add: transferUSDC_holdingToTransfer_def andThen_def lift_def Let_def split: if_splits)
next
  case (Some largeEnough)
  obtain res s2 where sc: "submitCommand rt cfg [splitCommand rt cfg largeEnough amt] [partyId] s1 = (res, s2)"
    by (cases "submitCommand rt cfg [splitCommand rt cfg largeEnough amt] [partyId] s1")
  from r sc obtain splitResult where ok: "res = Inr splitResult" and same: "submitted cfg s' = submitted cfg s2"
    unfolding holdingToTransfer_splitting [OF q m n Some]
    by (cases res)
       (auto simp add: andThen_def lift_def consoleError_def split: if_splits sum.splits)
  from submitCommand_sent [OF sc [unfolded ok]] query_submitted [OF q] same Some
  show ?thesis by simp
qed

text \<open>\<open>find\<close> returns the first element, in the order of the list, that satisfies the test.\<close>

lemma find_first:
  "find P xs = Some x \<Longrightarrow> \<exists>i < length xs. xs ! i = x \<and> P x \<and> (\<forall>j < i. \<not> P (xs ! j))"
  by (auto simp add: find_Some_iff)

text \<open>
  C1 (as amended). Let \<open>usdcHoldings\<close> be the party's USDC holdings in the order in which the
  query returns them. \<^verbatim>\<open>lockUSDC\<close> and \<^verbatim>\<open>transferUSDC\<close> take the first holding whose amount
  equals the target, when there is one, and submit nothing. Otherwise they take the first
  holding, in that order, whose amount is at least the target (not the smallest one) and
  submit a \<^verbatim>\<open>Split\<close> of that holding for the target amount; of the accepted split they return
  the successor recorded with the target amount, under the contract id that the exercise
  result names first or else, when the result names none, under the id of the first created
  contract of the transaction; when the transaction has no created contract either they fail
  with "Split did not return expected contract IDs". With holdings of which none reaches the
  target they fail with "Insufficient USDC balance", naming the target and the sum of the
  holdings; with no USDC holding at all they fail with "No USDC holdings found"; and when a
  holding of the answer came without a payload they fail with the TypeError of its read.
\<close>

theorem holdingToLock_first_fit:
  assumes q: "queryAssetHoldings rt cfg partyId s = (Inr contracts, s1)"
  shows "(\<forall>e. mapE (asAssetHolding rt) contracts = Inl e \<longrightarrow>
            lockUSDC_holdingToLock rt cfg partyId amt s = (Inl e, s1) \<and> transferUSDC_holdingToTransfer rt cfg partyId amt s = (Inl e, s1)) \<and>
         (\<forall>holdings usdcHoldings. mapE (asAssetHolding rt) contracts = Inr holdings \<and> usdcHoldings = filter (isUsdcOf partyId) holdings \<longrightarrow>
         (\<forall>h. find (\<lambda>h. strict_eq_n rt (holdingAmount rt h) amt) usdcHoldings = Some h \<longrightarrow>
            lockUSDC_holdingToLock rt cfg partyId amt s = (Inr h, s1) \<and>
            transferUSDC_holdingToTransfer rt cfg partyId amt s = (Inr h, s1) \<and>
            submitted cfg s1 = submitted cfg s) \<and>
         (find (\<lambda>h. strict_eq_n rt (holdingAmount rt h) amt) usdcHoldings = None \<longrightarrow>
            (\<forall>largeEnough.
               find (\<lambda>h. less_eq_n rt amt (holdingAmount rt h)) usdcHoldings = Some largeEnough \<longrightarrow>
               (\<exists>i < length usdcHoldings.
                  usdcHoldings ! i = largeEnough \<and> less_eq_n rt amt (holdingAmount rt largeEnough) \<and>
                  (\<forall>j < i. \<not> less_eq_n rt amt (holdingAmount rt (usdcHoldings ! j)))) \<and>
               (\<forall>splitResult s2 exerciseResult.
                  submitCommand rt cfg [splitCommand rt cfg largeEnough amt] [partyId] s1 = (Inr splitResult, s2) \<and>
                  getExerciseResult rt splitResult = Inr exerciseResult \<longrightarrow>
                  submitted cfg s2 = submitted cfg s @ [JArr [splitCommand rt cfg largeEnough amt]] \<and>
                  (truthy rt (splitAmountCidOf rt exerciseResult) \<longrightarrow>
                     lockUSDC_holdingToLock rt cfg partyId amt s =
                       (Inr (successor rt (splitAmountCidOf rt exerciseResult) largeEnough amt), s2) \<and>
                     transferUSDC_holdingToTransfer rt cfg partyId amt s =
                       (Inr (successor rt (splitAmountCidOf rt exerciseResult) largeEnough amt), s2)) \<and>
                  (\<not> truthy rt (splitAmountCidOf rt exerciseResult) \<longrightarrow>
                     (\<forall>createdEvents.
                        createdEventsOf rt splitResult = Inr createdEvents \<and> createdEvents \<noteq> [] \<longrightarrow>
                        lockUSDC_holdingToLock rt cfg partyId amt s =
                          (Inr (successor rt (member (hd createdEvents) ''contractId'') largeEnough amt), s2) \<and>
                        transferUSDC_holdingToTransfer rt cfg partyId amt s =
                          (Inr (successor rt (member (hd createdEvents) ''contractId'') largeEnough amt), s2)) \<and>
                     (createdEventsOf rt splitResult = Inr [] \<longrightarrow>
                        fst (lockUSDC_holdingToLock rt cfg partyId amt s) =
                          Inl (Error ''Split did not return expected contract IDs'') \<and>
                        fst (transferUSDC_holdingToTransfer rt cfg partyId amt s) =
                          Inl (Error ''Split did not return expected contract IDs''))))) \<and>
            (usdcHoldings \<noteq> [] \<and>
             find (\<lambda>h. less_eq_n rt amt (holdingAmount rt h)) usdcHoldings = None \<longrightarrow>
               fst (lockUSDC_holdingToLock rt cfg partyId amt s) =
                 Inl (Error (''Insufficient USDC balance. Need '' @ toString_n rt amt @ '', have ''
                             @ toString_n rt (sumOf rt (holdingAmount rt) usdcHoldings))) \<and>
               fst (transferUSDC_holdingToTransfer rt cfg partyId amt s) =
                 Inl (Error (''Insufficient USDC balance. Need '' @ toString_n rt amt @ '', have ''
                             @ toString_n rt (sumOf rt (holdingAmount rt) usdcHoldings)))) \<and>
            (usdcHoldings = [] \<longrightarrow>
               fst (lockUSDC_holdingToLock rt cfg partyId amt s) =
                 Inl (Error (''No USDC holdings found for party '' @ partyId)) \<and>
               fst (transferUSDC_holdingToTransfer rt cfg partyId amt s) =
                 Inl (Error (''No USDC holdings found for party '' @ partyId)))))"
proof (intro conjI impI allI)
  fix e
  assume r: "mapE (asAssetHolding rt) contracts = Inl e"
  from holdingToLock_unread [OF q r] show "lockUSDC_holdingToLock rt cfg partyId amt s = (Inl e, s1)" .
  from holdingToTransfer_unread [OF q r] show "transferUSDC_holdingToTransfer rt cfg partyId amt s = (Inl e, s1)" .
next
  fix holdings usdcHoldings h
  assume a: "mapE (asAssetHolding rt) contracts = Inr holdings \<and> usdcHoldings = filter (isUsdcOf partyId) holdings"
     and e: "find (\<lambda>h. strict_eq_n rt (holdingAmount rt h) amt) usdcHoldings = Some h"
  from a have r: "mapE (asAssetHolding rt) contracts = Inr holdings" and u: "usdcHoldings = filter (isUsdcOf partyId) holdings"
    by simp_all
  from holdingToLock_exact [OF q r e [unfolded u]]
  show "lockUSDC_holdingToLock rt cfg partyId amt s = (Inr h, s1)" .
  from holdingToTransfer_exact [OF q r e [unfolded u]]
  show "transferUSDC_holdingToTransfer rt cfg partyId amt s = (Inr h, s1)" .
  from query_submitted [OF q] show "submitted cfg s1 = submitted cfg s" .
next
  fix usdcHoldings :: "'a AssetHolding list" and largeEnough
  assume l: "find (\<lambda>h. less_eq_n rt amt (holdingAmount rt h)) usdcHoldings = Some largeEnough"
  from find_first [OF l]
  show "\<exists>i < length usdcHoldings.
          usdcHoldings ! i = largeEnough \<and> less_eq_n rt amt (holdingAmount rt largeEnough) \<and>
          (\<forall>j < i. \<not> less_eq_n rt amt (holdingAmount rt (usdcHoldings ! j)))" .
next
  fix holdings usdcHoldings largeEnough splitResult s2 exerciseResult
  assume a: "mapE (asAssetHolding rt) contracts = Inr holdings \<and> usdcHoldings = filter (isUsdcOf partyId) holdings"
     and n: "find (\<lambda>h. strict_eq_n rt (holdingAmount rt h) amt) usdcHoldings = None"
     and l: "find (\<lambda>h. less_eq_n rt amt (holdingAmount rt h)) usdcHoldings = Some largeEnough"
     and c: "submitCommand rt cfg [splitCommand rt cfg largeEnough amt] [partyId] s1 = (Inr splitResult, s2) \<and>
             getExerciseResult rt splitResult = Inr exerciseResult"
  from a have r: "mapE (asAssetHolding rt) contracts = Inr holdings" and u: "usdcHoldings = filter (isUsdcOf partyId) holdings"
    by simp_all
  from c have c1: "submitCommand rt cfg [splitCommand rt cfg largeEnough amt] [partyId] s1 = (Inr splitResult, s2)"
    and c2: "getExerciseResult rt splitResult = Inr exerciseResult" by simp_all
  from submitCommand_sent [OF c1] query_submitted [OF q]
  show "submitted cfg s2 = submitted cfg s @ [JArr [splitCommand rt cfg largeEnough amt]]" by simp
  {
    assume t: "truthy rt (splitAmountCidOf rt exerciseResult)"
    from holdingToLock_split [OF q r n [unfolded u] l [unfolded u] c1 c2 t]
    show "lockUSDC_holdingToLock rt cfg partyId amt s =
            (Inr (successor rt (splitAmountCidOf rt exerciseResult) largeEnough amt), s2)" .
    from holdingToTransfer_split [OF q r n [unfolded u] l [unfolded u] c1 c2 t]
    show "transferUSDC_holdingToTransfer rt cfg partyId amt s =
            (Inr (successor rt (splitAmountCidOf rt exerciseResult) largeEnough amt), s2)" .
  }
  {
    fix createdEvents
    assume t: "\<not> truthy rt (splitAmountCidOf rt exerciseResult)"
       and d: "createdEventsOf rt splitResult = Inr createdEvents \<and> createdEvents \<noteq> []"
    from d have d1: "createdEventsOf rt splitResult = Inr createdEvents" and d2: "createdEvents \<noteq> []"
      by simp_all
    from holdingToLock_fallback [OF q r n [unfolded u] l [unfolded u] c1 c2 t d1 d2]
    show "lockUSDC_holdingToLock rt cfg partyId amt s =
            (Inr (successor rt (member (hd createdEvents) ''contractId'') largeEnough amt), s2)" .
    from holdingToTransfer_fallback [OF q r n [unfolded u] l [unfolded u] c1 c2 t d1 d2]
    show "transferUSDC_holdingToTransfer rt cfg partyId amt s =
            (Inr (successor rt (member (hd createdEvents) ''contractId'') largeEnough amt), s2)" .
  }
  {
    assume t: "\<not> truthy rt (splitAmountCidOf rt exerciseResult)"
       and d: "createdEventsOf rt splitResult = Inr []"
    from holdingToLock_no_ids [OF q r n [unfolded u] l [unfolded u] c1 c2 t d]
    show "fst (lockUSDC_holdingToLock rt cfg partyId amt s) = Inl (Error ''Split did not return expected contract IDs'')" .
    from holdingToTransfer_no_ids [OF q r n [unfolded u] l [unfolded u] c1 c2 t d]
    show "fst (transferUSDC_holdingToTransfer rt cfg partyId amt s) = Inl (Error ''Split did not return expected contract IDs'')" .
  }
next
  fix holdings usdcHoldings
  assume a: "mapE (asAssetHolding rt) contracts = Inr holdings \<and> usdcHoldings = filter (isUsdcOf partyId) holdings"
     and n: "find (\<lambda>h. strict_eq_n rt (holdingAmount rt h) amt) usdcHoldings = None"
     and i: "usdcHoldings \<noteq> [] \<and> find (\<lambda>h. less_eq_n rt amt (holdingAmount rt h)) usdcHoldings = None"
  from a have r: "mapE (asAssetHolding rt) contracts = Inr holdings" and u: "usdcHoldings = filter (isUsdcOf partyId) holdings"
    by simp_all
  from i have i1: "filter (isUsdcOf partyId) holdings \<noteq> []"
    and i2: "find (\<lambda>h. less_eq_n rt amt (holdingAmount rt h)) (filter (isUsdcOf partyId) holdings) = None"
    by (simp_all add: u)
  from holdingToLock_insufficient [OF q r i1 n [unfolded u] i2]
  show "fst (lockUSDC_holdingToLock rt cfg partyId amt s) =
          Inl (Error (''Insufficient USDC balance. Need '' @ toString_n rt amt @ '', have ''
                             @ toString_n rt (sumOf rt (holdingAmount rt) usdcHoldings)))"
    by (simp add: u)
  from holdingToTransfer_insufficient [OF q r i1 n [unfolded u] i2]
  show "fst (transferUSDC_holdingToTransfer rt cfg partyId amt s) =
          Inl (Error (''Insufficient USDC balance. Need '' @ toString_n rt amt @ '', have ''
                             @ toString_n rt (sumOf rt (holdingAmount rt) usdcHoldings)))"
    by (simp add: u)
next
  fix holdings usdcHoldings
  assume a: "mapE (asAssetHolding rt) contracts = Inr holdings \<and> usdcHoldings = filter (isUsdcOf partyId) holdings"
     and e: "usdcHoldings = []"
  from a have r: "mapE (asAssetHolding rt) contracts = Inr holdings" and u: "usdcHoldings = filter (isUsdcOf partyId) holdings"
    by simp_all
  from holdingToLock_none [OF q r e [unfolded u]]
  show "fst (lockUSDC_holdingToLock rt cfg partyId amt s) =
          Inl (Error (''No USDC holdings found for party '' @ partyId))" by simp
  from holdingToTransfer_none [OF q r e [unfolded u]]
  show "fst (transferUSDC_holdingToTransfer rt cfg partyId amt s) =
          Inl (Error (''No USDC holdings found for party '' @ partyId))" by simp
qed

text \<open>
  The example: Alice holds 1000 USDC (\<open>h-1\<close>) and 500 USDC (\<open>h-2\<close>), returned in this
  order. For a target of 200 the smallest holding that covers it is \<open>h-2\<close>; the service
  splits \<open>h-1\<close>.
\<close>

lemma ledgerWorld_holdingToLock_200:
  "lockUSDC_holdingToLock ledgerWorld testConfig ''alice::1220aa'' (Dec 200 0) testState =
     (Inr (successor ledgerWorld (JStr ''h-3'') holding1 (Dec 200 0)),
      afterSubmit [splitCommand ledgerWorld testConfig holding1 (Dec 200 0)] [''alice::1220aa'']
        (afterQuery ''pkg:Holding:AssetHolding'' ''alice::1220aa'' testState))"
  by (simp add: lockUSDC_holdingToLock_def andThen_def Let_def lift_def
      ledgerWorld_queryAssetHoldings splitCommand_def ledgerWorld_submit)

theorem holdingToLock_smallest_counterexample:
  "lockUSDC_holdingToLock ledgerWorld testConfig ''alice::1220aa'' (Dec 200 0) testState =
     (Inr (successor ledgerWorld (JStr ''h-3'') holding1 (Dec 200 0)),
      afterSubmit [splitCommand ledgerWorld testConfig holding1 (Dec 200 0)] [''alice::1220aa'']
        (afterQuery ''pkg:Holding:AssetHolding'' ''alice::1220aa'' testState)) \<and>
   submitted testConfig (snd (lockUSDC_holdingToLock ledgerWorld testConfig ''alice::1220aa'' (Dec 200 0) testState)) =
     [JArr [splitCommand ledgerWorld testConfig holding1 (Dec 200 0)]] \<and>
   fst (queryAssetHoldings ledgerWorld testConfig ''alice::1220aa'' testState) = Inr [rawHolding1, rawHolding2] \<and>
   mapE (asAssetHolding ledgerWorld) [rawHolding1, rawHolding2] = Inr [holding1, holding2] \<and>
   less_eq_n ledgerWorld (Dec 200 0) (holdingAmount ledgerWorld holding2) \<and>
   less_n ledgerWorld (holdingAmount ledgerWorld holding2) (holdingAmount ledgerWorld holding1)"
  by (simp add: ledgerWorld_holdingToLock_200 ledgerWorld_queryAssetHoldings)

lemma holding_not_carol [simp]:
  "\<not> isUsdcOf ''carol::1220dd'' holding1" "\<not> isUsdcOf ''carol::1220dd'' holding2"
  by (simp_all add: isUsdcOf_def holding1_def holding2_def)

text \<open>
  The examples: an exact holding, a split whose result names the successor, a split whose
  result names nothing (the first created contract is taken), a target above every
  holding, a party without holdings, and a holding that came without its payload.
\<close>

theorem holdingToLock_first_fit_witness:
  "lockUSDC_holdingToLock ledgerWorld testConfig ''alice::1220aa'' (Dec 500 0) testState =
     (Inr holding2, afterQuery ''pkg:Holding:AssetHolding'' ''alice::1220aa'' testState) \<and>
   transferUSDC_holdingToTransfer ledgerWorld testConfig ''alice::1220aa'' (Dec 200 0) testState =
     (Inr (successor ledgerWorld (JStr ''h-3'') holding1 (Dec 200 0)),
      afterSubmit [splitCommand ledgerWorld testConfig holding1 (Dec 200 0)] [''alice::1220aa'']
        (afterQuery ''pkg:Holding:AssetHolding'' ''alice::1220aa'' testState)) \<and>
   lockUSDC_holdingToLock eventsOnlyWorld testConfig ''alice::1220aa'' (Dec 200 0) testState =
     (Inr (successor eventsOnlyWorld (JStr ''h-3'') holding1 (Dec 200 0)),
      afterSubmit [splitCommand eventsOnlyWorld testConfig holding1 (Dec 200 0)] [''alice::1220aa'']
        (afterQuery ''pkg:Holding:AssetHolding'' ''alice::1220aa'' testState)) \<and>
   fst (lockUSDC_holdingToLock ledgerWorld testConfig ''alice::1220aa'' (Dec 5000 0) testState) =
     Inl (Error ''Insufficient USDC balance. Need 5000, have 1500'') \<and>
   fst (lockUSDC_holdingToLock ledgerWorld testConfig ''carol::1220dd'' (Dec 200 0) testState) =
     Inl (Error ''No USDC holdings found for party carol::1220dd'') \<and>
   fst (lockUSDC_holdingToLock bareHoldingWorld testConfig ''alice::1220aa'' (Dec 200 0) testState) =
     Inl (cannotRead ''undefined'' ''assetType'')"
proof -
  have q: "queryAssetHoldings ledgerWorld testConfig p testState =
             (Inr [rawHolding1, rawHolding2], afterQuery ''pkg:Holding:AssetHolding'' p testState)" for p
    by (simp add: ledgerWorld_queryAssetHoldings)
  have qe: "queryAssetHoldings eventsOnlyWorld testConfig ''alice::1220aa'' testState =
             (Inr [rawHolding1, rawHolding2], afterQuery ''pkg:Holding:AssetHolding'' ''alice::1220aa'' testState)"
    by (simp add: eventsOnlyWorld_queryAssetHoldings)
  have qb: "queryAssetHoldings bareHoldingWorld testConfig ''alice::1220aa'' testState =
             (Inr [rawHolding9], afterQuery ''pkg:Holding:AssetHolding'' ''alice::1220aa'' testState)"
    by (simp add: bareHoldingWorld_queryAssetHoldings)
  have amounts: "holdingAmount eventsOnlyWorld holding1 = Dec 1000 0"
    "holdingAmount eventsOnlyWorld holding2 = Dec 500 0"
    "strict_eq_n eventsOnlyWorld = dec_eq" "less_eq_n eventsOnlyWorld = dec_less_eq"
    by (simp_all add: eventsOnlyWorld_def holdingAmount_def holding1_def holding2_def dec_parse_defs)
  have exact: "lockUSDC_holdingToLock ledgerWorld testConfig ''alice::1220aa'' (Dec 500 0) testState =
     (Inr holding2, afterQuery ''pkg:Holding:AssetHolding'' ''alice::1220aa'' testState)"
    using holdingToLock_first_fit [OF q [of "''alice::1220aa''"], where amt = "Dec 500 0"]
    by simp
  have split: "transferUSDC_holdingToTransfer ledgerWorld testConfig ''alice::1220aa'' (Dec 200 0) testState =
     (Inr (successor ledgerWorld (JStr ''h-3'') holding1 (Dec 200 0)),
      afterSubmit [splitCommand ledgerWorld testConfig holding1 (Dec 200 0)] [''alice::1220aa'']
        (afterQuery ''pkg:Holding:AssetHolding'' ''alice::1220aa'' testState))"
    using holdingToLock_first_fit [OF q [of "''alice::1220aa''"], where amt = "Dec 200 0"]
    by (simp add: splitCommand_def ledgerWorld_submit)
  have fallback: "lockUSDC_holdingToLock eventsOnlyWorld testConfig ''alice::1220aa'' (Dec 200 0) testState =
     (Inr (successor eventsOnlyWorld (JStr ''h-3'') holding1 (Dec 200 0)),
      afterSubmit [splitCommand eventsOnlyWorld testConfig holding1 (Dec 200 0)] [''alice::1220aa'']
        (afterQuery ''pkg:Holding:AssetHolding'' ''alice::1220aa'' testState))"
    using holdingToLock_first_fit [OF qe, where amt = "Dec 200 0"]
    by (simp add: amounts splitCommand_def eventsOnlyWorld_split splitEvents_ids)
  have insufficient: "fst (lockUSDC_holdingToLock ledgerWorld testConfig ''alice::1220aa'' (Dec 5000 0) testState) =
     Inl (Error ''Insufficient USDC balance. Need 5000, have 1500'')"
    using holdingToLock_first_fit [OF q [of "''alice::1220aa''"], where amt = "Dec 5000 0"]
    by (simp add: sumOf_def dec_parse_defs)
  have none: "fst (lockUSDC_holdingToLock ledgerWorld testConfig ''carol::1220dd'' (Dec 200 0) testState) =
     Inl (Error ''No USDC holdings found for party carol::1220dd'')"
    using holdingToLock_first_fit [OF q [of "''carol::1220dd''"], where amt = "Dec 200 0"]
    by simp
  have unread: "fst (lockUSDC_holdingToLock bareHoldingWorld testConfig ''alice::1220aa'' (Dec 200 0) testState) =
     Inl (cannotRead ''undefined'' ''assetType'')"
    using holdingToLock_first_fit [OF qb, where amt = "Dec 200 0"]
    by (simp add: rawHolding9_unread)
  from exact split fallback insufficient none unread show ?thesis by blast
qed

section \<open>The holding used for a repayment\<close>

lemma repaymentHolding_close:
  assumes "queryAssetHoldings rt cfg partyId s = (Inr contracts, s1)"
      and "mapE (asAssetHolding rt) contracts = Inr holdings"
      and "find (\<lambda>h. less_n rt (abs_n rt (minus_n rt (holdingAmount rt h) amt)) (number_literal rt ''0.01''))
        (filter (isUsdcOf partyId) holdings) = Some h"
  shows "repayLoan_repaymentHoldingCid rt cfg partyId amt s = (Inr (contractId h), s1)"
proof -
  from assms(3) have "filter (isUsdcOf partyId) holdings \<noteq> []" by auto
  with assms show ?thesis by (simp add: repayLoan_repaymentHoldingCid_def andThen_def lift_def Let_def)
qed

text \<open>
  C10. \<^verbatim>\<open>repayLoan\<close> uses, without a split, the first holding whose amount differs from the
  repayment amount by less than 0.01, whereas \<^verbatim>\<open>lockUSDC\<close> and \<^verbatim>\<open>transferUSDC\<close> return a
  holding without a split when, and only when, its amount is strictly equal to the target.
  So the holding used for a repayment may differ from the amount asked for: in the example,
  Alice repays 499.995 with her holding of 500, while a lock and a transfer of 499.995
  split a holding.
\<close>

theorem repayment_tolerance:
  "(\<forall>contracts holdings s1 h.
      queryAssetHoldings rt cfg partyId s = (Inr contracts, s1) \<and>
      mapE (asAssetHolding rt) contracts = Inr holdings \<and>
      find (\<lambda>h. less_n rt (abs_n rt (minus_n rt (holdingAmount rt h) amt)) (number_literal rt ''0.01''))
        (filter (isUsdcOf partyId) holdings) = Some h \<longrightarrow>
      repayLoan_repaymentHoldingCid rt cfg partyId amt s = (Inr (contractId h), s1) \<and>
      submitted cfg s1 = submitted cfg s) \<and>
   (\<forall>contracts holdings s1 h.
      queryAssetHoldings rt cfg partyId s = (Inr contracts, s1) \<and>
      mapE (asAssetHolding rt) contracts = Inr holdings \<and>
      find (\<lambda>h. strict_eq_n rt (holdingAmount rt h) amt) (filter (isUsdcOf partyId) holdings) = Some h \<longrightarrow>
      lockUSDC_holdingToLock rt cfg partyId amt s = (Inr h, s1) \<and>
      transferUSDC_holdingToTransfer rt cfg partyId amt s = (Inr h, s1) \<and>
      submitted cfg s1 = submitted cfg s) \<and>
   (\<forall>contracts holdings s1 h' s'.
      queryAssetHoldings rt cfg partyId s = (Inr contracts, s1) \<and>
      mapE (asAssetHolding rt) contracts = Inr holdings \<and>
      find (\<lambda>h. strict_eq_n rt (holdingAmount rt h) amt) (filter (isUsdcOf partyId) holdings) = None \<and>
      lockUSDC_holdingToLock rt cfg partyId amt s = (Inr h', s') \<longrightarrow>
      submitted cfg s' \<noteq> submitted cfg s) \<and>
   (\<forall>contracts holdings s1 h' s'.
      queryAssetHoldings rt cfg partyId s = (Inr contracts, s1) \<and>
      mapE (asAssetHolding rt) contracts = Inr holdings \<and>
      find (\<lambda>h. strict_eq_n rt (holdingAmount rt h) amt) (filter (isUsdcOf partyId) holdings) = None \<and>
      transferUSDC_holdingToTransfer rt cfg partyId amt s = (Inr h', s') \<longrightarrow>
      submitted cfg s' \<noteq> submitted cfg s) \<and>
   repayLoan_repaymentHoldingCid ledgerWorld testConfig ''alice::1220aa'' (Dec 499995 3) testState =
     (Inr (contractId holding2), afterQuery ''pkg:Holding:AssetHolding'' ''alice::1220aa'' testState) \<and>
   holdingAmount ledgerWorld holding2 = Dec 500 0 \<and>
   \<not> strict_eq_n ledgerWorld (holdingAmount ledgerWorld holding2) (Dec 499995 3) \<and>
   lockUSDC_holdingToLock ledgerWorld testConfig ''alice::1220aa'' (Dec 499995 3) testState =
     (Inr (successor ledgerWorld (JStr ''h-3'') holding1 (Dec 499995 3)),
      afterSubmit [splitCommand ledgerWorld testConfig holding1 (Dec 499995 3)] [''alice::1220aa'']
        (afterQuery ''pkg:Holding:AssetHolding'' ''alice::1220aa'' testState)) \<and>
   transferUSDC_holdingToTransfer ledgerWorld testConfig ''alice::1220aa'' (Dec 499995 3) testState =
     (Inr (successor ledgerWorld (JStr ''h-3'') holding1 (Dec 499995 3)),
      afterSubmit [splitCommand ledgerWorld testConfig holding1 (Dec 499995 3)] [''alice::1220aa'']
        (afterQuery ''pkg:Holding:AssetHolding'' ''alice::1220aa'' testState))"
proof (intro conjI allI impI)
  fix contracts holdings s1 h
  assume a: "queryAssetHoldings rt cfg partyId s = (Inr contracts, s1) \<and>
      mapE (asAssetHolding rt) contracts = Inr holdings \<and>
      find (\<lambda>h. less_n rt (abs_n rt (minus_n rt (holdingAmount rt h) amt)) (number_literal rt ''0.01''))
        (filter (isUsdcOf partyId) holdings) = Some h"
  from repaymentHolding_close [of rt cfg partyId s contracts s1 holdings amt h] a
  show "repayLoan_repaymentHoldingCid rt cfg partyId amt s = (Inr (contractId h), s1)" by blast
  from query_submitted [of rt cfg partyId s "Inr contracts" s1] a
  show "submitted cfg s1 = submitted cfg s" by blast
next
  fix contracts holdings s1 h
  assume a: "queryAssetHoldings rt cfg partyId s = (Inr contracts, s1) \<and>
      mapE (asAssetHolding rt) contracts = Inr holdings \<and>
      find (\<lambda>h. strict_eq_n rt (holdingAmount rt h) amt) (filter (isUsdcOf partyId) holdings) = Some h"
  from holdingToLock_exact [of rt cfg partyId s contracts s1 holdings amt h] a
  show "lockUSDC_holdingToLock rt cfg partyId amt s = (Inr h, s1)" by blast
  from holdingToTransfer_exact [of rt cfg partyId s contracts s1 holdings amt h] a
  show "transferUSDC_holdingToTransfer rt cfg partyId amt s = (Inr h, s1)" by blast
  from query_submitted [of rt cfg partyId s "Inr contracts" s1] a
  show "submitted cfg s1 = submitted cfg s" by blast
next
  fix contracts holdings s1 h' s'
  assume a: "queryAssetHoldings rt cfg partyId s = (Inr contracts, s1) \<and>
      mapE (asAssetHolding rt) contracts = Inr holdings \<and>
      find (\<lambda>h. strict_eq_n rt (holdingAmount rt h) amt) (filter (isUsdcOf partyId) holdings) = None \<and>
      lockUSDC_holdingToLock rt cfg partyId amt s = (Inr h', s')"
  from holdingToLock_after_split [of rt cfg partyId s contracts s1 holdings amt h' s'] a
  show "submitted cfg s' \<noteq> submitted cfg s" by auto
next
  fix contracts holdings s1 h' s'
  assume a: "queryAssetHoldings rt cfg partyId s = (Inr contracts, s1) \<and>
      mapE (asAssetHolding rt) contracts = Inr holdings \<and>
      find (\<lambda>h. strict_eq_n rt (holdingAmount rt h) amt) (filter (isUsdcOf partyId) holdings) = None \<and>
      transferUSDC_holdingToTransfer rt cfg partyId amt s = (Inr h', s')"
  from holdingToTransfer_after_split [of rt cfg partyId s contracts s1 holdings amt h' s'] a
  show "submitted cfg s' \<noteq> submitted cfg s" by auto
next
  show "repayLoan_repaymentHoldingCid ledgerWorld testConfig ''alice::1220aa'' (Dec 499995 3) testState =
     (Inr (contractId holding2), afterQuery ''pkg:Holding:AssetHolding'' ''alice::1220aa'' testState)"
    by (simp add: repayLoan_repaymentHoldingCid_def andThen_def lift_def Let_def
        ledgerWorld_queryAssetHoldings dec_parse_defs)
next
  show "holdingAmount ledgerWorld holding2 = Dec 500 0" by simp
next
  show "\<not> strict_eq_n ledgerWorld (holdingAmount ledgerWorld holding2) (Dec 499995 3)" by simp
next
  show "lockUSDC_holdingToLock ledgerWorld testConfig ''alice::1220aa'' (Dec 499995 3) testState =
     (Inr (successor ledgerWorld (JStr ''h-3'') holding1 (Dec 499995 3)),
      afterSubmit [splitCommand ledgerWorld testConfig holding1 (Dec 499995 3)] [''alice::1220aa'']
        (afterQuery ''pkg:Holding:AssetHolding'' ''alice::1220aa'' testState))"
    by (simp add: lockUSDC_holdingToLock_def andThen_def Let_def lift_def
        ledgerWorld_queryAssetHoldings splitCommand_def ledgerWorld_submit)
next
  show "transferUSDC_holdingToTransfer ledgerWorld testConfig ''alice::1220aa'' (Dec 499995 3) testState =
     (Inr (successor ledgerWorld (JStr ''h-3'') holding1 (Dec 499995 3)),
      afterSubmit [splitCommand ledgerWorld testConfig holding1 (Dec 499995 3)] [''alice::1220aa'']
        (afterQuery ''pkg:Holding:AssetHolding'' ''alice::1220aa'' testState))"
    by (simp add: transferUSDC_holdingToTransfer_def andThen_def Let_def lift_def
        ledgerWorld_queryAssetHoldings splitCommand_def ledgerWorld_submit)
qed

theorem repayment_tolerance_witness:
  "queryAssetHoldings ledgerWorld testConfig ''alice::1220aa'' testState =
     (Inr [rawHolding1, rawHolding2], afterQuery ''pkg:Holding:AssetHolding'' ''alice::1220aa'' testState) \<and>
   mapE (asAssetHolding ledgerWorld) [rawHolding1, rawHolding2] = Inr [holding1, holding2] \<and>
   find (\<lambda>h. less_n ledgerWorld (abs_n ledgerWorld (minus_n ledgerWorld (holdingAmount ledgerWorld h) (Dec 499995 3)))
               (number_literal ledgerWorld ''0.01''))
     (filter (isUsdcOf ''alice::1220aa'') [holding1, holding2]) = Some holding2 \<and>
   find (\<lambda>h. strict_eq_n ledgerWorld (holdingAmount ledgerWorld h) (Dec 499995 3))
     (filter (isUsdcOf ''alice::1220aa'') [holding1, holding2]) = None \<and>
   find (\<lambda>h. strict_eq_n ledgerWorld (holdingAmount ledgerWorld h) (Dec 500 0))
     (filter (isUsdcOf ''alice::1220aa'') [holding1, holding2]) = Some holding2 \<and>
   repayLoan_repaymentHoldingCid ledgerWorld testConfig ''alice::1220aa'' (Dec 499995 3) testState =
     (Inr (JStr ''h-2''), afterQuery ''pkg:Holding:AssetHolding'' ''alice::1220aa'' testState) \<and>
   submitted testConfig (snd (lockUSDC_holdingToLock ledgerWorld testConfig ''alice::1220aa'' (Dec 499995 3) testState))
     \<noteq> submitted testConfig testState \<and>
   submitted testConfig (snd (transferUSDC_holdingToTransfer ledgerWorld testConfig ''alice::1220aa'' (Dec 499995 3) testState))
     \<noteq> submitted testConfig testState \<and>
   lockUSDC_holdingToLock ledgerWorld testConfig ''alice::1220aa'' (Dec 500 0) testState =
     (Inr holding2, afterQuery ''pkg:Holding:AssetHolding'' ''alice::1220aa'' testState) \<and>
   transferUSDC_holdingToTransfer ledgerWorld testConfig ''alice::1220aa'' (Dec 500 0) testState =
     (Inr holding2, afterQuery ''pkg:Holding:AssetHolding'' ''alice::1220aa'' testState)"
proof -
  have q: "queryAssetHoldings ledgerWorld testConfig ''alice::1220aa'' testState =
     (Inr [rawHolding1, rawHolding2], afterQuery ''pkg:Holding:AssetHolding'' ''alice::1220aa'' testState)"
    by (simp add: ledgerWorld_queryAssetHoldings)
  have m: "mapE (asAssetHolding ledgerWorld) [rawHolding1, rawHolding2] = Inr [holding1, holding2]"
    by simp
  have c: "find (\<lambda>h. less_n ledgerWorld (abs_n ledgerWorld (minus_n ledgerWorld (holdingAmount ledgerWorld h) (Dec 499995 3)))
               (number_literal ledgerWorld ''0.01''))
     (filter (isUsdcOf ''alice::1220aa'') [holding1, holding2]) = Some holding2"
    by (simp add: dec_parse_defs)
  have n: "find (\<lambda>h. strict_eq_n ledgerWorld (holdingAmount ledgerWorld h) (Dec 499995 3))
     (filter (isUsdcOf ''alice::1220aa'') [holding1, holding2]) = None"
    by simp
  have e: "find (\<lambda>h. strict_eq_n ledgerWorld (holdingAmount ledgerWorld h) (Dec 500 0))
     (filter (isUsdcOf ''alice::1220aa'') [holding1, holding2]) = Some holding2"
    by simp
  note t = repayment_tolerance [of ledgerWorld testConfig "''alice::1220aa''" testState "Dec 499995 3"]
  note t' = repayment_tolerance [of ledgerWorld testConfig "''alice::1220aa''" testState "Dec 500 0"]
  from t q m c have r: "repayLoan_repaymentHoldingCid ledgerWorld testConfig ''alice::1220aa'' (Dec 499995 3) testState =
     (Inr (JStr ''h-2''), afterQuery ''pkg:Holding:AssetHolding'' ''alice::1220aa'' testState)"
    by simp
  from t q m n have l: "submitted testConfig (snd (lockUSDC_holdingToLock ledgerWorld testConfig ''alice::1220aa'' (Dec 499995 3) testState))
     \<noteq> submitted testConfig testState"
    by (metis snd_conv)
  from t q m n have x: "submitted testConfig (snd (transferUSDC_holdingToTransfer ledgerWorld testConfig ''alice::1220aa'' (Dec 499995 3) testState))
     \<noteq> submitted testConfig testState"
    by (metis snd_conv)
  from t' q m e have d: "lockUSDC_holdingToLock ledgerWorld testConfig ''alice::1220aa'' (Dec 500 0) testState =
       (Inr holding2, afterQuery ''pkg:Holding:AssetHolding'' ''alice::1220aa'' testState) \<and>
     transferUSDC_holdingToTransfer ledgerWorld testConfig ''alice::1220aa'' (Dec 500 0) testState =
       (Inr holding2, afterQuery ''pkg:Holding:AssetHolding'' ''alice::1220aa'' testState)"
    by blast
  from q m c n e r l x d show ?thesis by blast
qed

section \<open>The split of a holding\<close>

text \<open>
  C2. For a holding of \<open>A\<close> units and a target \<open>0 < X < A\<close>, the split of the ledger (as
  the spec describes it) yields exactly two successors, of \<open>X\<close> and of \<open>A - X\<close> units, whose
  sum is \<open>A\<close>; integers of units, so nothing is rounded. On the side of the service, the
  \<^verbatim>\<open>Split\<close> command carries the target amount as its decimal string, and the successor handed
  on is recorded under the first contract id of the result, with that same string as amount.
\<close>

theorem split_sums_exactly:
  "(0 < x \<and> x < units h \<longrightarrow>
      (\<exists>exact remainder.
         ledgerSplit h x = Some [exact, remainder] \<and>
         units exact + units remainder = units h \<and> units exact = x \<and>
         holding_owner exact = holding_owner h \<and> holding_owner remainder = holding_owner h \<and>
         holding_assetType exact = holding_assetType h \<and> holding_assetType remainder = holding_assetType h)) \<and>
   member (member (member (splitCommand rt cfg largeEnough amt) ''ExerciseCommand'') ''choiceArgument'')
     ''splitAmount'' = JStr (toString_n rt amt) \<and>
   member (member (splitCommand rt cfg largeEnough amt) ''ExerciseCommand'') ''contractId'' =
     contractId largeEnough \<and>
   contractId (successor rt cid largeEnough amt) = cid \<and>
   amount (payload (successor rt cid largeEnough amt)) = toString_n rt amt \<and>
   owner (payload (successor rt cid largeEnough amt)) = owner (payload largeEnough) \<and>
   assetType (payload (successor rt cid largeEnough amt)) = assetType (payload largeEnough)"
  by (simp add: ledgerSplit_def splitCommand_def exerciseCmd_def successor_def)

theorem split_sums_exactly_witness:
  "ledgerSplit \<lparr>holding_owner = ''alice::1220aa'', holding_assetType = ''USDC'', units = 10000000000000\<rparr>
     2000000000000 =
     Some [\<lparr>holding_owner = ''alice::1220aa'', holding_assetType = ''USDC'', units = 2000000000000\<rparr>,
           \<lparr>holding_owner = ''alice::1220aa'', holding_assetType = ''USDC'', units = 8000000000000\<rparr>] \<and>
   (2000000000000 :: int) + 8000000000000 = 10000000000000 \<and>
   amount (payload (successor ledgerWorld (JStr ''h-3'') holding1 (Dec 200 0))) = ''200''"
  using split_sums_exactly [of 2000000000000
      "\<lparr>holding_owner = ''alice::1220aa'', holding_assetType = ''USDC'', units = 10000000000000\<rparr>"
      ledgerWorld testConfig holding1 "Dec 200 0" "JStr ''h-3''"]
  by (simp add: ledgerSplit_def)

section \<open>Creating a loan offer\<close>

text \<open>\<^verbatim>\<open>lockAmulet\<close> talks to the wallet only; \<^verbatim>\<open>lockUSDC\<close> never returns a falsy reference.\<close>

lemma quiet_lockAmulet: "quiet cfg (lockAmulet rt cfg' partyId amt lockHolder expiresAt userToken)"
  unfolding lockAmulet_def Let_def
  by (intro quiet_intros quiet_queries quiet_walletApiFetch quiet_if) simp

lemma lockUSDC_truthy:
  assumes "lockUSDC rt cfg partyId amt lockReason' releaseTo' s = (Inr lockedCid, s1)"
  shows "truthy rt lockedCid"
  using assms unfolding lockUSDC_def andThen_def consoleError_def reject_def resolve_def
  by (auto split: sum.splits prod.splits if_splits)

lemma offerArguments_fields:
  "member (offerArguments rt cfg partyId offer' lockedCC lockedUSDC today') ''lockedCCCollateral'' = lockedCC"
  "member (offerArguments rt cfg partyId offer' lockedCC lockedUSDC today') ''lockedUSDCPrincipal'' = lockedUSDC"
  "member (offerArguments rt cfg partyId offer' lockedCC lockedUSDC today') ''ltvRatio'' = JStr (toString_n rt (defaultLtv cfg))"
  "member (offerArguments rt cfg partyId offer' lockedCC lockedUSDC today') ''ccPrice'' = JStr (toString_n rt (ccPrice cfg))"
  "member (offerArguments rt cfg partyId offer' lockedCC lockedUSDC today') ''createdAt'' = JStr today'"
  "member (offerArguments rt cfg partyId offer' lockedCC lockedUSDC today') ''offerType'' = JStr (offerTypeName (offerType offer'))"
  by (simp_all add: offerArguments_def)

lemma createLoanOffer_bid:
  assumes b: "offerType offer' = BorrowerBid"
      and r: "fst (createLoanOffer rt cfg partyId offer' userToken s) = Inr result"
  shows "\<exists>today' expiresAt lockRef s1.
           today rt s = (Inr today', s) \<and>
           endOfDay rt (offer_maturityDate offer') = Inr expiresAt \<and>
           lockAmulet rt cfg partyId (parseFloat rt (offer_collateralAmount offer')) (adminPartyId cfg)
             expiresAt userToken s = (Inr lockRef, s1) \<and>
           submitCommand rt cfg
             [createCmd (templateId cfg ''LoanOfferHybrid:LoanOfferHybrid'')
                (offerArguments rt cfg partyId offer' lockRef JNull today')] [partyId] s1 =
             (Inr result, snd (createLoanOffer rt cfg partyId offer' userToken s))"
proof -
  obtain t where t: "today rt s = (t, s)" by (metis today_state prod.collapse)
  have "\<And>e. t = Inl e \<Longrightarrow> fst (createLoanOffer rt cfg partyId offer' userToken s) = Inl e"
    using t by (simp add: createLoanOffer_def andThen_def)
  with r obtain today' where t': "today rt s = (Inr today', s)"
    using t by (cases t) auto
  have "\<And>e. endOfDay rt (offer_maturityDate offer') = Inl e \<Longrightarrow>
          fst (createLoanOffer rt cfg partyId offer' userToken s) = Inl e"
    using t' b by (simp add: createLoanOffer_def andThen_def lift_def)
  with r obtain expiresAt where e: "endOfDay rt (offer_maturityDate offer') = Inr expiresAt"
    by (cases "endOfDay rt (offer_maturityDate offer')") auto
  obtain l s1 where l: "lockAmulet rt cfg partyId (parseFloat rt (offer_collateralAmount offer')) (adminPartyId cfg)
             expiresAt userToken s = (l, s1)" by (meson surj_pair)
  have "\<And>e. l = Inl e \<Longrightarrow> fst (createLoanOffer rt cfg partyId offer' userToken s) = Inl e"
    using t' b e l by (simp add: createLoanOffer_def andThen_def lift_def)
  with r obtain lockRef where l': "lockAmulet rt cfg partyId (parseFloat rt (offer_collateralAmount offer'))
             (adminPartyId cfg) expiresAt userToken s = (Inr lockRef, s1)"
    using l by (cases l) auto
  have "createLoanOffer rt cfg partyId offer' userToken s =
          submitCommand rt cfg
             [createCmd (templateId cfg ''LoanOfferHybrid:LoanOfferHybrid'')
                (offerArguments rt cfg partyId offer' lockRef JNull today')] [partyId] s1"
    using t' b e l' by (simp add: createLoanOffer_def andThen_def lift_def resolve_def)
  with r have
    "submitCommand rt cfg
             [createCmd (templateId cfg ''LoanOfferHybrid:LoanOfferHybrid'')
                (offerArguments rt cfg partyId offer' lockRef JNull today')] [partyId] s1 =
             (Inr result, snd (createLoanOffer rt cfg partyId offer' userToken s))"
    by (simp add: prod_eq_iff)
  with t' e l' show ?thesis by blast
qed

lemma createLoanOffer_ask:
  assumes b: "offerType offer' = LenderAsk"
      and r: "fst (createLoanOffer rt cfg partyId offer' userToken s) = Inr result"
  shows "\<exists>today' lockRef s1.
           today rt s = (Inr today', s) \<and>
           lockUSDC rt cfg partyId (parseFloat rt (offer_loanAmount offer'))
             (''LenderAsk for '' @ offer_loanAmount offer' @ '' USDC loan'') partyId s = (Inr lockRef, s1) \<and>
           submitCommand rt cfg
             [createCmd (templateId cfg ''LoanOfferHybrid:LoanOfferHybrid'')
                (offerArguments rt cfg partyId offer' JNull lockRef today')] [partyId] s1 =
             (Inr result, snd (createLoanOffer rt cfg partyId offer' userToken s))"
proof -
  obtain t where t: "today rt s = (t, s)" by (metis today_state prod.collapse)
  have "\<And>e. t = Inl e \<Longrightarrow> fst (createLoanOffer rt cfg partyId offer' userToken s) = Inl e"
    using t by (simp add: createLoanOffer_def andThen_def)
  with r obtain today' where t': "today rt s = (Inr today', s)"
    using t by (cases t) auto
  obtain l s1 where l: "lockUSDC rt cfg partyId (parseFloat rt (offer_loanAmount offer'))
             (''LenderAsk for '' @ offer_loanAmount offer' @ '' USDC loan'') partyId s = (l, s1)"
    by (meson surj_pair)
  have "\<And>e. l = Inl e \<Longrightarrow> fst (createLoanOffer rt cfg partyId offer' userToken s) = Inl e"
    using t' b l by (simp add: createLoanOffer_def andThen_def lift_def del: append.simps)
  with r obtain lockRef where l': "lockUSDC rt cfg partyId (parseFloat rt (offer_loanAmount offer'))
             (''LenderAsk for '' @ offer_loanAmount offer' @ '' USDC loan'') partyId s = (Inr lockRef, s1)"
    using l by (cases l) auto
  have "createLoanOffer rt cfg partyId offer' userToken s =
          submitCommand rt cfg
             [createCmd (templateId cfg ''LoanOfferHybrid:LoanOfferHybrid'')
                (offerArguments rt cfg partyId offer' JNull lockRef today')] [partyId] s1"
    using t' b l' by (simp add: createLoanOffer_def andThen_def lift_def resolve_def del: append.simps)
  with r have
    "submitCommand rt cfg
             [createCmd (templateId cfg ''LoanOfferHybrid:LoanOfferHybrid'')
                (offerArguments rt cfg partyId offer' JNull lockRef today')] [partyId] s1 =
             (Inr result, snd (createLoanOffer rt cfg partyId offer' userToken s))"
    by (simp add: prod_eq_iff)
  with t' l' show ?thesis by blast
qed

text \<open>
  What every successful \<^verbatim>\<open>createLoanOffer\<close> has done: it has taken one lock, by the type of
  the offer, and has then submitted one create command of \<^verbatim>\<open>LoanOfferHybrid\<close>. For a
  \<^verbatim>\<open>BorrowerBid\<close> the lock is whatever \<^verbatim>\<open>lockAmulet\<close> returned (no command is submitted for
  it), it is the \<^verbatim>\<open>lockedCCCollateral\<close> of the command, and \<^verbatim>\<open>lockedUSDCPrincipal\<close> is null.
  For a \<^verbatim>\<open>LenderAsk\<close> the lock is the one \<^verbatim>\<open>lockUSDC\<close> returned, a truthy reference, it is
  the \<^verbatim>\<open>lockedUSDCPrincipal\<close>, and \<^verbatim>\<open>lockedCCCollateral\<close> is null. In both cases the
  command carries the configured \<^verbatim>\<open>defaultLtv\<close> and \<^verbatim>\<open>ccPrice\<close> as strings, and the date of
  the call as \<^verbatim>\<open>createdAt\<close>.
\<close>

lemma createLoanOffer_arguments:
  assumes "fst (createLoanOffer rt cfg partyId offer' userToken s) = Inr result"
  shows "\<exists>today' lockRef s1 args.
           today rt s = (Inr today', s) \<and>
           (case offerType offer' of
              BorrowerBid \<Rightarrow>
                (\<exists>expiresAt.
                   endOfDay rt (offer_maturityDate offer') = Inr expiresAt \<and>
                   lockAmulet rt cfg partyId (parseFloat rt (offer_collateralAmount offer'))
                     (adminPartyId cfg) expiresAt userToken s = (Inr lockRef, s1)) \<and>
                submitted cfg s1 = submitted cfg s \<and>
                args = offerArguments rt cfg partyId offer' lockRef JNull today' \<and>
                member args ''lockedCCCollateral'' = lockRef \<and>
                member args ''lockedUSDCPrincipal'' = JNull
            | LenderAsk \<Rightarrow>
                lockUSDC rt cfg partyId (parseFloat rt (offer_loanAmount offer'))
                  (''LenderAsk for '' @ offer_loanAmount offer' @ '' USDC loan'') partyId s = (Inr lockRef, s1) \<and>
                truthy rt lockRef \<and>
                args = offerArguments rt cfg partyId offer' JNull lockRef today' \<and>
                member args ''lockedUSDCPrincipal'' = lockRef \<and>
                member args ''lockedCCCollateral'' = JNull) \<and>
           member args ''offerType'' = JStr (offerTypeName (offerType offer')) \<and>
           member args ''ltvRatio'' = JStr (toString_n rt (defaultLtv cfg)) \<and>
           member args ''ccPrice'' = JStr (toString_n rt (ccPrice cfg)) \<and>
           member args ''createdAt'' = JStr today' \<and>
           submitted cfg (snd (createLoanOffer rt cfg partyId offer' userToken s)) =
             submitted cfg s1 @ [JArr [createCmd (templateId cfg ''LoanOfferHybrid:LoanOfferHybrid'') args]]"
proof (cases "offerType offer'")
  case BorrowerBid
  from createLoanOffer_bid [OF BorrowerBid assms] obtain today' expiresAt lockRef s1 where
    t: "today rt s = (Inr today', s)" and
    e: "endOfDay rt (offer_maturityDate offer') = Inr expiresAt" and
    l: "lockAmulet rt cfg partyId (parseFloat rt (offer_collateralAmount offer')) (adminPartyId cfg)
          expiresAt userToken s = (Inr lockRef, s1)" and
    c: "submitCommand rt cfg
          [createCmd (templateId cfg ''LoanOfferHybrid:LoanOfferHybrid'')
             (offerArguments rt cfg partyId offer' lockRef JNull today')] [partyId] s1 =
          (Inr result, snd (createLoanOffer rt cfg partyId offer' userToken s))"
    by blast
  have "submitted cfg (snd (lockAmulet rt cfg partyId (parseFloat rt (offer_collateralAmount offer'))
          (adminPartyId cfg) expiresAt userToken s)) = submitted cfg s"
    by (rule quietD [OF quiet_lockAmulet])
  with l have q: "submitted cfg s1 = submitted cfg s" by simp
  from t e l q submitCommand_sent [OF c] BorrowerBid show ?thesis
    by (simp add: offerArguments_fields)
next
  case LenderAsk
  from createLoanOffer_ask [OF LenderAsk assms] obtain today' lockRef s1 where
    t: "today rt s = (Inr today', s)" and
    l: "lockUSDC rt cfg partyId (parseFloat rt (offer_loanAmount offer'))
          (''LenderAsk for '' @ offer_loanAmount offer' @ '' USDC loan'') partyId s = (Inr lockRef, s1)" and
    c: "submitCommand rt cfg
          [createCmd (templateId cfg ''LoanOfferHybrid:LoanOfferHybrid'')
             (offerArguments rt cfg partyId offer' JNull lockRef today')] [partyId] s1 =
          (Inr result, snd (createLoanOffer rt cfg partyId offer' userToken s))"
    by blast
  from t l lockUSDC_truthy [OF l] submitCommand_sent [OF c] LenderAsk show ?thesis
    by (simp add: offerArguments_fields del: append.simps)
qed

text \<open>The two offers of the example: the wallet's offer \<open>offer-7\<close>, and the lock \<open>l-9\<close> of the 500 holding.\<close>

lemma ledgerWorld_endOfDay: "endOfDay ledgerWorld ''2026-06-30'' = Inr ''2026-06-30T23:59:59.000Z''"
  by (simp add: endOfDay_def)

lemma ledgerWorld_lockAmulet:
  "ready s \<Longrightarrow>
   \<exists>s1. lockAmulet ledgerWorld testConfig ''alice::1220aa'' (Dec 1000 0) holder ''2026-06-30T23:59:59.000Z'' None s
           = (Inr (JStr ''offer-7''), s1) \<and> ready s1 \<and> submitted testConfig s1 = submitted testConfig s"
  by (simp add: lockAmulet_def andThen_def Let_def lift_def Date_now_def Math_random36_def
      ledgerWorld_queryAmulets ledgerWorld_wallet sumOf_def calculateAmuletAmount_def amulet1_def
      dec_parse_defs get_def transferOfferDoc_def)

lemma silentWalletWorld_lockAmulet:
  "ready s \<Longrightarrow>
   \<exists>s1. lockAmulet silentWalletWorld testConfig ''alice::1220aa'' (Dec 1000 0) holder ''2026-06-30T23:59:59.000Z'' None s
           = (Inr JUndefined, s1) \<and> ready s1 \<and> submitted testConfig s1 = submitted testConfig s"
  by (simp add: lockAmulet_def andThen_def Let_def lift_def Date_now_def Math_random36_def
      silentWalletWorld_queryAmulets silentWalletWorld_wallet sumOf_def calculateAmuletAmount_def
      amulet1_def dec_parse_defs get_def)

lemma ledgerWorld_lockUSDC:
  "\<exists>s1. lockUSDC ledgerWorld testConfig ''alice::1220aa'' (Dec 500 0) reason ''alice::1220aa'' testState
           = (Inr (JStr ''l-9''), s1) \<and> ready s1 \<and>
         submitted testConfig s1 =
           [JArr [exerciseCmd ''pkg:Holding:AssetHolding'' (JStr ''h-2'') ''Lock''
                    (JObj [(''lockReason'', JStr reason), (''releaseTo'', JStr ''alice::1220aa'')])]]"
  by (simp add: lockUSDC_def andThen_def Let_def lift_def resolve_def
      holdingToLock_exact [OF ledgerWorld_queryAssetHoldings [OF ready_testState]]
      ledgerWorld_submit getExerciseResult_def transactionEvents_def lockResultDoc_def json_defs
      templateId_def)

lemma createLoanOffer_examples:
  "fst (createLoanOffer ledgerWorld testConfig ''alice::1220aa'' borrowerBid None testState) = Inr createResultDoc \<and>
   submitted testConfig (snd (createLoanOffer ledgerWorld testConfig ''alice::1220aa'' borrowerBid None testState)) =
     [JArr [createCmd ''pkg:LoanOfferHybrid:LoanOfferHybrid''
              (offerArguments ledgerWorld testConfig ''alice::1220aa'' borrowerBid (JStr ''offer-7'') JNull
                 ''2026-03-01'')]] \<and>
   fst (createLoanOffer ledgerWorld testConfig ''alice::1220aa'' lenderAsk None testState) = Inr createResultDoc \<and>
   submitted testConfig (snd (createLoanOffer ledgerWorld testConfig ''alice::1220aa'' lenderAsk None testState)) =
     [JArr [exerciseCmd ''pkg:Holding:AssetHolding'' (JStr ''h-2'') ''Lock''
              (JObj [(''lockReason'', JStr ''LenderAsk for 500 USDC loan''),
                     (''releaseTo'', JStr ''alice::1220aa'')])],
      JArr [createCmd ''pkg:LoanOfferHybrid:LoanOfferHybrid''
              (offerArguments ledgerWorld testConfig ''alice::1220aa'' lenderAsk JNull (JStr ''l-9'')
                 ''2026-03-01'')]]"
proof -
  obtain a where a: "lockAmulet ledgerWorld testConfig ''alice::1220aa'' (Dec 1000 0) ''admin::1220aa''
      ''2026-06-30T23:59:59.000Z'' None testState = (Inr (JStr ''offer-7''), a)"
    and ra: "ready a" and sa: "submitted testConfig a = []"
    using ledgerWorld_lockAmulet [OF ready_testState, of "''admin::1220aa''"] by auto
  obtain u where u: "lockUSDC ledgerWorld testConfig ''alice::1220aa'' (Dec 500 0)
      ''LenderAsk for 500 USDC loan'' ''alice::1220aa'' testState = (Inr (JStr ''l-9''), u)"
    and ru: "ready u" and su: "submitted testConfig u =
           [JArr [exerciseCmd ''pkg:Holding:AssetHolding'' (JStr ''h-2'') ''Lock''
                    (JObj [(''lockReason'', JStr ''LenderAsk for 500 USDC loan''),
                           (''releaseTo'', JStr ''alice::1220aa'')])]]"
    using ledgerWorld_lockUSDC [of "''LenderAsk for 500 USDC loan''"] by auto
  have pc: "dec_parseFloat (offer_collateralAmount borrowerBid) = Dec 1000 0"
    and pl: "dec_parseFloat ''500'' = Dec 500 0"
    by (simp_all add: borrowerBid_def lenderAsk_def dec_parse_defs)
  have fields: "offerType borrowerBid = BorrowerBid" "offerType lenderAsk = LenderAsk"
    "offer_maturityDate borrowerBid = ''2026-06-30''" "offer_loanAmount lenderAsk = ''500''"
    by (simp_all add: borrowerBid_def lenderAsk_def)
  have bid: "fst (createLoanOffer ledgerWorld testConfig ''alice::1220aa'' borrowerBid None testState) =
      Inr createResultDoc"
    using a ra
    by (simp add: createLoanOffer_def andThen_def lift_def resolve_def ledgerWorld_today
        ledgerWorld_endOfDay pc fields ledgerWorld_submit)
  have ask: "fst (createLoanOffer ledgerWorld testConfig ''alice::1220aa'' lenderAsk None testState) =
      Inr createResultDoc"
    using u ru
    by (simp add: createLoanOffer_def andThen_def lift_def resolve_def ledgerWorld_today
        pl fields ledgerWorld_submit)
  from createLoanOffer_arguments [OF bid] a sa
  have "submitted testConfig (snd (createLoanOffer ledgerWorld testConfig ''alice::1220aa'' borrowerBid None testState)) =
     [JArr [createCmd ''pkg:LoanOfferHybrid:LoanOfferHybrid''
              (offerArguments ledgerWorld testConfig ''alice::1220aa'' borrowerBid (JStr ''offer-7'') JNull
                 ''2026-03-01'')]]"
    by (auto simp add: ledgerWorld_today ledgerWorld_endOfDay pc fields templateId_def)
  moreover from createLoanOffer_arguments [OF ask] u su
  have "submitted testConfig (snd (createLoanOffer ledgerWorld testConfig ''alice::1220aa'' lenderAsk None testState)) =
     [JArr [exerciseCmd ''pkg:Holding:AssetHolding'' (JStr ''h-2'') ''Lock''
              (JObj [(''lockReason'', JStr ''LenderAsk for 500 USDC loan''),
                     (''releaseTo'', JStr ''alice::1220aa'')])],
      JArr [createCmd ''pkg:LoanOfferHybrid:LoanOfferHybrid''
              (offerArguments ledgerWorld testConfig ''alice::1220aa'' lenderAsk JNull (JStr ''l-9'')
                 ''2026-03-01'')]]"
    by (auto simp add: ledgerWorld_today pl fields templateId_def)
  ultimately show ?thesis using bid ask by blast
qed

text \<open>
  C4. Not every successful \<^verbatim>\<open>createLoanOffer\<close> has one lock field populated. When the wallet
  answers the creation of the transfer offer with status 200 and an empty body,
  \<^verbatim>\<open>walletApiFetch\<close> returns \<^verbatim>\<open>{}\<close>, \<^verbatim>\<open>lockAmulet\<close> returns \<^verbatim>\<open>undefined\<close> as the lock
  reference, and \<^verbatim>\<open>createLoanOffer\<close> for a \<^verbatim>\<open>BorrowerBid\<close> succeeds all the same: the one
  command it submits creates an offer whose \<^verbatim>\<open>lockedCCCollateral\<close> is \<^verbatim>\<open>undefined\<close> and whose
  \<^verbatim>\<open>lockedUSDCPrincipal\<close> is null. (\<^verbatim>\<open>lockUSDC\<close>, on the other side, fails when the ledger
  returns no lock reference.)
\<close>

theorem createLoanOffer_missing_lock:
  "fst (lockAmulet silentWalletWorld testConfig ''alice::1220aa'' (Dec 1000 0) ''admin::1220aa''
          ''2026-06-30T23:59:59.000Z'' None testState) = Inr JUndefined \<and>
   fst (createLoanOffer silentWalletWorld testConfig ''alice::1220aa'' borrowerBid None testState) =
     Inr createResultDoc \<and>
   submitted testConfig
     (snd (createLoanOffer silentWalletWorld testConfig ''alice::1220aa'' borrowerBid None testState)) =
     [JArr [createCmd ''pkg:LoanOfferHybrid:LoanOfferHybrid''
              (offerArguments silentWalletWorld testConfig ''alice::1220aa'' borrowerBid JUndefined JNull
                 ''2026-03-01'')]] \<and>
   member (offerArguments silentWalletWorld testConfig ''alice::1220aa'' borrowerBid JUndefined JNull
             ''2026-03-01'') ''lockedCCCollateral'' = JUndefined \<and>
   member (offerArguments silentWalletWorld testConfig ''alice::1220aa'' borrowerBid JUndefined JNull
             ''2026-03-01'') ''lockedUSDCPrincipal'' = JNull \<and>
   \<not> truthy silentWalletWorld JUndefined \<and> \<not> truthy silentWalletWorld JNull"
proof -
  obtain a where a: "lockAmulet silentWalletWorld testConfig ''alice::1220aa'' (Dec 1000 0) ''admin::1220aa''
      ''2026-06-30T23:59:59.000Z'' None testState = (Inr JUndefined, a)"
    and ra: "ready a" and sa: "submitted testConfig a = []"
    using silentWalletWorld_lockAmulet [OF ready_testState, of "''admin::1220aa''"] by auto
  have pc: "dec_parseFloat (offer_collateralAmount borrowerBid) = Dec 1000 0"
    by (simp add: borrowerBid_def dec_parse_defs)
  have fields: "offerType borrowerBid = BorrowerBid" "offer_maturityDate borrowerBid = ''2026-06-30''"
    by (simp_all add: borrowerBid_def)
  have today': "today silentWalletWorld testState = (Inr ''2026-03-01'', testState)"
    by (simp add: today_def testState_def)
  have eod: "endOfDay silentWalletWorld ''2026-06-30'' = Inr ''2026-06-30T23:59:59.000Z''"
    by (simp add: endOfDay_def)
  have run: "createLoanOffer silentWalletWorld testConfig ''alice::1220aa'' borrowerBid None testState =
      (Inr createResultDoc,
       afterSubmit [createCmd ''pkg:LoanOfferHybrid:LoanOfferHybrid''
              (offerArguments silentWalletWorld testConfig ''alice::1220aa'' borrowerBid JUndefined JNull
                 ''2026-03-01'')] [''alice::1220aa''] a)"
    using a ra
    by (simp add: createLoanOffer_def andThen_def lift_def resolve_def today' eod pc fields
        silentWalletWorld_create templateId_def)
  from a sa run show ?thesis
    by (simp add: offerArguments_fields)
qed

section \<open>The transaction stream\<close>

lemma getTransactionStream_result:
  assumes "getLedgerApiToken rt cfg s = (Inr token, s1)"
      and "fetch rt (sent s1) (updatesRequest rt cfg partyId fromOffset token) = Inr response"
      and "ok response"
      and "decodeTransactions rt (streamItems rt (body_text response)) = Inr transactions"
  shows "getTransactionStream rt cfg partyId fromOffset s =
           (Inr (take 50 transactions),
            s1\<lparr>sent := sent s1 @ [updatesRequest rt cfg partyId fromOffset token],
               clock := settled_at rt (sent s1) (updatesRequest rt cfg partyId fromOffset token)\<rparr>)"
  using assms
  by (simp add: getTransactionStream_def andThen_def customFetch_def lift_def resolve_def)




text \<open>The two streams of the examples.\<close>

lemma streamAnswer_updates:
  "streamAnswer txt (updatesRequest rt testConfig partyId fromOffset token) =
     Inr \<lparr>ok = True, status = Dec 200 0, body_text = txt\<rparr>"
  by (simp add: streamAnswer_def updatesRequest_def okResponse_def)








lemma last_names: "showNat 51 = ''51''" "showNat 1 = ''1''" "minuteOf 51 = ''51''" "minuteOf 1 = ''01''"
  by (simp_all add: minuteOf_def)







text \<open>The stream of the second example, line by line.\<close>

lemma trim_Nil [simp]: "trim [] = []"
  by (simp add: trim_def)

lemma trim_Cons_nonempty: "\<not> is_space c \<Longrightarrow> trim (c # cs) \<noteq> []"
  by (simp add: trim_def dropWhile_append)

lemma splitOn_line: "c \<notin> set xs \<Longrightarrow> splitOn c (xs @ c # ys) = xs # splitOn c ys"
  by (induction xs) auto

lemma splitOn_last: "c \<notin> set xs \<Longrightarrow> splitOn c xs = [xs]"
  by (induction xs) auto

lemma lines_parse:
  "JSON_parse linesWorld linesText = None"
  "JSON_parse linesWorld line1Text = Some line1Doc"
  "JSON_parse linesWorld line2Text = Some line2Doc"
  "JSON_parse linesWorld line3Text = Some line3Doc"
  by (simp_all add: linesWorld_def linesText_def line1Text_def line2Text_def line3Text_def)

lemma lines_plain:
  "CHR 0x0A \<notin> set line1Text" "CHR 0x0A \<notin> set line2Text" "CHR 0x0A \<notin> set line3Text"
  "trim line1Text \<noteq> []" "trim line2Text \<noteq> []" "trim line3Text \<noteq> []"
  by (simp_all add: line1Text_def line2Text_def line3Text_def trim_Cons_nonempty is_space_def)

lemma lines_split: "splitOn (CHR 0x0A) linesText = [line1Text, line2Text, [], line3Text, []]"
  by (simp add: linesText_def splitOn_line splitOn_last lines_plain)

lemma lines_truthy: "truthy rt line1Doc" "truthy rt line2Doc" "truthy rt line3Doc"
  by (simp_all add: line1Doc_def line2Doc_def line3Doc_def)

lemma linesWorld_items:
  "streamItems linesWorld linesText = [line1Doc, line2Doc, line3Doc]"
  by (simp add: streamItems_def lines_parse lines_split lines_plain lines_truthy)

lemma linesWorld_decode:
  "decodeTransactions linesWorld [line1Doc, line2Doc, line3Doc] = Inr [lineTx1, lineTx2]"
  by (simp add: linesWorld_def line1Doc_def line2Doc_def line3Doc_def unwrapTransaction_def json_defs
      arrayOf_def normalizeEvent_def Let_def lineTx1_def lineTx2_def)

lemma linesWorld_stream:
  "getTransactionStream linesWorld testConfig partyId fromOffset testState =
     (Inr [lineTx1, lineTx2],
      testState\<lparr>sent := [updatesRequest linesWorld testConfig partyId fromOffset (JStr ''ledger-token'')],
                 clock := Dec 1772357400250 0\<rparr>)"
proof -
  have t: "getLedgerApiToken linesWorld testConfig testState = (Inr (JStr ''ledger-token''), testState)"
    by (simp add: linesWorld_def testRuntime_token)
  have f: "fetch linesWorld (sent testState)
             (updatesRequest linesWorld testConfig partyId fromOffset (JStr ''ledger-token'')) =
           Inr \<lparr>ok = True, status = Dec 200 0, body_text = linesText\<rparr>"
    by (simp add: linesWorld_def streamAnswer_updates)
  have d: "decodeTransactions linesWorld
             (streamItems linesWorld (body_text \<lparr>ok = True, status = Dec 200 0, body_text = linesText\<rparr>)) =
           Inr [lineTx1, lineTx2]"
    by (simp add: linesWorld_items linesWorld_decode del: decodeTransactions.simps)
  have s: "settled_at linesWorld = (\<lambda>history request. Dec 1772357400250 0)"
    by (simp add: linesWorld_def)
  from getTransactionStream_result [OF t f _ d] show ?thesis
    by (simp add: s)
qed



end
